theory Spec2Isabelle
  imports Complex_Main "HOL-Library.AList"
begin

section \<open>JavaScript values and objects\<close>

text \<open>
  The shims exchange plain JSON-like values with the host framework. A value is a
  primitive, an array or an object; an object is a list of properties in insertion
  order. \<open>JUuid n\<close> stands for the \<open>n\<close>-th identifier string generated by the wrapped
  data-set library for an item that was added without an \<open>id\<close>; \<open>JRef a\<close> is a
  reference to a mutable object kept in a store at address \<open>a\<close> (used where the code
  shares objects). Numbers are reals: \<open>NaN\<close> and the infinities do not occur in the
  code modelled here.
\<close>

datatype jsval =
    JUndefined
  | JNull
  | JBool bool
  | JNum real
  | JStr string
  | JUuid nat
  | JRef nat
  | JArr "jsval list"
  | JObj "(string \<times> jsval) list"

type_synonym obj = "(string \<times> jsval) list"

text \<open>Property read \<open>o.k\<close> on an object: a missing property reads as \<open>undefined\<close>.\<close>

definition get_prop :: "obj \<Rightarrow> string \<Rightarrow> jsval" where
  "get_prop ob k = (case map_of ob k of None \<Rightarrow> JUndefined | Some v \<Rightarrow> v)"

text \<open>
  Object spread \<open>{...a, ...b}\<close>, also \<open>Object.assign(a, b)\<close>: every property of \<open>b\<close> is
  assigned onto \<open>a\<close>, overwriting in place or appending.
\<close>

definition spread :: "obj \<Rightarrow> obj \<Rightarrow> obj" where
  "spread a b = fold (\<lambda>(k, v) acc. AList.update k v acc) b a"

fun truthy :: "jsval \<Rightarrow> bool" where
  "truthy JUndefined = False"
| "truthy JNull = False"
| "truthy (JBool b) = b"
| "truthy (JNum r) = (r \<noteq> 0)"
| "truthy (JStr s) = (s \<noteq> [])"
| "truthy (JUuid n) = True"
| "truthy (JRef a) = True"
| "truthy (JArr xs) = True"
| "truthy (JObj ob) = True"

text \<open>\<open>a || b\<close>\<close>

definition js_or :: "jsval \<Rightarrow> jsval \<Rightarrow> jsval" where
  "js_or a b = (if truthy a then a else b)"

text \<open>
  Strict equality \<open>a === b\<close>. Primitives are compared by value. Arrays and objects are
  compared by reference in JavaScript; the values compared in this code come from
  different sources (a stored item and a call argument), so two of them are never the
  same reference.
\<close>

fun strict_eq :: "jsval \<Rightarrow> jsval \<Rightarrow> bool" where
  "strict_eq (JObj a) b = False"
| "strict_eq (JArr a) b = False"
| "strict_eq a b = (a = b)"

text \<open>\<open>xs.includes(v)\<close>\<close>

definition js_includes :: "jsval list \<Rightarrow> jsval \<Rightarrow> bool" where
  "js_includes xs v = list_ex (\<lambda>x. strict_eq x v) xs"

text \<open>\<open>v != null\<close>: neither \<open>undefined\<close> nor \<open>null\<close>.\<close>

definition not_nullish :: "jsval \<Rightarrow> bool" where
  "not_nullish v = (v \<noteq> JUndefined \<and> v \<noteq> JNull)"

text \<open>Errors raised by the wrapped libraries, as values.\<close>

datatype js_error =
    AlreadyExists jsval
  | NodeNotFound jsval
  | LinkEndMissing jsval
  | TypeError

section \<open>Tables kept in plain objects\<close>

text \<open>
  Every script keeps its instances in an object used as a dictionary
  (\<open>networks: {}\<close>, \<open>instances: {}\<close>, \<open>let networkInstances = {}\<close>,
  \<open>let graphInstances = {}\<close>), and \<open>styleNode\<close> keeps its styles in one. Such an object
  inherits the members of \<open>Object.prototype\<close>: reading \<open>table[k]\<close> for a name \<open>k\<close> that
  was never stored gives \<open>undefined\<close> only when \<open>k\<close> is not one of these members. A read
  has three outcomes: nothing (\<open>Missing\<close>), an inherited member (\<open>Inherited\<close>: a function,
  or \<open>Object.prototype\<close> itself under the name \<open>__proto__\<close>; truthy, without any of the
  properties of an instance), or the stored value (\<open>Own\<close>).

  The stored values of a table are a map. Assigning under the name \<open>__proto__\<close> does not
  store a property but makes the value the prototype of the table; reading that name
  gives the value back, and \<open>delete\<close> does not remove it. The entry of the map at
  \<open>__proto__\<close> stands for this prototype. The members that the table then inherits from
  the value are members of library objects and are not modelled: the statements about
  names without an instance are made for tables with no entry at \<open>__proto__\<close>
  (\<open>unregistered\<close>).

  The scripts are modelled one by one: a table is read against the members of
  \<open>Object.prototype\<close> as the language defines them, together with what the script
  itself puts there.
\<close>

datatype 'a slot = Missing | Inherited | Own 'a

definition object_prototype_members :: "string list" where
  "object_prototype_members =
     [''constructor'', ''__defineGetter__'', ''__defineSetter__'', ''hasOwnProperty'',
      ''__lookupGetter__'', ''__lookupSetter__'', ''isPrototypeOf'', ''propertyIsEnumerable'',
      ''toString'', ''valueOf'', ''__proto__'', ''toLocaleString'']"

text \<open>\<open>table[k]\<close>\<close>

definition table_get :: "(string \<rightharpoonup> 'a) \<Rightarrow> string \<Rightarrow> 'a slot" where
  "table_get t k =
     (case t k of
        Some v \<Rightarrow> Own v
      | None \<Rightarrow> if k \<in> set object_prototype_members then Inherited else Missing)"

text \<open>\<open>delete table[k]\<close>\<close>

definition table_delete :: "(string \<rightharpoonup> 'a) \<Rightarrow> string \<Rightarrow> (string \<rightharpoonup> 'a)" where
  "table_delete t k = (if k = ''__proto__'' then t else t(k := None))"

text \<open>
  A name has no instance in a table: neither stored nor inherited, in a table whose
  prototype was not replaced.
\<close>

definition unregistered :: "(string \<rightharpoonup> 'a) \<Rightarrow> string \<Rightarrow> bool" where
  "unregistered t k \<longleftrightarrow> table_get t k = Missing \<and> t ''__proto__'' = None"

text \<open>
  The property name that a value converts to when it is used as a key, \<open>table[v]\<close>. A
  string is its own name; \<open>undefined\<close>, \<open>null\<close> and the booleans convert to their
  spelling, an object (plain data, converted by the inherited \<open>toString\<close>) to
  \<open>[object Object]\<close>; an array converts to its elements joined by commas, \<open>null\<close> and
  \<open>undefined\<close> elements counting as empty. The result is \<open>None\<close> for the texts that are
  the spelling of a number or of a generated identifier or that contain a comma (an
  array of two or more elements): none of them is a name used in this code or a member
  of \<open>Object.prototype\<close>.
\<close>

fun property_key :: "jsval \<Rightarrow> string option" where
  "property_key (JStr s) = Some s"
| "property_key JUndefined = Some ''undefined''"
| "property_key JNull = Some ''null''"
| "property_key (JBool b) = Some (if b then ''true'' else ''false'')"
| "property_key (JNum r) = None"
| "property_key (JUuid n) = None"
| "property_key (JRef a) = Some ''[object Object]''"
| "property_key (JObj ob) = Some ''[object Object]''"
| "property_key (JArr []) = Some []"
| "property_key (JArr [x]) =
     (case x of JUndefined \<Rightarrow> Some [] | JNull \<Rightarrow> Some [] | _ \<Rightarrow> property_key x)"
| "property_key (JArr (x # y # zs)) = None"

section \<open>The wrapped data set (vis \<open>DataSet\<close>)\<close>

text \<open>
  The vis-based shims keep nodes and edges in \<open>vis.DataSet\<close> objects, which belong to
  the wrapped library and not to this repository. The model follows the library's
  documented behaviour: items are keyed by their \<open>id\<close> property and kept in insertion
  order; \<open>add\<close> fails on an identifier that is already present and generates an
  identifier when the item has none; \<open>update\<close> merges onto the existing item and
  inserts when there is none; \<open>remove\<close> of an absent identifier does nothing.
  Identifiers are numbers or strings, compared by value.
\<close>

record dataset =
  items :: "(jsval \<times> obj) list"
  next_uuid :: nat

definition empty_dataset :: dataset where
  "empty_dataset = \<lparr>items = [], next_uuid = 0\<rparr>"

definition ds_has :: "dataset \<Rightarrow> jsval \<Rightarrow> bool" where
  "ds_has ds k = (map_of (items ds) k \<noteq> None)"

text \<open>The library's \<open>_addItem\<close>.\<close>

definition ds_addItem :: "dataset \<Rightarrow> obj \<Rightarrow> js_error + dataset" where
  "ds_addItem ds item =
     (let ident = get_prop item ''id'' in
      if not_nullish ident then
        (if ds_has ds ident then Inl (AlreadyExists ident)
         else Inr (ds\<lparr>items := items ds @ [(ident, item)]\<rparr>))
      else
        (let ident' = JUuid (next_uuid ds) in
         Inr (ds\<lparr>items := items ds @ [(ident', AList.update ''id'' ident' item)],
                 next_uuid := Suc (next_uuid ds)\<rparr>)))"

text \<open>
  \<open>add(array)\<close>: the items are added one after the other; the first failure raises and
  leaves the items added before it in the set.
\<close>

fun ds_add_all :: "dataset \<Rightarrow> obj list \<Rightarrow> js_error \<times> dataset + dataset" where
  "ds_add_all ds [] = Inr ds"
| "ds_add_all ds (x # xs) =
     (case ds_addItem ds x of
        Inl e \<Rightarrow> Inl (e, ds)
      | Inr ds' \<Rightarrow> ds_add_all ds' xs)"

text \<open>\<open>update(item)\<close>\<close>

definition ds_update :: "dataset \<Rightarrow> obj \<Rightarrow> dataset" where
  "ds_update ds item =
     (let ident = get_prop item ''id'' in
      if not_nullish ident \<and> ds_has ds ident then
        ds\<lparr>items := map (\<lambda>(k, old). if k = ident then (k, spread old item) else (k, old))
                        (items ds)\<rparr>
      else if not_nullish ident then
        ds\<lparr>items := items ds @ [(ident, item)]\<rparr>
      else
        (let ident' = JUuid (next_uuid ds) in
         ds\<lparr>items := items ds @ [(ident', AList.update ''id'' ident' item)],
            next_uuid := Suc (next_uuid ds)\<rparr>))"

text \<open>
  \<open>remove(x)\<close> for one argument: an identifier is used as it is, an object stands for
  its \<open>id\<close> property, anything else removes nothing.
\<close>

definition ds_remove1 :: "dataset \<Rightarrow> jsval \<Rightarrow> dataset" where
  "ds_remove1 ds x =
     (let ident = (case x of JNum r \<Rightarrow> x | JStr s \<Rightarrow> x | JUuid n \<Rightarrow> x
                    | JObj ob \<Rightarrow> get_prop ob ''id'' | _ \<Rightarrow> JUndefined) in
      if not_nullish ident \<and> ds_has ds ident
      then ds\<lparr>items := filter (\<lambda>(k, it). k \<noteq> ident) (items ds)\<rparr>
      else ds)"

definition ds_remove :: "dataset \<Rightarrow> jsval \<Rightarrow> dataset" where
  "ds_remove ds x = (case x of JArr xs \<Rightarrow> fold (\<lambda>y d. ds_remove1 d y) xs ds | _ \<Rightarrow> ds_remove1 ds x)"

definition ds_clear :: "dataset \<Rightarrow> dataset" where
  "ds_clear ds = ds\<lparr>items := []\<rparr>"

text \<open>\<open>get()\<close>: all items.\<close>

definition ds_get :: "dataset \<Rightarrow> obj list" where
  "ds_get ds = map snd (items ds)"

text \<open>
  \<open>get(x)\<close>: for an identifier the item or \<open>null\<close>; any other argument is read as an
  options object and the call returns an array of items.
\<close>

definition ds_get1 :: "dataset \<Rightarrow> jsval \<Rightarrow> jsval" where
  "ds_get1 ds x =
     (case x of
        JNum r \<Rightarrow> (case map_of (items ds) x of None \<Rightarrow> JNull | Some it \<Rightarrow> JObj it)
      | JStr s \<Rightarrow> (case map_of (items ds) x of None \<Rightarrow> JNull | Some it \<Rightarrow> JObj it)
      | JUuid n \<Rightarrow> (case map_of (items ds) x of None \<Rightarrow> JNull | Some it \<Rightarrow> JObj it)
      | _ \<Rightarrow> JArr (map JObj (ds_get ds)))"

section \<open>The external rendering handle (vis \<open>Network\<close>)\<close>

text \<open>
  A \<open>vis.Network\<close> owns a canvas and a physics loop: the external handle of an
  instance. The model gives every constructed network a fresh handle number and keeps
  the set of handles that were constructed and not yet destroyed. A network refers to
  its two data sets (\<open>network.body.data.nodes\<close>, \<open>network.body.data.edges\<close>), holds the
  selected node identifiers, the options it was constructed with and the option
  objects later passed to \<open>setOptions\<close>. Camera moves (\<open>focus\<close>, \<open>fit\<close>, \<open>moveTo\<close>) and
  host callbacks registered with \<open>on\<close> change nothing of this and are left out.
\<close>

record network =
  handle :: nat
  data_nodes :: dataset
  data_edges :: dataset
  selection :: "jsval list"
  options :: obj
  setOptions_calls :: "obj list"

record vis_env =
  containers :: "string set"
  live :: "nat set"
  next_handle :: nat

text \<open>\<open>new vis.Network(container, data, options)\<close>\<close>

definition new_Network :: "vis_env \<Rightarrow> dataset \<Rightarrow> dataset \<Rightarrow> obj \<Rightarrow> network \<times> vis_env" where
  "new_Network env ns es opts =
     (\<lparr>handle = next_handle env, data_nodes = ns, data_edges = es, selection = [],
       options = opts, setOptions_calls = []\<rparr>,
      env\<lparr>live := insert (next_handle env) (live env), next_handle := Suc (next_handle env)\<rparr>)"

text \<open>\<open>network.destroy()\<close>: the handle is released.\<close>

definition net_destroy :: "vis_env \<Rightarrow> network \<Rightarrow> vis_env" where
  "net_destroy env net = env\<lparr>live := live env - {handle net}\<rparr>"

text \<open>
  The network listens to its node set: a selected node that is no longer in the set is
  dropped from the selection.
\<close>

definition nodes_changed :: "network \<Rightarrow> dataset \<Rightarrow> network" where
  "nodes_changed net ns =
     net\<lparr>data_nodes := ns, selection := filter (ds_has ns) (selection net)\<rparr>"

text \<open>
  \<open>network.selectNodes(ids)\<close>: the selection is emptied first; then the nodes are
  selected one by one, and an identifier without a node raises a \<open>RangeError\<close>.
\<close>

fun select_each :: "network \<Rightarrow> jsval list \<Rightarrow> js_error \<times> network + network" where
  "select_each net [] = Inr net"
| "select_each net (i # ids) =
     (if ds_has (data_nodes net) i
      then select_each (net\<lparr>selection := selection net @ [i]\<rparr>) ids
      else Inl (NodeNotFound i, net))"

definition net_selectNodes :: "network \<Rightarrow> jsval list \<Rightarrow> js_error \<times> network + network" where
  "net_selectNodes net ids = select_each (net\<lparr>selection := []\<rparr>) ids"

definition net_setOptions :: "network \<Rightarrow> obj \<Rightarrow> network" where
  "net_setOptions net opts = net\<lparr>setOptions_calls := setOptions_calls net @ [opts]\<rparr>"

section \<open>\<open>js/journey-builder-graph.js\<close>: \<open>window.journeyBuilderGraph\<close>\<close>

text \<open>
  The registry is the pair of tables \<open>networks\<close> and \<open>dotNetRefs\<close>, keyed by container
  identifier. The page's containers and the live handles are part of the state. No
  function of this object catches errors: with an inherited member in the place of the
  network, the first read of \<open>network.body.data\<close> (\<open>network.body\<close> is \<open>undefined\<close>) or the
  first call of a method of the network raises a \<open>TypeError\<close>.
\<close>

record jb_state =
  networks :: "string \<rightharpoonup> network"
  dotNetRefs :: "string \<rightharpoonup> jsval"
  jb_env :: vis_env

text \<open>
  \<open>defaultOptions\<close> of \<open>initialize\<close>, without the \<open>manipulation\<close> callbacks (functions are
  not values of the model).
\<close>

definition jb_defaultOptions :: obj where
  "jb_defaultOptions =
     [(''nodes'', JObj
        [(''shape'', JStr ''box''), (''margin'', JNum 10),
         (''widthConstraint'', JObj [(''minimum'', JNum 120), (''maximum'', JNum 200)]),
         (''heightConstraint'', JObj [(''minimum'', JNum 40)]),
         (''font'', JObj [(''size'', JNum 14), (''face'', JStr ''Arial''), (''color'', JStr ''#ffffff'')]),
         (''borderWidth'', JNum 2), (''borderWidthSelected'', JNum 3),
         (''shadow'', JObj [(''enabled'', JBool True), (''size'', JNum 5), (''x'', JNum 2), (''y'', JNum 2)])]),
      (''edges'', JObj
        [(''arrows'', JObj [(''to'', JObj [(''enabled'', JBool True), (''scaleFactor'', JNum (12 / 10))])]),
         (''smooth'', JObj [(''enabled'', JBool True), (''type'', JStr ''cubicBezier''), (''roundness'', JNum (5 / 10))]),
         (''width'', JNum 2),
         (''color'', JObj [(''color'', JStr ''#848484''), (''highlight'', JStr ''#2B7CE9''), (''hover'', JStr ''#2B7CE9'')]),
         (''font'', JObj [(''size'', JNum 12), (''align'', JStr ''middle''), (''background'', JStr ''#ffffff''),
                          (''strokeWidth'', JNum 2), (''strokeColor'', JStr ''#ffffff'')])]),
      (''physics'', JObj
        [(''enabled'', JBool True),
         (''hierarchicalRepulsion'', JObj
            [(''centralGravity'', JNum 0), (''springLength'', JNum 200), (''springConstant'', JNum (1 / 100)),
             (''nodeDistance'', JNum 150), (''damping'', JNum (9 / 100))]),
         (''solver'', JStr ''hierarchicalRepulsion'')]),
      (''layout'', JObj
        [(''hierarchical'', JObj
            [(''direction'', JStr ''LR''), (''sortMethod'', JStr ''directed''), (''levelSeparation'', JNum 300),
             (''nodeSpacing'', JNum 150), (''treeSpacing'', JNum 200)])]),
      (''manipulation'', JObj
        [(''enabled'', JBool True), (''initiallyActive'', JBool False), (''editEdge'', JBool False)]),
      (''interaction'', JObj
        [(''dragNodes'', JBool True), (''dragView'', JBool True), (''zoomView'', JBool True),
         (''selectable'', JBool True), (''selectConnectedEdges'', JBool True), (''hover'', JBool True),
         (''tooltipDelay'', JNum 100), (''navigationButtons'', JBool True),
         (''keyboard'', JObj [(''enabled'', JBool True), (''bindToWindow'', JBool False)])])]"

definition jb_initialize :: "jb_state \<Rightarrow> string \<Rightarrow> jsval \<Rightarrow> obj option \<Rightarrow> bool \<times> jb_state" where
  "jb_initialize s containerId dotNetRef opts =
     (if containerId \<notin> containers (jb_env s) then (False, s)
      else
        (let mergedOptions = spread jb_defaultOptions (case opts of None \<Rightarrow> [] | Some ob \<Rightarrow> ob);
             (network, env') = new_Network (jb_env s) empty_dataset empty_dataset mergedOptions
         in (True, s\<lparr>networks := (networks s)(containerId \<mapsto> network),
                      dotNetRefs := (dotNetRefs s)(containerId \<mapsto> dotNetRef),
                      jb_env := env'\<rparr>)))"

text \<open>
  The style table of \<open>styleNode\<close>. The icon glyphs are written by their escape names.
  \<open>styles[node.type] || {...}\<close> reads the table under the name the type converts to. A
  type that names a member of \<open>Object.prototype\<close> finds that member, which is truthy and
  has no property of its own to spread: the node then gets the \<open>font\<close> and nothing else.
\<close>

definition fa_icon :: "string \<Rightarrow> jsval" where
  "fa_icon code = JObj [(''face'', JStr ''FontAwesome''), (''code'', JStr code), (''size'', JNum 50),
                        (''color'', JStr ''#ffffff'')]"

definition node_colors :: "string \<Rightarrow> string \<Rightarrow> jsval" where
  "node_colors bg border = JObj [(''background'', JStr bg), (''border'', JStr border)]"

definition styles :: "(string \<times> obj) list" where
  "styles =
     [(''Start'', [(''color'', node_colors ''#4CAF50'' ''#388E3C''), (''shape'', JStr ''ellipse''),
                   (''icon'', fa_icon ''uf04b'')]),
      (''SendEmail'', [(''color'', node_colors ''#2196F3'' ''#1976D2''), (''icon'', fa_icon ''uf0e0'')]),
      (''SendSMS'', [(''color'', node_colors ''#00BCD4'' ''#0097A7''), (''icon'', fa_icon ''uf4ad'')]),
      (''Wait'', [(''color'', node_colors ''#FF9800'' ''#F57C00''), (''icon'', fa_icon ''uf017'')]),
      (''DecisionSplit'', [(''color'', node_colors ''#FFC107'' ''#FFA000''), (''shape'', JStr ''diamond''),
                           (''icon'', fa_icon ''uf126'')]),
      (''ABTest'', [(''color'', node_colors ''#9C27B0'' ''#7B1FA2''), (''shape'', JStr ''diamond''),
                    (''icon'', fa_icon ''uf0ec'')]),
      (''UpdateProfile'', [(''color'', node_colors ''#3F51B5'' ''#303F9F''), (''icon'', fa_icon ''uf007'')]),
      (''End'', [(''color'', node_colors ''#F44336'' ''#D32F2F''), (''shape'', JStr ''ellipse''),
                 (''icon'', fa_icon ''uf04d'')])]"

definition default_style :: obj where
  "default_style = [(''color'', node_colors ''#607D8B'' ''#455A64''), (''icon'', fa_icon ''uf013'')]"

definition styleNode :: "obj \<Rightarrow> obj" where
  "styleNode node =
     (let style = (case property_key (get_prop node ''type'') of
                     Some t \<Rightarrow>
                       (case map_of styles t of
                          Some st \<Rightarrow> st
                        | None \<Rightarrow> if t \<in> set object_prototype_members then [] else default_style)
                   | None \<Rightarrow> default_style)
      in AList.update ''font'' (JObj [(''color'', JStr ''#ffffff''), (''size'', JNum 14)])
           (spread node style))"

definition jb_addNode :: "jb_state \<Rightarrow> string \<Rightarrow> obj \<Rightarrow> (js_error + bool) \<times> jb_state" where
  "jb_addNode s containerId nodeData =
     (case table_get (networks s) containerId of
        Missing \<Rightarrow> (Inr False, s)
      | Inherited \<Rightarrow> (Inl TypeError, s)
      | Own network \<Rightarrow>
          (let styledNode = styleNode nodeData in
           case ds_addItem (data_nodes network) styledNode of
             Inl e \<Rightarrow> (Inl e, s)
           | Inr nodes' \<Rightarrow>
               (Inr True, s\<lparr>networks := (networks s)(containerId \<mapsto> nodes_changed network nodes')\<rparr>)))"

definition jb_addEdge :: "jb_state \<Rightarrow> string \<Rightarrow> obj \<Rightarrow> (js_error + bool) \<times> jb_state" where
  "jb_addEdge s containerId edgeData =
     (case table_get (networks s) containerId of
        Missing \<Rightarrow> (Inr False, s)
      | Inherited \<Rightarrow> (Inl TypeError, s)
      | Own network \<Rightarrow>
          (case ds_addItem (data_edges network) edgeData of
             Inl e \<Rightarrow> (Inl e, s)
           | Inr edges' \<Rightarrow>
               (Inr True, s\<lparr>networks := (networks s)(containerId \<mapsto> network\<lparr>data_edges := edges'\<rparr>)\<rparr>)))"

definition jb_removeNode :: "jb_state \<Rightarrow> string \<Rightarrow> jsval \<Rightarrow> (js_error + bool) \<times> jb_state" where
  "jb_removeNode s containerId nodeId =
     (case table_get (networks s) containerId of
        Missing \<Rightarrow> (Inr False, s)
      | Inherited \<Rightarrow> (Inl TypeError, s)
      | Own network \<Rightarrow>
          (Inr True, s\<lparr>networks := (networks s)(containerId \<mapsto>
                     nodes_changed network (ds_remove (data_nodes network) nodeId))\<rparr>))"

definition jb_removeEdge :: "jb_state \<Rightarrow> string \<Rightarrow> jsval \<Rightarrow> (js_error + bool) \<times> jb_state" where
  "jb_removeEdge s containerId edgeId =
     (case table_get (networks s) containerId of
        Missing \<Rightarrow> (Inr False, s)
      | Inherited \<Rightarrow> (Inl TypeError, s)
      | Own network \<Rightarrow>
          (Inr True, s\<lparr>networks := (networks s)(containerId \<mapsto>
                     network\<lparr>data_edges := ds_remove (data_edges network) edgeId\<rparr>)\<rparr>))"

definition jb_updateNode :: "jb_state \<Rightarrow> string \<Rightarrow> jsval \<Rightarrow> obj \<Rightarrow> (js_error + bool) \<times> jb_state" where
  "jb_updateNode s containerId nodeId updates =
     (case table_get (networks s) containerId of
        Missing \<Rightarrow> (Inr False, s)
      | Inherited \<Rightarrow> (Inl TypeError, s)
      | Own network \<Rightarrow>
          (let styledUpdates = styleNode (AList.update ''id'' nodeId updates) in
           (Inr True, s\<lparr>networks := (networks s)(containerId \<mapsto>
                      nodes_changed network (ds_update (data_nodes network) styledUpdates))\<rparr>)))"

definition jb_updateEdge :: "jb_state \<Rightarrow> string \<Rightarrow> jsval \<Rightarrow> obj \<Rightarrow> (js_error + bool) \<times> jb_state" where
  "jb_updateEdge s containerId edgeId updates =
     (case table_get (networks s) containerId of
        Missing \<Rightarrow> (Inr False, s)
      | Inherited \<Rightarrow> (Inl TypeError, s)
      | Own network \<Rightarrow>
          (Inr True, s\<lparr>networks := (networks s)(containerId \<mapsto>
                     network\<lparr>data_edges := ds_update (data_edges network)
                                                (AList.update ''id'' edgeId updates)\<rparr>)\<rparr>))"

text \<open>
  The argument and the result of the bulk operations: an object with the properties
  \<open>nodes\<close> and \<open>edges\<close>, each an array of objects or missing.
\<close>

record journey_data =
  jd_nodes :: "obj list option"
  jd_edges :: "obj list option"

definition jb_loadData :: "jb_state \<Rightarrow> string \<Rightarrow> journey_data \<Rightarrow> (js_error + bool) \<times> jb_state" where
  "jb_loadData s containerId journeyData =
     (case table_get (networks s) containerId of
        Missing \<Rightarrow> (Inr False, s)
      | Inherited \<Rightarrow> (Inl TypeError, s)
      | Own network \<Rightarrow>
          (let nodes0 = ds_clear (data_nodes network);
               edges0 = ds_clear (data_edges network);
               store = (\<lambda>ns es. s\<lparr>networks := (networks s)(containerId \<mapsto>
                                      (nodes_changed (nodes_changed network nodes0) ns)
                                        \<lparr>data_edges := es\<rparr>)\<rparr>)
           in
           case (case jd_nodes journeyData of
                   Some ns \<Rightarrow> if length ns > 0 then ds_add_all nodes0 (map styleNode ns) else Inr nodes0
                 | None \<Rightarrow> Inr nodes0) of
             Inl (e, nodes1) \<Rightarrow> (Inl e, store nodes1 edges0)
           | Inr nodes1 \<Rightarrow>
               (case (case jd_edges journeyData of
                        Some es \<Rightarrow> if length es > 0 then ds_add_all edges0 es else Inr edges0
                      | None \<Rightarrow> Inr edges0) of
                  Inl (e, edges1) \<Rightarrow> (Inl e, store nodes1 edges1)
                | Inr edges1 \<Rightarrow> (Inr True, store nodes1 edges1))))"

definition jb_getData :: "jb_state \<Rightarrow> string \<Rightarrow> js_error + journey_data option" where
  "jb_getData s containerId =
     (case table_get (networks s) containerId of
        Missing \<Rightarrow> Inr None
      | Inherited \<Rightarrow> Inl TypeError
      | Own network \<Rightarrow>
          Inr (Some \<lparr>jd_nodes = Some (ds_get (data_nodes network)),
                     jd_edges = Some (ds_get (data_edges network))\<rparr>))"

definition jb_focusNode :: "jb_state \<Rightarrow> string \<Rightarrow> jsval \<Rightarrow> (js_error + bool) \<times> jb_state" where
  "jb_focusNode s containerId nodeId =
     (case table_get (networks s) containerId of
        Missing \<Rightarrow> (Inr False, s)
      | Inherited \<Rightarrow> (Inl TypeError, s)
      | Own network \<Rightarrow>
          (case net_selectNodes network [nodeId] of
             Inl (e, network') \<Rightarrow> (Inl e, s\<lparr>networks := (networks s)(containerId \<mapsto> network')\<rparr>)
           | Inr network' \<Rightarrow> (Inr True, s\<lparr>networks := (networks s)(containerId \<mapsto> network')\<rparr>)))"

text \<open>The body of \<open>resetHighlight\<close> once the network is found; \<open>highlightPath\<close> calls it first.\<close>

definition jb_reset_all :: "network \<Rightarrow> network" where
  "jb_reset_all network =
     (let nodes' = fold (\<lambda>node ds. ds_update ds
                      [(''id'', get_prop node ''id''), (''borderWidth'', JNum 2),
                       (''borderWidthSelected'', JNum 3)])
                    (ds_get (data_nodes network)) (data_nodes network);
          edges' = fold (\<lambda>edge ds. ds_update ds
                      [(''id'', get_prop edge ''id''), (''width'', JNum 2),
                       (''color'', JObj [(''color'', JStr ''#848484''), (''highlight'', JStr ''#2B7CE9'')])])
                    (ds_get (data_edges network)) (data_edges network)
      in (nodes_changed network nodes')\<lparr>data_edges := edges'\<rparr>)"

definition jb_resetHighlight :: "jb_state \<Rightarrow> string \<Rightarrow> (js_error + bool) \<times> jb_state" where
  "jb_resetHighlight s containerId =
     (case table_get (networks s) containerId of
        Missing \<Rightarrow> (Inr False, s)
      | Inherited \<Rightarrow> (Inl TypeError, s)
      | Own network \<Rightarrow> (Inr True, s\<lparr>networks := (networks s)(containerId \<mapsto> jb_reset_all network)\<rparr>))"

text \<open>The loop over \<open>i\<close> from \<open>0\<close> to \<open>nodeIds.length - 2\<close>, as the list of consecutive pairs.\<close>

definition consecutive :: "jsval list \<Rightarrow> (jsval \<times> jsval) list" where
  "consecutive nodeIds = zip nodeIds (tl nodeIds)"

definition jb_highlightPath :: "jb_state \<Rightarrow> string \<Rightarrow> jsval list \<Rightarrow> (js_error + bool) \<times> jb_state" where
  "jb_highlightPath s containerId nodeIds =
     (case table_get (networks s) containerId of
        Missing \<Rightarrow> (Inr False, s)
      | Inherited \<Rightarrow> (Inl TypeError, s)
      | Own network \<Rightarrow>
          (let network1 = jb_reset_all network;
               nodes' = fold (\<lambda>nodeId ds.
                          if truthy (ds_get1 ds nodeId)
                          then ds_update ds [(''id'', nodeId), (''borderWidth'', JNum 5),
                                             (''borderWidthSelected'', JNum 6)]
                          else ds)
                        nodeIds (data_nodes network1);
               edges' = fold (\<lambda>(a, b) ds.
                          fold (\<lambda>edge d. ds_update d
                                  [(''id'', get_prop edge ''id''), (''width'', JNum 4),
                                   (''color'', JObj [(''color'', JStr ''#FF5722''),
                                                     (''highlight'', JStr ''#FF5722'')])])
                               (filter (\<lambda>edge. strict_eq (get_prop edge ''from'') a \<and>
                                                strict_eq (get_prop edge ''to'') b) (ds_get ds)) ds)
                        (consecutive nodeIds) (data_edges network1)
           in (Inr True, s\<lparr>networks := (networks s)(containerId \<mapsto>
                         (nodes_changed network1 nodes')\<lparr>data_edges := edges'\<rparr>)\<rparr>)))"

definition jb_clear :: "jb_state \<Rightarrow> string \<Rightarrow> (js_error + bool) \<times> jb_state" where
  "jb_clear s containerId =
     (case table_get (networks s) containerId of
        Missing \<Rightarrow> (Inr False, s)
      | Inherited \<Rightarrow> (Inl TypeError, s)
      | Own network \<Rightarrow>
          (Inr True, s\<lparr>networks := (networks s)(containerId \<mapsto>
                     (nodes_changed network (ds_clear (data_nodes network)))
                       \<lparr>data_edges := ds_clear (data_edges network)\<rparr>)\<rparr>))"

definition jb_setPhysics :: "jb_state \<Rightarrow> string \<Rightarrow> jsval \<Rightarrow> (js_error + bool) \<times> jb_state" where
  "jb_setPhysics s containerId enabled =
     (case table_get (networks s) containerId of
        Missing \<Rightarrow> (Inr False, s)
      | Inherited \<Rightarrow> (Inl TypeError, s)
      | Own network \<Rightarrow>
          (Inr True, s\<lparr>networks := (networks s)(containerId \<mapsto>
                     net_setOptions network [(''physics'', JObj [(''enabled'', enabled)])])\<rparr>))"

text \<open>
  \<open>exportToPNG\<close>: the canvas serialisation \<open>canvas.toDataURL('image/png')\<close> belongs to the
  browser and is a parameter; it may raise.
\<close>

definition jb_exportToPNG ::
  "(network \<Rightarrow> js_error + jsval) \<Rightarrow> jb_state \<Rightarrow> string \<Rightarrow> js_error + jsval" where
  "jb_exportToPNG toDataURL s containerId =
     (case table_get (networks s) containerId of
        Missing \<Rightarrow> Inr JNull
      | Inherited \<Rightarrow> Inl TypeError
      | Own network \<Rightarrow> toDataURL network)"

record validation =
  valid :: bool
  errors :: "string list"
  warnings :: "string list"

text \<open>
  The orphan check of one node, as the list of messages it pushes. The conversion of the
  label to a string inside the template literal is a parameter.
\<close>

definition orphan_errors :: "(jsval \<Rightarrow> string) \<Rightarrow> obj list \<Rightarrow> obj \<Rightarrow> string list" where
  "orphan_errors to_string edges node =
     (if \<not> strict_eq (get_prop node ''type'') (JStr ''Start'') \<and>
         \<not> strict_eq (get_prop node ''type'') (JStr ''End'') then
        (let hasIncoming = list_ex (\<lambda>e. strict_eq (get_prop e ''to'') (get_prop node ''id'')) edges;
             hasOutgoing = list_ex (\<lambda>e. strict_eq (get_prop e ''from'') (get_prop node ''id'')) edges;
             quoted = ''Node '' @ [CHR 0x22] @ to_string (get_prop node ''label'') @ [CHR 0x22]
         in if \<not> hasIncoming \<and> \<not> hasOutgoing then [quoted @ '' is not connected'']
            else if \<not> hasIncoming then [quoted @ '' has no incoming connections'']
            else if \<not> hasOutgoing then [quoted @ '' has no outgoing connections'']
            else [])
      else [])"

definition jb_validate ::
  "(jsval \<Rightarrow> string) \<Rightarrow> jb_state \<Rightarrow> string \<Rightarrow> js_error + validation" where
  "jb_validate to_string s containerId =
     (case table_get (networks s) containerId of
        Missing \<Rightarrow> Inr \<lparr>valid = False, errors = [''Network not found''], warnings = []\<rparr>
      | Inherited \<Rightarrow> Inl TypeError
      | Own network \<Rightarrow>
          (let nodes = ds_get (data_nodes network);
               edges = ds_get (data_edges network);
               startNodes = filter (\<lambda>n. strict_eq (get_prop n ''type'') (JStr ''Start'')) nodes;
               errors1 = (if length startNodes = 0 then [''Journey must have a Start node'']
                          else if length startNodes > 1 then [''Journey can only have one Start node'']
                          else []);
               endNodes = filter (\<lambda>n. strict_eq (get_prop n ''type'') (JStr ''End'')) nodes;
               errors2 = (if length endNodes = 0 then [''Journey must have at least one End node''] else []);
               errors3 = concat (map (orphan_errors to_string edges) nodes);
               errs = errors1 @ errors2 @ errors3
           in Inr \<lparr>valid = (length errs = 0), errors = errs, warnings = []\<rparr>))"

definition jb_destroy :: "jb_state \<Rightarrow> string \<Rightarrow> (js_error + bool) \<times> jb_state" where
  "jb_destroy s containerId =
     (case table_get (networks s) containerId of
        Own network \<Rightarrow>
          (Inr True, s\<lparr>networks := table_delete (networks s) containerId,
                        dotNetRefs := table_delete (dotNetRefs s) containerId,
                        jb_env := net_destroy (jb_env s) network\<rparr>)
      | Inherited \<Rightarrow> (Inl TypeError, s)
      | Missing \<Rightarrow> (Inr True, s))"

section \<open>\<open>js/theme.js\<close>: \<open>window.customerNetworkGraph\<close> with the table \<open>instances\<close>\<close>

text \<open>
  An instance is \<open>{network, nodes, edges}\<close>, where \<open>nodes\<close> and \<open>edges\<close> are the very data
  sets the network was constructed with; the model keeps them inside the network.
  Every function body is wrapped in \<open>try\<close>/\<open>catch\<close>: an error raised inside makes the
  function return \<open>false\<close> (\<open>null\<close> for the export), with the effects that happened before
  the error left in place. With an inherited member in the place of the instance,
  \<open>instance.network\<close>, \<open>instance.nodes\<close> and \<open>instance.edges\<close> are \<open>undefined\<close> and the first
  use of one of them raises inside the \<open>try\<close>.
\<close>

record cng_state =
  instances :: "string \<rightharpoonup> network"
  cng_env :: vis_env

definition cng_defaultOptions :: obj where
  "cng_defaultOptions =
     [(''nodes'', JObj
        [(''shape'', JStr ''dot''), (''size'', JNum 16),
         (''font'', JObj [(''size'', JNum 12), (''color'', JStr ''#343a40'')]),
         (''borderWidth'', JNum 2), (''shadow'', JBool True)]),
      (''edges'', JObj
        [(''width'', JNum 2),
         (''color'', JObj [(''color'', JStr ''#848484''), (''highlight'', JStr ''#3b82f6''), (''hover'', JStr ''#3b82f6'')]),
         (''arrows'', JObj [(''to'', JObj [(''enabled'', JBool True), (''scaleFactor'', JNum (5 / 10))])]),
         (''smooth'', JObj [(''type'', JStr ''cubicBezier''), (''roundness'', JNum (5 / 10))]),
         (''font'', JObj [(''size'', JNum 10), (''align'', JStr ''middle'')])]),
      (''physics'', JObj
        [(''enabled'', JBool True),
         (''barnesHut'', JObj
            [(''gravitationalConstant'', JNum (- 2000)), (''centralGravity'', JNum (3 / 10)),
             (''springLength'', JNum 95), (''springConstant'', JNum (4 / 100)),
             (''damping'', JNum (9 / 100)), (''avoidOverlap'', JNum (5 / 10))]),
         (''stabilization'', JObj
            [(''enabled'', JBool True), (''iterations'', JNum 100), (''updateInterval'', JNum 25)])]),
      (''interaction'', JObj
        [(''hover'', JBool True), (''tooltipDelay'', JNum 100), (''zoomView'', JBool True),
         (''dragView'', JBool True), (''navigationButtons'', JBool True),
         (''keyboard'', JObj [(''enabled'', JBool True)])]),
      (''layout'', JObj [(''improvedLayout'', JBool True), (''hierarchical'', JBool False)])]"

definition cng_initialize :: "cng_state \<Rightarrow> string \<Rightarrow> obj option \<Rightarrow> bool \<times> cng_state" where
  "cng_initialize s containerId opts =
     (if containerId \<notin> containers (cng_env s) then (False, s)
      else
        (let finalOptions = spread cng_defaultOptions (case opts of None \<Rightarrow> [] | Some ob \<Rightarrow> ob);
             (network, env') = new_Network (cng_env s) empty_dataset empty_dataset finalOptions
         in (True, s\<lparr>instances := (instances s)(containerId \<mapsto> network), cng_env := env'\<rparr>)))"

text \<open>
  \<open>loadData\<close> builds display items from the host's graph data. The conversions of the
  language and the browser are parameters: the text of a value inside a template
  literal, \<open>toLocaleString()\<close>, \<open>Math.log10\<close>, and, for a total value or percentage that
  is not a number, the comparison \<open>v > 0\<close> and the arithmetic of the size under the
  language's coercions. On numbers the comparison and the size are computed here.
\<close>

record builtins =
  template_string :: "jsval \<Rightarrow> string"
  locale_string :: "jsval \<Rightarrow> string"
  log10 :: "real \<Rightarrow> real"
  coerced_greater_zero :: "jsval \<Rightarrow> bool"
  coerced_size :: "jsval \<Rightarrow> jsval"

text \<open>\<open>v && v > 0\<close>\<close>

definition js_positive :: "builtins \<Rightarrow> jsval \<Rightarrow> bool" where
  "js_positive b v =
     (truthy v \<and> (case v of JNum r \<Rightarrow> r > 0 | _ \<Rightarrow> coerced_greater_zero b v))"

definition color_gradient :: "string \<Rightarrow> string \<Rightarrow> string \<Rightarrow> jsval" where
  "color_gradient bg border dark =
     JObj [(''background'', JStr bg), (''border'', JStr border),
           (''highlight'', JObj [(''background'', JStr border), (''border'', JStr dark)])]"

definition getNodeColor :: "obj \<Rightarrow> jsval" where
  "getNodeColor node =
     (if strict_eq (get_prop node ''nodeType'') (JStr ''customer'')
        then color_gradient ''#3b82f6'' ''#2563eb'' ''#1d4ed8''
      else if truthy (get_prop node ''isBeneficialOwner'')
        then color_gradient ''#dc2626'' ''#b91c1c'' ''#991b1b''
      else if strict_eq (get_prop node ''tier'') (JStr ''PLATINUM'') \<or>
              strict_eq (get_prop node ''tier'') (JStr ''GOLD'')
        then color_gradient ''#f59e0b'' ''#d97706'' ''#b45309''
      else color_gradient ''#6b7280'' ''#4b5563'' ''#374151'')"

text \<open>\<open>Math.min(baseSize + Math.log10(totalValue + 1) * 3, maxSize)\<close> with base 16 and maximum 40.\<close>

definition getNodeSize :: "builtins \<Rightarrow> obj \<Rightarrow> jsval" where
  "getNodeSize b node =
     (if strict_eq (get_prop node ''nodeType'') (JStr ''customer'') then JNum (16 + 10)
      else if js_positive b (get_prop node ''totalValue'') then
        (case get_prop node ''totalValue'' of
           JNum r \<Rightarrow> JNum (min (16 + log10 b (r + 1) * 3) 40)
         | v \<Rightarrow> coerced_size b v)
      else JNum 16)"

text \<open>The double quote, and the warning sign of the tooltip as its UTF-8 bytes.\<close>

definition dq :: string where
  "dq = [CHR 0x22]"

definition warning_sign :: string where
  "warning_sign = [CHR 0xE2, CHR 0x9A, CHR 0xA0]"

definition createNodeTooltip :: "builtins \<Rightarrow> obj \<Rightarrow> string" where
  "createNodeTooltip b node =
     ''<div style='' @ dq @ ''padding: 8px;'' @ dq @ ''>'' @
     ''<div style='' @ dq @ ''font-weight: bold; margin-bottom: 4px;'' @ dq @ ''>'' @
       template_string b (get_prop node ''label'') @ ''</div>'' @
     (if truthy (get_prop node ''tier'')
      then ''<div>Tier: <span style='' @ dq @ ''font-weight: bold;'' @ dq @ ''>'' @
             template_string b (get_prop node ''tier'') @ ''</span></div>''
      else []) @
     (if truthy (get_prop node ''status'')
      then ''<div>Status: '' @ template_string b (get_prop node ''status'') @ ''</div>''
      else []) @
     (if js_positive b (get_prop node ''totalValue'')
      then ''<div>Value: $'' @ locale_string b (get_prop node ''totalValue'') @ ''</div>''
      else []) @
     (if truthy (get_prop node ''isBeneficialOwner'')
      then ''<div style='' @ dq @ ''color: #dc2626; font-weight: bold;'' @ dq @ ''>'' @
             warning_sign @ '' Beneficial Owner</div>''
      else []) @
     ''</div>''"

definition createEdgeTooltip :: "builtins \<Rightarrow> obj \<Rightarrow> string" where
  "createEdgeTooltip b edge =
     ''<div style='' @ dq @ ''padding: 8px;'' @ dq @ ''>'' @
     ''<div style='' @ dq @ ''font-weight: bold; margin-bottom: 4px;'' @ dq @ ''>'' @
       template_string b (get_prop edge ''label'') @ ''</div>'' @
     (if js_positive b (get_prop edge ''ownershipPercentage'')
      then ''<div>Ownership: '' @ template_string b (get_prop edge ''ownershipPercentage'') @ ''%</div>''
      else []) @
     (if truthy (get_prop edge ''isBeneficialOwner'')
      then ''<div style='' @ dq @ ''color: #dc2626; font-weight: bold;'' @ dq @
             ''>Beneficial Ownership</div>''
      else []) @
     ''</div>''"

definition cng_node_item :: "builtins \<Rightarrow> obj \<Rightarrow> obj" where
  "cng_node_item b node =
     [(''id'', get_prop node ''id''),
      (''label'', get_prop node ''label''),
      (''title'', JStr (createNodeTooltip b node)),
      (''color'', getNodeColor node),
      (''size'', getNodeSize b node),
      (''font'', JObj [(''color'', if strict_eq (get_prop node ''nodeType'') (JStr ''customer'')
                                   then JStr ''#ffffff'' else JStr ''#343a40'')]),
      (''borderWidth'', if truthy (get_prop node ''isBeneficialOwner'') then JNum 4 else JNum 2),
      (''borderWidthSelected'', if truthy (get_prop node ''isBeneficialOwner'') then JNum 6 else JNum 3)]"

definition cng_edge_item :: "builtins \<Rightarrow> obj \<Rightarrow> obj" where
  "cng_edge_item b edge =
     [(''from'', get_prop edge ''from''),
      (''to'', get_prop edge ''to''),
      (''label'', get_prop edge ''label''),
      (''title'', JStr (createEdgeTooltip b edge)),
      (''width'', if truthy (get_prop edge ''isBeneficialOwner'') then JNum 3 else JNum 2),
      (''color'', if truthy (get_prop edge ''isBeneficialOwner'')
                  then JObj [(''color'', JStr ''#dc2626''), (''highlight'', JStr ''#b91c1c'')]
                  else JObj [(''color'', JStr ''#848484''), (''highlight'', JStr ''#3b82f6'')])]"

text \<open>
  The graph data are an object with the arrays \<open>nodes\<close> and \<open>edges\<close>; a missing array
  raises in \<open>graphData.nodes.map\<close> or \<open>graphData.edges.map\<close>, before anything is cleared.
\<close>

definition cng_loadData ::
  "builtins \<Rightarrow> cng_state \<Rightarrow> string \<Rightarrow> journey_data \<Rightarrow> bool \<times> cng_state" where
  "cng_loadData b s containerId graphData =
     (case table_get (instances s) containerId of
        Missing \<Rightarrow> (False, s)
      | Inherited \<Rightarrow> (False, s)
      | Own instance \<Rightarrow>
          (case (jd_nodes graphData, jd_edges graphData) of
             (Some ns, Some es) \<Rightarrow>
               (let nodes = map (cng_node_item b) ns;
                    edges = map (cng_edge_item b) es;
                    nodes0 = ds_clear (data_nodes instance);
                    edges0 = ds_clear (data_edges instance);
                    store = (\<lambda>nodes1 edges1. s\<lparr>instances := (instances s)(containerId \<mapsto>
                               (nodes_changed (nodes_changed instance nodes0) nodes1)
                                 \<lparr>data_edges := edges1\<rparr>)\<rparr>)
                in case ds_add_all nodes0 nodes of
                     Inl (e, nodes1) \<Rightarrow> (False, store nodes1 edges0)
                   | Inr nodes1 \<Rightarrow>
                       (case ds_add_all edges0 edges of
                          Inl (e, edges1) \<Rightarrow> (False, store nodes1 edges1)
                        | Inr edges1 \<Rightarrow> (True, store nodes1 edges1)))
           | _ \<Rightarrow> (False, s)))"

definition cng_focusNode :: "cng_state \<Rightarrow> string \<Rightarrow> jsval \<Rightarrow> bool \<times> cng_state" where
  "cng_focusNode s containerId nodeId =
     (case table_get (instances s) containerId of
        Missing \<Rightarrow> (False, s)
      | Inherited \<Rightarrow> (False, s)
      | Own instance \<Rightarrow>
          (case net_selectNodes instance [nodeId] of
             Inl (e, instance') \<Rightarrow> (False, s\<lparr>instances := (instances s)(containerId \<mapsto> instance')\<rparr>)
           | Inr instance' \<Rightarrow> (True, s\<lparr>instances := (instances s)(containerId \<mapsto> instance')\<rparr>)))"

definition cng_highlightPath :: "cng_state \<Rightarrow> string \<Rightarrow> jsval list \<Rightarrow> bool \<times> cng_state" where
  "cng_highlightPath s containerId nodeIds =
     (case table_get (instances s) containerId of
        Missing \<Rightarrow> (False, s)
      | Inherited \<Rightarrow> (False, s)
      | Own instance \<Rightarrow>
          (let edges = ds_get (data_edges instance);
               highlightEdges = filter (\<lambda>edge. js_includes nodeIds (get_prop edge ''from'') \<and>
                                               js_includes nodeIds (get_prop edge ''to'')) edges;
               nodes' = fold (\<lambda>node ds. ds_update ds
                          [(''id'', get_prop node ''id''),
                           (''opacity'', if js_includes nodeIds (get_prop node ''id'')
                                         then JNum 1 else JNum (3 / 10))])
                        (ds_get (data_nodes instance)) (data_nodes instance);
               edges' = fold (\<lambda>edge ds.
                          (let isHighlighted =
                                 list_ex (\<lambda>e. strict_eq (get_prop e ''id'') (get_prop edge ''id''))
                                   highlightEdges
                           in ds_update ds
                                [(''id'', get_prop edge ''id''),
                                 (''opacity'', if isHighlighted then JNum 1 else JNum (3 / 10))]))
                        (ds_get (data_edges instance)) (data_edges instance)
           in (True, s\<lparr>instances := (instances s)(containerId \<mapsto>
                         (nodes_changed instance nodes')\<lparr>data_edges := edges'\<rparr>)\<rparr>)))"

definition cng_resetHighlight :: "cng_state \<Rightarrow> string \<Rightarrow> bool \<times> cng_state" where
  "cng_resetHighlight s containerId =
     (case table_get (instances s) containerId of
        Missing \<Rightarrow> (False, s)
      | Inherited \<Rightarrow> (False, s)
      | Own instance \<Rightarrow>
          (let nodes' = fold (\<lambda>node ds. ds_update ds
                          [(''id'', get_prop node ''id''), (''opacity'', JNum 1)])
                        (ds_get (data_nodes instance)) (data_nodes instance);
               edges' = fold (\<lambda>edge ds. ds_update ds
                          [(''id'', get_prop edge ''id''), (''opacity'', JNum 1)])
                        (ds_get (data_edges instance)) (data_edges instance)
           in (True, s\<lparr>instances := (instances s)(containerId \<mapsto>
                         (nodes_changed instance nodes')\<lparr>data_edges := edges'\<rparr>)\<rparr>)))"

definition cng_exportToPNG :: "(network \<Rightarrow> js_error + jsval) \<Rightarrow> cng_state \<Rightarrow> string \<Rightarrow> jsval" where
  "cng_exportToPNG toDataURL s containerId =
     (case table_get (instances s) containerId of
        Missing \<Rightarrow> JNull
      | Inherited \<Rightarrow> JNull
      | Own instance \<Rightarrow> (case toDataURL instance of Inr url \<Rightarrow> url | Inl e \<Rightarrow> JNull))"

definition cng_destroy :: "cng_state \<Rightarrow> string \<Rightarrow> bool \<times> cng_state" where
  "cng_destroy s containerId =
     (case table_get (instances s) containerId of
        Own instance \<Rightarrow>
          (True, s\<lparr>instances := table_delete (instances s) containerId,
                    cng_env := net_destroy (cng_env s) instance\<rparr>)
      | Inherited \<Rightarrow> (False, s)
      | Missing \<Rightarrow> (True, s))"

definition cng_setPhysicsEnabled :: "cng_state \<Rightarrow> string \<Rightarrow> jsval \<Rightarrow> bool \<times> cng_state" where
  "cng_setPhysicsEnabled s containerId enabled =
     (case table_get (instances s) containerId of
        Missing \<Rightarrow> (False, s)
      | Inherited \<Rightarrow> (False, s)
      | Own instance \<Rightarrow>
          (True, s\<lparr>instances := (instances s)(containerId \<mapsto>
                     net_setOptions instance [(''physics'', JObj [(''enabled'', enabled)])])\<rparr>))"

section \<open>The two scripts with the table \<open>networkInstances\<close>\<close>

text \<open>
  Two further scripts keep a module-level table \<open>networkInstances\<close>: the second
  \<open>customerNetworkGraph\<close> object (functions prefixed \<open>p0_\<close> here, since the name
  \<open>customerNetworkGraph\<close> is taken) and the relationship-graph functions
  \<open>renderRelationshipGraph\<close>, \<open>updateGraphData\<close>, \<open>getSelectedNodes\<close> and \<open>destroyGraph\<close>.
  Both catch the errors raised after the lookup: with an inherited member in the place
  of the instance, the first use of \<open>instance.data\<close>, \<open>instance.network\<close>, \<open>network.body\<close> or
  of a method of the network raises and the function returns from its \<open>catch\<close>.
\<close>

record ni_state =
  networkInstances :: "string \<rightharpoonup> network"
  ni_env :: vis_env

subsection \<open>The second \<open>customerNetworkGraph\<close>\<close>

definition p0_options :: obj where
  "p0_options =
     [(''nodes'', JObj
        [(''shape'', JStr ''dot''), (''size'', JNum 20),
         (''font'', JObj [(''size'', JNum 14), (''color'', JStr ''#ffffff'')]),
         (''borderWidth'', JNum 2), (''shadow'', JBool True)]),
      (''edges'', JObj
        [(''width'', JNum 2), (''color'', JObj [(''inherit'', JStr ''from'')]),
         (''smooth'', JObj [(''type'', JStr ''continuous'')]),
         (''arrows'', JObj [(''to'', JObj [(''enabled'', JBool True), (''scaleFactor'', JNum (5 / 10))])])]),
      (''physics'', JObj
        [(''enabled'', JBool True),
         (''barnesHut'', JObj
            [(''gravitationalConstant'', JNum (- 2000)), (''centralGravity'', JNum (3 / 10)),
             (''springLength'', JNum 150), (''springConstant'', JNum (4 / 100)),
             (''damping'', JNum (9 / 100)), (''avoidOverlap'', JNum (1 / 10))]),
         (''stabilization'', JObj [(''enabled'', JBool True), (''iterations'', JNum 200)])]),
      (''interaction'', JObj
        [(''hover'', JBool True), (''tooltipDelay'', JNum 200), (''zoomView'', JBool True),
         (''dragView'', JBool True)]),
      (''layout'', JObj [(''improvedLayout'', JBool True), (''hierarchical'', JBool False)])]"

definition p0_initialize :: "ni_state \<Rightarrow> string \<Rightarrow> jsval \<Rightarrow> bool \<times> ni_state" where
  "p0_initialize s containerId dotNetRef =
     (if containerId \<notin> containers (ni_env s) then (False, s)
      else
        (let (network, env') = new_Network (ni_env s) empty_dataset empty_dataset p0_options
         in (True, s\<lparr>networkInstances := (networkInstances s)(containerId \<mapsto> network),
                      ni_env := env'\<rparr>)))"

definition p0_addNode :: "ni_state \<Rightarrow> string \<Rightarrow> obj \<Rightarrow> bool \<times> ni_state" where
  "p0_addNode s containerId nodeData =
     (case table_get (networkInstances s) containerId of
        Missing \<Rightarrow> (False, s)
      | Inherited \<Rightarrow> (False, s)
      | Own instance \<Rightarrow>
          (let node =
                 [(''id'', get_prop nodeData ''id''),
                  (''label'', get_prop nodeData ''label''),
                  (''title'', js_or (get_prop nodeData ''title'') (get_prop nodeData ''label'')),
                  (''group'', get_prop nodeData ''group''),
                  (''color'', JObj
                     [(''background'', js_or (get_prop nodeData ''color'') (JStr ''#3b82f6'')),
                      (''border'', js_or (get_prop nodeData ''borderColor'') (JStr ''#2563eb'')),
                      (''highlight'', JObj
                         [(''background'', js_or (get_prop nodeData ''highlightColor'') (JStr ''#60a5fa'')),
                          (''border'', js_or (get_prop nodeData ''highlightBorderColor'') (JStr ''#1d4ed8''))])]),
                  (''size'', js_or (get_prop nodeData ''size'') (JNum 20)),
                  (''font'', JObj [(''color'', JStr ''#ffffff''),
                                   (''size'', js_or (get_prop nodeData ''fontSize'') (JNum 14))]),
                  (''shape'', js_or (get_prop nodeData ''shape'') (JStr ''dot''))]
           in case ds_addItem (data_nodes instance) node of
                Inl e \<Rightarrow> (False, s)
              | Inr nodes' \<Rightarrow>
                  (True, s\<lparr>networkInstances := (networkInstances s)(containerId \<mapsto>
                             nodes_changed instance nodes')\<rparr>)))"

definition p0_addEdge :: "ni_state \<Rightarrow> string \<Rightarrow> obj \<Rightarrow> bool \<times> ni_state" where
  "p0_addEdge s containerId edgeData =
     (case table_get (networkInstances s) containerId of
        Missing \<Rightarrow> (False, s)
      | Inherited \<Rightarrow> (False, s)
      | Own instance \<Rightarrow>
          (let edge =
                 [(''from'', get_prop edgeData ''from''),
                  (''to'', get_prop edgeData ''to''),
                  (''label'', js_or (get_prop edgeData ''label'') (JStr [])),
                  (''title'', js_or (get_prop edgeData ''title'') (get_prop edgeData ''label'')),
                  (''color'', JObj
                     [(''color'', js_or (get_prop edgeData ''color'') (JStr ''#94a3b8'')),
                      (''highlight'', js_or (get_prop edgeData ''highlightColor'') (JStr ''#475569''))]),
                  (''width'', js_or (get_prop edgeData ''width'') (JNum 2)),
                  (''dashes'', js_or (get_prop edgeData ''dashed'') (JBool False)),
                  (''arrows'', JObj
                     [(''to'', JObj
                        [(''enabled'', JBool (\<not> strict_eq (get_prop edgeData ''directed'') (JBool False))),
                         (''scaleFactor'', JNum (5 / 10))])])]
           in case ds_addItem (data_edges instance) edge of
                Inl e \<Rightarrow> (False, s)
              | Inr edges' \<Rightarrow>
                  (True, s\<lparr>networkInstances := (networkInstances s)(containerId \<mapsto>
                             instance\<lparr>data_edges := edges'\<rparr>)\<rparr>)))"

definition p0_updateNode :: "ni_state \<Rightarrow> string \<Rightarrow> jsval \<Rightarrow> obj \<Rightarrow> bool \<times> ni_state" where
  "p0_updateNode s containerId nodeId updates =
     (case table_get (networkInstances s) containerId of
        Missing \<Rightarrow> (False, s)
      | Inherited \<Rightarrow> (False, s)
      | Own instance \<Rightarrow>
          (True, s\<lparr>networkInstances := (networkInstances s)(containerId \<mapsto>
                     nodes_changed instance
                       (ds_update (data_nodes instance) (spread [(''id'', nodeId)] updates)))\<rparr>))"

definition p0_removeNode :: "ni_state \<Rightarrow> string \<Rightarrow> jsval \<Rightarrow> bool \<times> ni_state" where
  "p0_removeNode s containerId nodeId =
     (case table_get (networkInstances s) containerId of
        Missing \<Rightarrow> (False, s)
      | Inherited \<Rightarrow> (False, s)
      | Own instance \<Rightarrow>
          (True, s\<lparr>networkInstances := (networkInstances s)(containerId \<mapsto>
                     nodes_changed instance (ds_remove (data_nodes instance) nodeId))\<rparr>))"

definition p0_clearNetwork :: "ni_state \<Rightarrow> string \<Rightarrow> bool \<times> ni_state" where
  "p0_clearNetwork s containerId =
     (case table_get (networkInstances s) containerId of
        Missing \<Rightarrow> (False, s)
      | Inherited \<Rightarrow> (False, s)
      | Own instance \<Rightarrow>
          (True, s\<lparr>networkInstances := (networkInstances s)(containerId \<mapsto>
                     (nodes_changed instance (ds_clear (data_nodes instance)))
                       \<lparr>data_edges := ds_clear (data_edges instance)\<rparr>)\<rparr>))"

text \<open>\<open>focusNode\<close> only moves the camera; the library logs an unknown node and returns.\<close>

definition p0_focusNode :: "ni_state \<Rightarrow> string \<Rightarrow> jsval \<Rightarrow> bool \<times> ni_state" where
  "p0_focusNode s containerId nodeId =
     (case table_get (networkInstances s) containerId of
        Missing \<Rightarrow> (False, s)
      | Inherited \<Rightarrow> (False, s)
      | Own instance \<Rightarrow> (True, s))"

definition p0_selectNode :: "ni_state \<Rightarrow> string \<Rightarrow> jsval \<Rightarrow> bool \<times> ni_state" where
  "p0_selectNode s containerId nodeId =
     (case table_get (networkInstances s) containerId of
        Missing \<Rightarrow> (False, s)
      | Inherited \<Rightarrow> (False, s)
      | Own instance \<Rightarrow>
          (case net_selectNodes instance [nodeId] of
             Inl (e, instance') \<Rightarrow>
               (False, s\<lparr>networkInstances := (networkInstances s)(containerId \<mapsto> instance')\<rparr>)
           | Inr instance' \<Rightarrow>
               (True, s\<lparr>networkInstances := (networkInstances s)(containerId \<mapsto> instance')\<rparr>)))"

definition p0_enablePhysics :: "ni_state \<Rightarrow> string \<Rightarrow> jsval \<Rightarrow> bool \<times> ni_state" where
  "p0_enablePhysics s containerId enable =
     (case table_get (networkInstances s) containerId of
        Missing \<Rightarrow> (False, s)
      | Inherited \<Rightarrow> (False, s)
      | Own instance \<Rightarrow>
          (True, s\<lparr>networkInstances := (networkInstances s)(containerId \<mapsto>
                     net_setOptions instance [(''physics'', JObj [(''enabled'', enable)])])\<rparr>))"

definition p0_setLayout :: "ni_state \<Rightarrow> string \<Rightarrow> jsval \<Rightarrow> bool \<times> ni_state" where
  "p0_setLayout s containerId layoutType =
     (case table_get (networkInstances s) containerId of
        Missing \<Rightarrow> (False, s)
      | Inherited \<Rightarrow> (False, s)
      | Own instance \<Rightarrow>
          (let layoutOptions =
                 [(''hierarchical'',
                     if strict_eq layoutType (JStr ''hierarchical'')
                     then JObj [(''enabled'', JBool True), (''direction'', JStr ''UD''),
                                (''sortMethod'', JStr ''directed''), (''levelSeparation'', JNum 150),
                                (''nodeSpacing'', JNum 200)]
                     else JBool False),
                  (''improvedLayout'', JBool True)]
           in (True, s\<lparr>networkInstances := (networkInstances s)(containerId \<mapsto>
                         net_setOptions instance [(''layout'', JObj layoutOptions)])\<rparr>)))"

definition p0_exportNetwork :: "ni_state \<Rightarrow> string \<Rightarrow> journey_data option" where
  "p0_exportNetwork s containerId =
     (case table_get (networkInstances s) containerId of
        Missing \<Rightarrow> None
      | Inherited \<Rightarrow> None
      | Own instance \<Rightarrow>
          Some \<lparr>jd_nodes = Some (ds_get (data_nodes instance)),
                jd_edges = Some (ds_get (data_edges instance))\<rparr>)"

definition p0_destroy :: "ni_state \<Rightarrow> string \<Rightarrow> bool \<times> ni_state" where
  "p0_destroy s containerId =
     (case table_get (networkInstances s) containerId of
        Missing \<Rightarrow> (False, s)
      | Inherited \<Rightarrow> (False, s)
      | Own instance \<Rightarrow>
          (True, s\<lparr>networkInstances := table_delete (networkInstances s) containerId,
                    ni_env := net_destroy (ni_env s) instance\<rparr>))"

subsection \<open>The relationship graph\<close>

text \<open>
  \<open>renderRelationshipGraph\<close> returns \<open>undefined\<close> when the container is missing, \<open>false\<close>
  when the construction raises, \<open>true\<close> otherwise. \<open>new vis.DataSet(array)\<close> adds the
  array to an empty set. A truthy \<open>networkInstances[containerId]\<close> is destroyed first; an
  inherited member has no \<open>destroy\<close>, the call raises and the function returns \<open>false\<close>.
\<close>

definition renderRelationshipGraph ::
  "ni_state \<Rightarrow> string \<Rightarrow> obj list \<Rightarrow> obj list \<Rightarrow> obj option \<Rightarrow> jsval \<times> ni_state" where
  "renderRelationshipGraph s containerId nodes edges opts =
     (if containerId \<notin> containers (ni_env s) then (JUndefined, s)
      else
        (case ds_add_all empty_dataset nodes of
           Inl err \<Rightarrow> (JBool False, s)
         | Inr nodesDataSet \<Rightarrow>
             (case ds_add_all empty_dataset edges of
                Inl err \<Rightarrow> (JBool False, s)
              | Inr edgesDataSet \<Rightarrow>
                  (let defaultOptions =
                         [(''autoResize'', JBool True), (''height'', JStr ''100%''),
                          (''width'', JStr ''100%''), (''locale'', JStr ''en''),
                          (''clickToUse'', JBool False)];
                       finalOptions = spread defaultOptions (case opts of None \<Rightarrow> [] | Some ob \<Rightarrow> ob);
                       create = (\<lambda>env1.
                         (let (network, env2) = new_Network env1 nodesDataSet edgesDataSet finalOptions
                          in (JBool True,
                              s\<lparr>networkInstances := (networkInstances s)(containerId \<mapsto> network),
                                ni_env := env2\<rparr>)))
                   in case table_get (networkInstances s) containerId of
                        Own old \<Rightarrow> create (net_destroy (ni_env s) old)
                      | Inherited \<Rightarrow> (JBool False, s)
                      | Missing \<Rightarrow> create (ni_env s)))))"

definition updateGraphData :: "ni_state \<Rightarrow> string \<Rightarrow> obj list \<Rightarrow> obj list \<Rightarrow> bool \<times> ni_state" where
  "updateGraphData s containerId nodes edges =
     (case table_get (networkInstances s) containerId of
        Missing \<Rightarrow> (False, s)
      | Inherited \<Rightarrow> (False, s)
      | Own network \<Rightarrow>
          (let store = (\<lambda>ns es. s\<lparr>networkInstances := (networkInstances s)(containerId \<mapsto>
                                      (nodes_changed (nodes_changed network (ds_clear (data_nodes network))) ns)
                                        \<lparr>data_edges := es\<rparr>)\<rparr>)
           in case ds_add_all (ds_clear (data_nodes network)) nodes of
                Inl (e, nodes1) \<Rightarrow> (False, store nodes1 (data_edges network))
              | Inr nodes1 \<Rightarrow>
                  (case ds_add_all (ds_clear (data_edges network)) edges of
                     Inl (e, edges1) \<Rightarrow> (False, store nodes1 edges1)
                   | Inr edges1 \<Rightarrow> (True, store nodes1 edges1))))"

text \<open>
  \<open>exportGraph\<close> hands the canvas to the browser for download and has no return value:
  the caller gets \<open>undefined\<close> whether or not the instance exists.
\<close>

definition exportGraph :: "ni_state \<Rightarrow> string \<Rightarrow> jsval \<times> ni_state" where
  "exportGraph s containerId =
     (case table_get (networkInstances s) containerId of
        Missing \<Rightarrow> (JUndefined, s)
      | Inherited \<Rightarrow> (JUndefined, s)
      | Own network \<Rightarrow> (JUndefined, s))"

definition highlightNodes :: "ni_state \<Rightarrow> string \<Rightarrow> jsval list \<Rightarrow> bool \<times> ni_state" where
  "highlightNodes s containerId nodeIds =
     (case table_get (networkInstances s) containerId of
        Missing \<Rightarrow> (False, s)
      | Inherited \<Rightarrow> (False, s)
      | Own network \<Rightarrow>
          (case net_selectNodes network nodeIds of
             Inl (e, network') \<Rightarrow>
               (False, s\<lparr>networkInstances := (networkInstances s)(containerId \<mapsto> network')\<rparr>)
           | Inr network' \<Rightarrow>
               (True, s\<lparr>networkInstances := (networkInstances s)(containerId \<mapsto> network')\<rparr>)))"

text \<open>
  \<open>getSelectedNodes\<close>: the library call \<open>network.getSelectedNodes()\<close> is a parameter that
  may raise; \<open>vis_getSelectedNodes\<close> is what the library does.
\<close>

definition vis_getSelectedNodes :: "network \<Rightarrow> js_error + jsval list" where
  "vis_getSelectedNodes network = Inr (selection network)"

definition getSelectedNodes ::
  "(network \<Rightarrow> js_error + jsval list) \<Rightarrow> ni_state \<Rightarrow> string \<Rightarrow> jsval" where
  "getSelectedNodes net_getSelectedNodes s containerId =
     (case table_get (networkInstances s) containerId of
        Missing \<Rightarrow> JArr []
      | Inherited \<Rightarrow> JArr []
      | Own network \<Rightarrow>
          (case net_getSelectedNodes network of
             Inr ids \<Rightarrow> JArr ids
           | Inl err \<Rightarrow> JArr []))"

definition destroyGraph :: "ni_state \<Rightarrow> string \<Rightarrow> jsval \<times> ni_state" where
  "destroyGraph s containerId =
     (case table_get (networkInstances s) containerId of
        Own network \<Rightarrow>
          (JUndefined, s\<lparr>networkInstances := table_delete (networkInstances s) containerId,
                          ni_env := net_destroy (ni_env s) network\<rparr>)
      | Inherited \<Rightarrow> (JUndefined, s)
      | Missing \<Rightarrow> (JUndefined, s))"

section \<open>\<open>js/d3-network-graph.js\<close>: the table \<open>graphInstances\<close>\<close>

text \<open>
  The hand-rolled renderer keeps node and link objects in arrays and hands the same
  objects to the force simulation, which writes into them: the link force replaces an
  endpoint given by identifier with the node object itself. Node and link objects live
  in a store; the arrays hold addresses. The simulation is the external handle; it is
  live while its timer runs. Its bookkeeping fields (\<open>index\<close>, \<open>x\<close>, \<open>y\<close>, \<open>vx\<close>, \<open>vy\<close>) are
  not modelled. \<open>force_links\<close> is the link array the link force holds, that of the last
  call of \<open>links\<close>. Of the SVG elements the model keeps the data they are bound to
  (\<open>nodeElements\<close>, \<open>linkElements\<close>; \<open>None\<close> is \<open>null\<close>, before the first rendering) and
  which of them carry the highlight stroke (\<open>marked_nodes\<close>, \<open>marked_links\<close>).
\<close>

record d3_instance =
  config :: obj
  d3_nodes :: "nat list"
  d3_links :: "nat list"
  simulation :: nat
  force_links :: "nat list"
  hierarchical :: bool
  nodeElements :: "nat list option"
  linkElements :: "nat list option"
  marked_nodes :: "nat list"
  marked_links :: "nat list"

text \<open>
  No function of this script catches errors. With an inherited member in the place of
  the instance, the functions that assign \<open>instance.nodes\<close> and \<open>instance.links\<close> assign
  onto that member before the rendering raises. \<open>member_nodes\<close> and \<open>member_links\<close> hold
  the arrays assigned onto the inherited members, by member name. Arrays assigned onto
  \<open>Object.prototype\<close> itself (the name \<open>__proto__\<close>) are inherited by every object: they
  are read through every member that has no array of its own, and they make \<open>nodes\<close>
  and \<open>links\<close> names under which the table reads a truthy value, namely these arrays.
\<close>

record d3_state =
  graphInstances :: "string \<rightharpoonup> d3_instance"
  member_nodes :: "string \<rightharpoonup> nat list"
  member_links :: "string \<rightharpoonup> nat list"
  heap :: "nat \<Rightarrow> obj"
  next_ref :: nat
  d3_env :: vis_env

record graph_data =
  gd_nodes :: "obj list"
  gd_links :: "obj list"

text \<open>\<open>graphInstances[k]\<close>\<close>

definition d3_get :: "d3_state \<Rightarrow> string \<Rightarrow> d3_instance slot" where
  "d3_get s k =
     (case table_get (graphInstances s) k of
        Missing \<Rightarrow>
          (if k = ''nodes'' \<and> member_nodes s ''__proto__'' \<noteq> None then Inherited
           else if k = ''links'' \<and> member_links s ''__proto__'' \<noteq> None then Inherited
           else Missing)
      | r \<Rightarrow> r)"

definition d3_unregistered :: "d3_state \<Rightarrow> string \<Rightarrow> bool" where
  "d3_unregistered s k \<longleftrightarrow> d3_get s k = Missing \<and> graphInstances s ''__proto__'' = None"

text \<open>\<open>instance.nodes\<close> and \<open>instance.links\<close> read on the inherited member of name \<open>k\<close>.\<close>

definition inherited_nodes :: "d3_state \<Rightarrow> string \<Rightarrow> nat list option" where
  "inherited_nodes s k =
     (case member_nodes s k of Some ns \<Rightarrow> Some ns | None \<Rightarrow> member_nodes s ''__proto__'')"

definition inherited_links :: "d3_state \<Rightarrow> string \<Rightarrow> nat list option" where
  "inherited_links s k =
     (case member_links s k of Some ls \<Rightarrow> Some ls | None \<Rightarrow> member_links s ''__proto__'')"

text \<open>
  \<open>instance.nodes = ns\<close> and \<open>instance.links = ls\<close> on the inherited member of name \<open>k\<close>. An
  array put on \<open>Object.prototype\<close> is a new object: what was assigned onto the array it
  replaces is no longer reached under the names \<open>nodes\<close> and \<open>links\<close>.
\<close>

definition assign_member_nodes :: "d3_state \<Rightarrow> string \<Rightarrow> nat list \<Rightarrow> d3_state" where
  "assign_member_nodes s k ns =
     (if k = ''__proto__''
      then s\<lparr>member_nodes := ((member_nodes s)(''nodes'' := None))(k \<mapsto> ns),
             member_links := (member_links s)(''nodes'' := None)\<rparr>
      else s\<lparr>member_nodes := (member_nodes s)(k \<mapsto> ns)\<rparr>)"

definition assign_member_links :: "d3_state \<Rightarrow> string \<Rightarrow> nat list \<Rightarrow> d3_state" where
  "assign_member_links s k ls =
     (if k = ''__proto__''
      then s\<lparr>member_links := ((member_links s)(''links'' := None))(k \<mapsto> ls),
             member_nodes := (member_nodes s)(''links'' := None)\<rparr>
      else s\<lparr>member_links := (member_links s)(k \<mapsto> ls)\<rparr>)"

text \<open>
  \<open>instance.nodes.push(a)\<close> and \<open>instance.links.push(a)\<close> on the inherited member of name
  \<open>k\<close>: the array that is read is changed in place.
\<close>

definition push_member_node :: "d3_state \<Rightarrow> string \<Rightarrow> nat \<Rightarrow> d3_state" where
  "push_member_node s k a =
     (case member_nodes s k of
        Some ns \<Rightarrow> s\<lparr>member_nodes := (member_nodes s)(k \<mapsto> ns @ [a])\<rparr>
      | None \<Rightarrow>
          (case member_nodes s ''__proto__'' of
             Some ns \<Rightarrow> s\<lparr>member_nodes := (member_nodes s)(''__proto__'' \<mapsto> ns @ [a])\<rparr>
           | None \<Rightarrow> s))"

definition push_member_link :: "d3_state \<Rightarrow> string \<Rightarrow> nat \<Rightarrow> d3_state" where
  "push_member_link s k a =
     (case member_links s k of
        Some ls \<Rightarrow> s\<lparr>member_links := (member_links s)(k \<mapsto> ls @ [a])\<rparr>
      | None \<Rightarrow>
          (case member_links s ''__proto__'' of
             Some ls \<Rightarrow> s\<lparr>member_links := (member_links s)(''__proto__'' \<mapsto> ls @ [a])\<rparr>
           | None \<Rightarrow> s))"

text \<open>Property read \<open>v.k\<close> on any value: it raises on \<open>undefined\<close> and \<open>null\<close>.\<close>

definition member :: "(nat \<Rightarrow> obj) \<Rightarrow> jsval \<Rightarrow> string \<Rightarrow> js_error + jsval" where
  "member h v k =
     (case v of
        JUndefined \<Rightarrow> Inl TypeError
      | JNull \<Rightarrow> Inl TypeError
      | JObj ob \<Rightarrow> Inr (get_prop ob k)
      | JRef a \<Rightarrow> Inr (get_prop (h a) k)
      | _ \<Rightarrow> Inr JUndefined)"

text \<open>\<open>typeof v === "object"\<close>\<close>

definition is_object :: "jsval \<Rightarrow> bool" where
  "is_object v = (case v of JNull \<Rightarrow> True | JObj ob \<Rightarrow> True | JArr xs \<Rightarrow> True | JRef a \<Rightarrow> True
                   | _ \<Rightarrow> False)"

text \<open>\<open>{...x}\<close> as a new object in the store.\<close>

definition alloc :: "d3_state \<Rightarrow> obj \<Rightarrow> nat \<times> d3_state" where
  "alloc s ob = (next_ref s, s\<lparr>heap := (heap s)(next_ref s := ob), next_ref := Suc (next_ref s)\<rparr>)"

fun alloc_all :: "d3_state \<Rightarrow> obj list \<Rightarrow> nat list \<times> d3_state" where
  "alloc_all s [] = ([], s)"
| "alloc_all s (x # xs) =
     (let (a, s1) = alloc s x; (as, s2) = alloc_all s1 xs in (a # as, s2))"

text \<open>
  The link force (\<open>d3.forceLink().id(d => d.id)\<close>) builds a map from node identifier to
  node, a later node winning. For every link in turn it replaces the source, then the
  target, by the node of that identifier unless the endpoint is an object already; a
  missing node raises. It then reads \<open>link.source.index\<close> and \<open>link.target.index\<close>, which
  raises on an endpoint that is \<open>null\<close>.
\<close>

definition nodeById :: "(nat \<Rightarrow> obj) \<Rightarrow> nat list \<Rightarrow> jsval \<Rightarrow> nat option" where
  "nodeById h nodes x =
     (case filter (\<lambda>a. strict_eq (get_prop (h a) ''id'') x) (rev nodes) of
        [] \<Rightarrow> None
      | a # as \<Rightarrow> Some a)"

definition resolve_end ::
  "(nat \<Rightarrow> obj) \<Rightarrow> nat list \<Rightarrow> nat \<Rightarrow> string \<Rightarrow> js_error + (nat \<Rightarrow> obj)" where
  "resolve_end h nodes l k =
     (let v = get_prop (h l) k in
      if is_object v then Inr h
      else (case nodeById h nodes v of
              None \<Rightarrow> Inl (LinkEndMissing v)
            | Some a \<Rightarrow> Inr (h(l := AList.update k (JRef a) (h l)))))"

fun resolve_links ::
  "(nat \<Rightarrow> obj) \<Rightarrow> nat list \<Rightarrow> nat list \<Rightarrow> js_error \<times> (nat \<Rightarrow> obj) + (nat \<Rightarrow> obj)" where
  "resolve_links h nodes [] = Inr h"
| "resolve_links h nodes (l # ls) =
     (case resolve_end h nodes l ''source'' of
        Inl e \<Rightarrow> Inl (e, h)
      | Inr h1 \<Rightarrow>
          (case resolve_end h1 nodes l ''target'' of
             Inl e \<Rightarrow> Inl (e, h1)
           | Inr h2 \<Rightarrow>
               (if get_prop (h2 l) ''source'' = JNull \<or> get_prop (h2 l) ''target'' = JNull
                then Inl (TypeError, h2)
                else resolve_links h2 nodes ls)))"

text \<open>
  \<open>renderGraph\<close>: the elements are built anew from the current arrays and stored; then
  \<open>simulation.nodes(nodes)\<close> initialises the link force again on the links it holds;
  \<open>simulation.force('link').links(links)\<close> hands over the current links and initialises
  once more; \<open>simulation.alpha(1).restart()\<close> starts the timer. The result is the error
  raised, if any. On an inherited member \<open>g\<close> is \<open>undefined\<close> and \<open>g.selectAll\<close> raises.
\<close>

definition renderGraph :: "d3_state \<Rightarrow> string \<Rightarrow> js_error option \<times> d3_state" where
  "renderGraph s containerId =
     (case d3_get s containerId of
        Missing \<Rightarrow> (None, s)
      | Inherited \<Rightarrow> (Some TypeError, s)
      | Own instance \<Rightarrow>
          (let instance0 = instance\<lparr>nodeElements := Some (d3_nodes instance),
                                    linkElements := Some (d3_links instance),
                                    marked_nodes := [], marked_links := []\<rparr>
           in case resolve_links (heap s) (d3_nodes instance) (force_links instance) of
                Inl (e, h1) \<Rightarrow>
                  (Some e, s\<lparr>heap := h1,
                              graphInstances := (graphInstances s)(containerId \<mapsto> instance0)\<rparr>)
              | Inr h1 \<Rightarrow>
                  (let instance' = instance0\<lparr>force_links := d3_links instance\<rparr> in
                   case resolve_links h1 (d3_nodes instance) (d3_links instance) of
                     Inl (e, h2) \<Rightarrow>
                       (Some e, s\<lparr>heap := h2,
                                   graphInstances := (graphInstances s)(containerId \<mapsto> instance')\<rparr>)
                   | Inr h2 \<Rightarrow>
                       (None, s\<lparr>heap := h2,
                                 graphInstances := (graphInstances s)(containerId \<mapsto> instance'),
                                 d3_env := (d3_env s)\<lparr>live := insert (simulation instance)
                                                                 (live (d3_env s))\<rparr>\<rparr>))))"

definition d3_defaultOptions :: obj where
  "d3_defaultOptions =
     [(''width'', JNum 800), (''height'', JNum 600), (''nodeRadius'', JNum 8),
      (''linkDistance'', JNum 100), (''chargeStrength'', JNum (- 300)),
      (''enableZoom'', JBool True), (''enableDrag'', JBool True),
      (''colorScheme'', JStr ''category10'')]"

text \<open>
  \<open>initialize\<close>: the simulation is created, and its timer started, before the colour
  scale is built. \<open>config.colorScheme.charAt(0)\<close> raises unless the scheme is a string,
  and \<open>d3.scaleOrdinal\<close> raises when the library has no colour scheme of the name built
  from it; which scheme names the library has (\<open>category10\<close> for \<open>d3.schemeCategory10\<close>)
  is a parameter.
\<close>

definition d3_initialize ::
  "(string \<Rightarrow> bool) \<Rightarrow> d3_state \<Rightarrow> string \<Rightarrow> obj option \<Rightarrow> (js_error + bool) \<times> d3_state" where
  "d3_initialize has_scheme s containerId opts =
     (if containerId \<notin> containers (d3_env s) then (Inr False, s)
      else
        (let config' = spread d3_defaultOptions (case opts of None \<Rightarrow> [] | Some ob \<Rightarrow> ob);
             sim = next_handle (d3_env s);
             env' = (d3_env s)\<lparr>live := insert sim (live (d3_env s)), next_handle := Suc sim\<rparr>
         in case get_prop config' ''colorScheme'' of
              JStr scheme \<Rightarrow>
                (if has_scheme scheme then
                   (Inr True,
                    s\<lparr>graphInstances := (graphInstances s)(containerId \<mapsto>
                         \<lparr>config = config', d3_nodes = [], d3_links = [], simulation = sim,
                          force_links = [], hierarchical = False,
                          nodeElements = None, linkElements = None,
                          marked_nodes = [], marked_links = []\<rparr>),
                      d3_env := env'\<rparr>)
                 else (Inl TypeError, s\<lparr>d3_env := env'\<rparr>))
            | _ \<Rightarrow> (Inl TypeError, s\<lparr>d3_env := env'\<rparr>)))"


definition render_and_return :: "d3_state \<Rightarrow> string \<Rightarrow> (js_error + bool) \<times> d3_state" where
  "render_and_return s containerId =
     (case renderGraph s containerId of
        (Some e, s') \<Rightarrow> (Inl e, s')
      | (None, s') \<Rightarrow> (Inr True, s'))"

definition d3_setData :: "d3_state \<Rightarrow> string \<Rightarrow> graph_data \<Rightarrow> (js_error + bool) \<times> d3_state" where
  "d3_setData s containerId data =
     (case d3_get s containerId of
        Missing \<Rightarrow> (Inr False, s)
      | Inherited \<Rightarrow>
          (let (ns, s1) = alloc_all s (gd_nodes data);
               (ls, s2) = alloc_all s1 (gd_links data)
           in render_and_return
                (assign_member_links (assign_member_nodes s2 containerId ns) containerId ls)
                containerId)
      | Own instance \<Rightarrow>
          (let (ns, s1) = alloc_all s (gd_nodes data);
               (ls, s2) = alloc_all s1 (gd_links data)
           in render_and_return
                (s2\<lparr>graphInstances := (graphInstances s2)(containerId \<mapsto>
                       instance\<lparr>d3_nodes := ns, d3_links := ls\<rparr>)\<rparr>) containerId))"

definition d3_addNode :: "d3_state \<Rightarrow> string \<Rightarrow> obj \<Rightarrow> (js_error + bool) \<times> d3_state" where
  "d3_addNode s containerId node =
     (case d3_get s containerId of
        Missing \<Rightarrow> (Inr False, s)
      | Inherited \<Rightarrow>
          (case inherited_nodes s containerId of
             None \<Rightarrow> (Inl TypeError, s)
           | Some ns \<Rightarrow>
               (let (a, s1) = alloc s node
                in render_and_return (push_member_node s1 containerId a) containerId))
      | Own instance \<Rightarrow>
          (let (a, s1) = alloc s node
           in render_and_return
                (s1\<lparr>graphInstances := (graphInstances s1)(containerId \<mapsto>
                       instance\<lparr>d3_nodes := d3_nodes instance @ [a]\<rparr>)\<rparr>) containerId))"

definition d3_addLink :: "d3_state \<Rightarrow> string \<Rightarrow> obj \<Rightarrow> (js_error + bool) \<times> d3_state" where
  "d3_addLink s containerId link =
     (case d3_get s containerId of
        Missing \<Rightarrow> (Inr False, s)
      | Inherited \<Rightarrow>
          (case inherited_links s containerId of
             None \<Rightarrow> (Inl TypeError, s)
           | Some ls \<Rightarrow>
               (let (a, s1) = alloc s link
                in render_and_return (push_member_link s1 containerId a) containerId))
      | Own instance \<Rightarrow>
          (let (a, s1) = alloc s link
           in render_and_return
                (s1\<lparr>graphInstances := (graphInstances s1)(containerId \<mapsto>
                       instance\<lparr>d3_links := d3_links instance @ [a]\<rparr>)\<rparr>) containerId))"

text \<open>
  The link filter of \<open>removeNode\<close>,
  \<open>l => l.source.id !== nodeId && l.target.id !== nodeId\<close>: the target is read only when
  the source passes, and a read on a missing endpoint raises.
\<close>

fun filter_links :: "(nat \<Rightarrow> obj) \<Rightarrow> jsval \<Rightarrow> nat list \<Rightarrow> js_error + nat list" where
  "filter_links h nodeId [] = Inr []"
| "filter_links h nodeId (l # ls) =
     (case member h (get_prop (h l) ''source'') ''id'' of
        Inl e \<Rightarrow> Inl e
      | Inr sid \<Rightarrow>
          (if \<not> strict_eq sid nodeId then
             (case member h (get_prop (h l) ''target'') ''id'' of
                Inl e \<Rightarrow> Inl e
              | Inr tid \<Rightarrow>
                  (case filter_links h nodeId ls of
                     Inl e \<Rightarrow> Inl e
                   | Inr rest \<Rightarrow> Inr (if \<not> strict_eq tid nodeId then l # rest else rest)))
           else filter_links h nodeId ls))"

definition d3_removeNode :: "d3_state \<Rightarrow> string \<Rightarrow> jsval \<Rightarrow> (js_error + bool) \<times> d3_state" where
  "d3_removeNode s containerId nodeId =
     (case d3_get s containerId of
        Missing \<Rightarrow> (Inr False, s)
      | Inherited \<Rightarrow>
          (case inherited_nodes s containerId of
             None \<Rightarrow> (Inl TypeError, s)
           | Some ns \<Rightarrow>
               (let s1 = assign_member_nodes s containerId
                           (filter (\<lambda>n. \<not> strict_eq (get_prop (heap s n) ''id'') nodeId) ns)
                in case inherited_links s1 containerId of
                     None \<Rightarrow> (Inl TypeError, s1)
                   | Some ls \<Rightarrow>
                       (case filter_links (heap s) nodeId ls of
                          Inl e \<Rightarrow> (Inl e, s1)
                        | Inr links' \<Rightarrow>
                            render_and_return (assign_member_links s1 containerId links')
                              containerId)))
      | Own instance \<Rightarrow>
          (let nodes' = filter (\<lambda>n. \<not> strict_eq (get_prop (heap s n) ''id'') nodeId) (d3_nodes instance);
               instance1 = instance\<lparr>d3_nodes := nodes'\<rparr>
           in case filter_links (heap s) nodeId (d3_links instance) of
                Inl e \<Rightarrow> (Inl e, s\<lparr>graphInstances := (graphInstances s)(containerId \<mapsto> instance1)\<rparr>)
              | Inr links' \<Rightarrow>
                  render_and_return
                    (s\<lparr>graphInstances := (graphInstances s)(containerId \<mapsto>
                          instance1\<lparr>d3_links := links'\<rparr>)\<rparr>) containerId))"

definition d3_updateNode :: "d3_state \<Rightarrow> string \<Rightarrow> jsval \<Rightarrow> obj \<Rightarrow> (js_error + bool) \<times> d3_state" where
  "d3_updateNode s containerId nodeId updates =
     (case d3_get s containerId of
        Missing \<Rightarrow> (Inr False, s)
      | Inherited \<Rightarrow>
          (case inherited_nodes s containerId of
             None \<Rightarrow> (Inl TypeError, s)
           | Some ns \<Rightarrow>
               (case find (\<lambda>n. strict_eq (get_prop (heap s n) ''id'') nodeId) ns of
                  Some node \<Rightarrow>
                    render_and_return (s\<lparr>heap := (heap s)(node := spread (heap s node) updates)\<rparr>)
                      containerId
                | None \<Rightarrow> (Inr True, s)))
      | Own instance \<Rightarrow>
          (case find (\<lambda>n. strict_eq (get_prop (heap s n) ''id'') nodeId) (d3_nodes instance) of
             Some node \<Rightarrow>
               render_and_return (s\<lparr>heap := (heap s)(node := spread (heap s node) updates)\<rparr>) containerId
           | None \<Rightarrow> (Inr True, s)))"

definition d3_clearGraph :: "d3_state \<Rightarrow> string \<Rightarrow> (js_error + bool) \<times> d3_state" where
  "d3_clearGraph s containerId =
     (case d3_get s containerId of
        Missing \<Rightarrow> (Inr False, s)
      | Inherited \<Rightarrow>
          render_and_return
            (assign_member_links (assign_member_nodes s containerId []) containerId [])
            containerId
      | Own instance \<Rightarrow>
          render_and_return
            (s\<lparr>graphInstances := (graphInstances s)(containerId \<mapsto>
                  instance\<lparr>d3_nodes := [], d3_links := []\<rparr>)\<rparr>) containerId)"

text \<open>
  \<open>focusNode\<close> reads the node's position and moves the view; the data stay as they are.
  On an inherited member \<open>instance.config\<close> is \<open>undefined\<close> and its \<open>width\<close> cannot be read.
\<close>

definition d3_focusNode :: "d3_state \<Rightarrow> string \<Rightarrow> jsval \<Rightarrow> (js_error + bool) \<times> d3_state" where
  "d3_focusNode s containerId nodeId =
     (case d3_get s containerId of
        Missing \<Rightarrow> (Inr False, s)
      | Inherited \<Rightarrow>
          (case inherited_nodes s containerId of
             None \<Rightarrow> (Inl TypeError, s)
           | Some ns \<Rightarrow>
               (case find (\<lambda>n. strict_eq (get_prop (heap s n) ''id'') nodeId) ns of
                  None \<Rightarrow> (Inr False, s)
                | Some node \<Rightarrow> (Inl TypeError, s)))
      | Own instance \<Rightarrow>
          (case find (\<lambda>n. strict_eq (get_prop (heap s n) ''id'') nodeId) (d3_nodes instance) of
             None \<Rightarrow> (Inr False, s)
           | Some node \<Rightarrow> (Inr True, s)))"

text \<open>
  The link test of \<open>highlightNode\<close>, \<open>d => d.source.id === nodeId || d.target.id === nodeId\<close>,
  over the data of the link elements: the target is read only when the source does not
  match, and a read on a missing endpoint raises.
\<close>

fun connected_links :: "(nat \<Rightarrow> obj) \<Rightarrow> jsval \<Rightarrow> nat list \<Rightarrow> js_error + nat list" where
  "connected_links h nodeId [] = Inr []"
| "connected_links h nodeId (l # ls) =
     (case member h (get_prop (h l) ''source'') ''id'' of
        Inl e \<Rightarrow> Inl e
      | Inr sid \<Rightarrow>
          (if strict_eq sid nodeId then
             (case connected_links h nodeId ls of
                Inl e \<Rightarrow> Inl e
              | Inr rest \<Rightarrow> Inr (l # rest))
           else
             (case member h (get_prop (h l) ''target'') ''id'' of
                Inl e \<Rightarrow> Inl e
              | Inr tid \<Rightarrow>
                  (case connected_links h nodeId ls of
                     Inl e \<Rightarrow> Inl e
                   | Inr rest \<Rightarrow> Inr (if strict_eq tid nodeId then l # rest else rest)))))"

text \<open>
  \<open>highlightNode\<close> resets the strokes of all elements before it looks the node up, and
  \<open>instance.nodeElements.attr\<close> raises while the elements are \<open>null\<close>.
\<close>

definition d3_highlightNode :: "d3_state \<Rightarrow> string \<Rightarrow> jsval \<Rightarrow> (js_error + bool) \<times> d3_state" where
  "d3_highlightNode s containerId nodeId =
     (case d3_get s containerId of
        Missing \<Rightarrow> (Inr False, s)
      | Inherited \<Rightarrow> (Inl TypeError, s)
      | Own instance \<Rightarrow>
          (let store = (\<lambda>i. s\<lparr>graphInstances := (graphInstances s)(containerId \<mapsto> i)\<rparr>) in
           case nodeElements instance of
             None \<Rightarrow> (Inl TypeError, s)
           | Some nodeData \<Rightarrow>
               (case linkElements instance of
                  None \<Rightarrow> (Inl TypeError, store (instance\<lparr>marked_nodes := []\<rparr>))
                | Some linkData \<Rightarrow>
                    (let instance1 = instance\<lparr>marked_nodes := [], marked_links := []\<rparr> in
                     case find (\<lambda>n. strict_eq (get_prop (heap s n) ''id'') nodeId)
                            (d3_nodes instance) of
                       None \<Rightarrow> (Inr False, store instance1)
                     | Some selectedNode \<Rightarrow>
                         (let instance2 = instance1\<lparr>marked_nodes :=
                                filter (\<lambda>n. strict_eq (get_prop (heap s n) ''id'') nodeId) nodeData\<rparr>
                          in case connected_links (heap s) nodeId linkData of
                               Inl e \<Rightarrow> (Inl e, store instance2)
                             | Inr ls \<Rightarrow> (Inr True, store (instance2\<lparr>marked_links := ls\<rparr>)))))))"

definition d3_clearHighlights :: "d3_state \<Rightarrow> string \<Rightarrow> (js_error + bool) \<times> d3_state" where
  "d3_clearHighlights s containerId =
     (case d3_get s containerId of
        Missing \<Rightarrow> (Inr False, s)
      | Inherited \<Rightarrow> (Inl TypeError, s)
      | Own instance \<Rightarrow>
          (let store = (\<lambda>i. s\<lparr>graphInstances := (graphInstances s)(containerId \<mapsto> i)\<rparr>) in
           case nodeElements instance of
             None \<Rightarrow> (Inl TypeError, s)
           | Some nodeData \<Rightarrow>
               (case linkElements instance of
                  None \<Rightarrow> (Inl TypeError, store (instance\<lparr>marked_nodes := []\<rparr>))
                | Some linkData \<Rightarrow>
                    (Inr True, store (instance\<lparr>marked_nodes := [], marked_links := []\<rparr>)))))"

definition d3_setLayout :: "d3_state \<Rightarrow> string \<Rightarrow> jsval \<Rightarrow> (js_error + bool) \<times> d3_state" where
  "d3_setLayout s containerId layoutType =
     (case d3_get s containerId of
        Missing \<Rightarrow> (Inr False, s)
      | Inherited \<Rightarrow> (Inl TypeError, s)
      | Own instance \<Rightarrow>
          (Inr True,
           s\<lparr>graphInstances := (graphInstances s)(containerId \<mapsto>
                instance\<lparr>hierarchical := strict_eq layoutType (JStr ''hierarchical'')\<rparr>),
             d3_env := (d3_env s)\<lparr>live := insert (simulation instance) (live (d3_env s))\<rparr>\<rparr>))"

definition d3_enableSimulation :: "d3_state \<Rightarrow> string \<Rightarrow> jsval \<Rightarrow> (js_error + bool) \<times> d3_state" where
  "d3_enableSimulation s containerId enable =
     (case d3_get s containerId of
        Missing \<Rightarrow> (Inr False, s)
      | Inherited \<Rightarrow> (Inl TypeError, s)
      | Own instance \<Rightarrow>
          (Inr True,
           s\<lparr>d3_env := (d3_env s)\<lparr>live :=
                (if truthy enable then insert (simulation instance) (live (d3_env s))
                 else live (d3_env s) - {simulation instance})\<rparr>\<rparr>))"

definition d3_destroy :: "d3_state \<Rightarrow> string \<Rightarrow> (js_error + bool) \<times> d3_state" where
  "d3_destroy s containerId =
     (case d3_get s containerId of
        Missing \<Rightarrow> (Inr False, s)
      | Inherited \<Rightarrow> (Inl TypeError, s)
      | Own instance \<Rightarrow>
          (Inr True,
           s\<lparr>graphInstances := table_delete (graphInstances s) containerId,
             d3_env := (d3_env s)\<lparr>live := live (d3_env s) - {simulation instance}\<rparr>\<rparr>))"

section \<open>Well-formed data sets\<close>

text \<open>
  Identifiers are numbers or strings. In a well-formed data set the keys are pairwise
  different identifiers and every item carries its key as its \<open>id\<close>; the library keeps
  sets in this form as long as items are added with identifiers.
  \<open>strip_display\<close> drops the display properties that \<open>styleNode\<close> derives.
\<close>

definition is_id :: "jsval \<Rightarrow> bool" where
  "is_id v = (case v of JNum r \<Rightarrow> True | JStr s \<Rightarrow> True | JUuid n \<Rightarrow> True | _ \<Rightarrow> False)"

definition ds_wf :: "dataset \<Rightarrow> bool" where
  "ds_wf ds \<longleftrightarrow>
     distinct (map fst (items ds)) \<and>
     (\<forall>(k, it)\<in>set (items ds). is_id k \<and> get_prop it ''id'' = k)"

definition strip_display :: "obj \<Rightarrow> obj" where
  "strip_display ob = filter (\<lambda>(k, v). k \<notin> {''color'', ''shape'', ''icon'', ''font''}) ob"

text \<open>
  The identifiers that the library gives, in order, to the items of a list that come
  without one: \<open>assign_ids k xs\<close> is \<open>xs\<close> with every item that has no identifier
  (\<open>undefined\<close> or \<open>null\<close>) given the next generated one, starting with the \<open>k\<close>-th.
  The items \<open>xs\<close> carry no identifier that the library has yet to generate
  (\<open>no_future_ids k xs\<close>): a generated identifier among them is one of the first \<open>k\<close>.
\<close>

fun assign_ids :: "nat \<Rightarrow> obj list \<Rightarrow> obj list" where
  "assign_ids k [] = []"
| "assign_ids k (x # xs) =
     (if not_nullish (get_prop x ''id'') then x # assign_ids k xs
      else AList.update ''id'' (JUuid k) x # assign_ids (Suc k) xs)"

definition no_future_ids :: "nat \<Rightarrow> obj list \<Rightarrow> bool" where
  "no_future_ids k xs =
     list_all (\<lambda>x. case get_prop x ''id'' of JUuid i \<Rightarrow> i < k | _ \<Rightarrow> True) xs"

section \<open>Views of a data set\<close>

text \<open>
  What a drawing shows of the emphasis: one property of every item, by key
  (\<open>column\<close>), in particular the opacity and the border width; the endpoints and the
  width of every edge; the keys drawn at full opacity.
\<close>

definition column :: "dataset \<Rightarrow> string \<Rightarrow> (jsval \<times> jsval) list" where
  "column ds p = map (\<lambda>(k, it). (k, get_prop it p)) (items ds)"

definition edge_ends :: "dataset \<Rightarrow> (jsval \<times> jsval \<times> jsval \<times> jsval) list" where
  "edge_ends ds = map (\<lambda>(k, e). (k, get_prop e ''from'', get_prop e ''to'', get_prop e ''width'')) (items ds)"

definition opacities :: "dataset \<Rightarrow> (jsval \<times> jsval) list" where
  "opacities ds = column ds ''opacity''"

definition border_widths :: "dataset \<Rightarrow> (jsval \<times> jsval) list" where
  "border_widths ds = column ds ''borderWidth''"

definition highlighted :: "dataset \<Rightarrow> jsval list" where
  "highlighted ds = map fst (filter (\<lambda>(k, opacity). opacity = JNum 1) (opacities ds))"

section \<open>Link endpoints in the store\<close>

text \<open>
  The link cascade of the hand-rolled renderer. Resolving link endpoints writes only
  the \<open>source\<close> and \<open>target\<close> of link objects: no identifier changes, and an endpoint
  either stays as it is or, when it was not an object, becomes a reference to a node
  of the current node list.
\<close>

definition endpoints_follow :: "(nat \<Rightarrow> obj) \<Rightarrow> (nat \<Rightarrow> obj) \<Rightarrow> nat list \<Rightarrow> bool" where
  "endpoints_follow h h' nodes \<longleftrightarrow>
     (\<forall>a. get_prop (h' a) ''id'' = get_prop (h a) ''id'') \<and>
     (\<forall>l. \<forall>k\<in>{''source'', ''target''}.
        get_prop (h' l) k = get_prop (h l) k \<or>
        (\<not> is_object (get_prop (h l) k) \<and> (\<exists>a\<in>set nodes. get_prop (h' l) k = JRef a)))"


section \<open>The validation condition as the specification words it\<close>

text \<open>
  Exactly one node is tagged as the entry (\<open>Start\<close>), at least one node is tagged as
  terminal (\<open>End\<close>), and every other node has an incoming and an outgoing edge. An
  edge is incoming to a node when its \<open>to\<close> is the node's identifier, outgoing when
  its \<open>from\<close> is.
\<close>

definition spec_valid :: "obj list \<Rightarrow> obj list \<Rightarrow> bool" where
  "spec_valid nodes edges \<longleftrightarrow>
     length (filter (\<lambda>n. get_prop n ''type'' = JStr ''Start'') nodes) = 1 \<and>
     (\<exists>n\<in>set nodes. get_prop n ''type'' = JStr ''End'') \<and>
     (\<forall>n\<in>set nodes.
        get_prop n ''type'' \<noteq> JStr ''Start'' \<and> get_prop n ''type'' \<noteq> JStr ''End'' \<longrightarrow>
        (\<exists>e\<in>set edges. strict_eq (get_prop e ''to'') (get_prop n ''id'')) \<and>
        (\<exists>e\<in>set edges. strict_eq (get_prop e ''from'') (get_prop n ''id'')))"

section \<open>Example states\<close>

definition page :: vis_env where
  "page = \<lparr>containers = {''graph''}, live = {}, next_handle = 0\<rparr>"

text \<open>A journey of three steps: Start, SendEmail, End, connected in a line.\<close>

definition journey_network :: network where
  "journey_network =
     \<lparr>handle = 0,
      data_nodes = \<lparr>items =
        [(JNum 1, [(''id'', JNum 1), (''type'', JStr ''Start''), (''label'', JStr ''Begin'')]),
         (JNum 2, [(''id'', JNum 2), (''type'', JStr ''SendEmail''), (''label'', JStr ''Mail'')]),
         (JNum 3, [(''id'', JNum 3), (''type'', JStr ''End''), (''label'', JStr ''Done'')])],
        next_uuid = 0\<rparr>,
      data_edges = \<lparr>items =
        [(JStr ''e1'', [(''id'', JStr ''e1''), (''from'', JNum 1), (''to'', JNum 2)]),
         (JStr ''e2'', [(''id'', JStr ''e2''), (''from'', JNum 2), (''to'', JNum 3)])],
        next_uuid = 0\<rparr>,
      selection = [], options = jb_defaultOptions, setOptions_calls = []\<rparr>"

definition journey_example :: jb_state where
  "journey_example =
     \<lparr>networks = [''graph'' \<mapsto> journey_network],
      dotNetRefs = [''graph'' \<mapsto> JNull],
      jb_env = page\<lparr>live := {0}, next_handle := 1\<rparr>\<rparr>"

text \<open>An instance whose only node is an entry node.\<close>

definition entry_only_network :: network where
  "entry_only_network =
     \<lparr>handle = 0,
      data_nodes = \<lparr>items = [(JNum 1, [(''id'', JNum 1), (''type'', JStr ''Start'')])],
                    next_uuid = 0\<rparr>,
      data_edges = empty_dataset,
      selection = [], options = jb_defaultOptions, setOptions_calls = []\<rparr>"

definition entry_only_example :: jb_state where
  "entry_only_example =
     \<lparr>networks = [''graph'' \<mapsto> entry_only_network],
      dotNetRefs = [''graph'' \<mapsto> JNull],
      jb_env = page\<lparr>live := {0}, next_handle := 1\<rparr>\<rparr>"

text \<open>The relationship-graph table with no instance, and with one instance.\<close>

definition no_instances :: ni_state where
  "no_instances = \<lparr>networkInstances = Map.empty, ni_env = page\<rparr>"

definition one_instance :: ni_state where
  "one_instance =
     \<lparr>networkInstances = [''graph'' \<mapsto> journey_network],
      ni_env = page\<lparr>live := {0}, next_handle := 1\<rparr>\<rparr>"

text \<open>Empty registries on a page with the container \<open>graph\<close>.\<close>

definition cng_empty :: cng_state where
  "cng_empty = \<lparr>instances = Map.empty, cng_env = page\<rparr>"

definition jb_empty :: jb_state where
  "jb_empty = \<lparr>networks = Map.empty, dotNetRefs = Map.empty, jb_env = page\<rparr>"

definition d3_empty :: d3_state where
  "d3_empty = \<lparr>graphInstances = Map.empty, member_nodes = Map.empty, member_links = Map.empty,
                heap = (\<lambda>a. []), next_ref = 0, d3_env = page\<rparr>"

text \<open>The \<open>instances\<close> table of \<open>theme.js\<close> holding the three-step journey.\<close>

definition cng_example :: cng_state where
  "cng_example =
     \<lparr>instances = [''graph'' \<mapsto> journey_network],
      cng_env = page\<lparr>live := {0}, next_handle := 1\<rparr>\<rparr>"


text \<open>Stand-ins for the conversions of the browser.\<close>

definition plain_builtins :: builtins where
  "plain_builtins =
     \<lparr>template_string = (\<lambda>v. ''?''), locale_string = (\<lambda>v. ''?''), log10 = (\<lambda>r. 0),
      coerced_greater_zero = (\<lambda>v. False), coerced_size = (\<lambda>v. JNum 16)\<rparr>"

section \<open>Properties\<close>

subsection \<open>Values and tables\<close>

lemma strict_eq_JStr: "strict_eq x (JStr t) \<longleftrightarrow> x = JStr t"
  by (cases x) auto

lemma table_get_Some [simp]: "t k = Some v \<Longrightarrow> table_get t k = Own v"
  by (simp add: table_get_def)

lemma table_get_Missing_iff:
  "table_get t k = Missing \<longleftrightarrow> t k = None \<and> k \<notin> set object_prototype_members"
  by (simp add: table_get_def split: option.splits)

lemma unregistered_Missing [simp]: "unregistered t k \<Longrightarrow> table_get t k = Missing"
  by (simp add: unregistered_def)

lemma unregistered_None: "unregistered t k \<Longrightarrow> t k = None"
  by (simp add: unregistered_def table_get_Missing_iff)

lemma table_delete_other:
  "other \<noteq> k \<Longrightarrow> table_delete t k other = t other"
  by (simp add: table_delete_def)

lemma table_delete_here:
  "k \<notin> set object_prototype_members \<Longrightarrow> table_delete t k k = None"
  by (auto simp: table_delete_def object_prototype_members_def)

lemma unregistered_after_delete:
  assumes "k \<notin> set object_prototype_members" and "t ''__proto__'' = None"
  shows "unregistered (table_delete t k) k"
  using assms by (auto simp: unregistered_def table_get_def table_delete_def)

lemma graph_is_no_member: "''graph'' \<notin> set object_prototype_members"
  by (simp add: object_prototype_members_def)

subsection \<open>Journey validation\<close>

lemma orphan_errors_Nil:
  "orphan_errors ts edges n = [] \<longleftrightarrow>
     (get_prop n ''type'' \<noteq> JStr ''Start'' \<and> get_prop n ''type'' \<noteq> JStr ''End'' \<longrightarrow>
        (\<exists>e\<in>set edges. strict_eq (get_prop e ''to'') (get_prop n ''id'')) \<and>
        (\<exists>e\<in>set edges. strict_eq (get_prop e ''from'') (get_prop n ''id'')))"
  by (auto simp: orphan_errors_def strict_eq_JStr list_ex_iff Let_def)

lemma validate_returns:
  assumes "networks s cid = Some net"
  shows "\<exists>v. jb_validate ts s cid = Inr v"
  using assms by (simp add: jb_validate_def Let_def)

lemma validate_valid:
  assumes "networks s cid = Some net" and "jb_validate ts s cid = Inr v"
  shows "valid v \<longleftrightarrow> spec_valid (ds_get (data_nodes net)) (ds_get (data_edges net))"
proof -
  let ?nodes = "ds_get (data_nodes net)"
  let ?edges = "ds_get (data_edges net)"
  let ?starts = "filter (\<lambda>n. get_prop n ''type'' = JStr ''Start'') ?nodes"
  let ?ends = "filter (\<lambda>n. get_prop n ''type'' = JStr ''End'') ?nodes"
  have v: "valid v \<longleftrightarrow>
             \<not> length ?starts = 0 \<and> \<not> length ?starts > 1 \<and> \<not> length ?ends = 0 \<and>
             concat (map (orphan_errors ts ?edges) ?nodes) = []"
    using assms by (auto simp: jb_validate_def Let_def strict_eq_JStr split: if_splits)
  have s1: "(\<not> length ?starts = 0 \<and> \<not> length ?starts > 1) \<longleftrightarrow> length ?starts = 1"
    by arith
  have e1: "\<not> length ?ends = 0 \<longleftrightarrow> (\<exists>n\<in>set ?nodes. get_prop n ''type'' = JStr ''End'')"
    by (simp add: filter_empty_conv)
  have o1: "concat (map (orphan_errors ts ?edges) ?nodes) = [] \<longleftrightarrow>
              (\<forall>n\<in>set ?nodes. orphan_errors ts ?edges n = [])"
    by simp
  show ?thesis
    unfolding v spec_valid_def o1 orphan_errors_Nil using s1 e1 by blast
qed

lemma validate_valid_errors:
  assumes "jb_validate ts s cid = Inr v"
  shows "valid v \<longleftrightarrow> errors v = []"
  using assms by (auto simp: jb_validate_def Let_def split: slot.splits)

lemma validate_entry_only:
  assumes "networks s cid = Some net" and "ds_get (data_nodes net) = [n]"
    and "get_prop n ''type'' = JStr ''Start''"
  shows "jb_validate ts s cid =
           Inr \<lparr>valid = False, errors = [''Journey must have at least one End node''],
                warnings = []\<rparr>"
  using assms by (simp add: jb_validate_def Let_def orphan_errors_def)

lemma validate_reads_only:
  assumes "networks s cid = Some net" and "networks s' cid' = Some net'"
    and "ds_get (data_nodes net') = ds_get (data_nodes net)"
    and "ds_get (data_edges net') = ds_get (data_edges net)"
  shows "jb_validate ts s' cid' = jb_validate ts s cid"
  using assms by (simp add: jb_validate_def)

text \<open>
  Claim C7. \<open>validate\<close> of the journey builder returns a verdict and takes no state
  back: it only reads the node and edge sets, and two instances with the same nodes and
  edges get the same verdict. The verdict is \<open>valid\<close> exactly when there are no errors,
  and exactly when there is one \<open>Start\<close> node, at least one \<open>End\<close> node, and every other
  node has an incoming and an outgoing edge. An instance whose only node is a \<open>Start\<close>
  node is invalid, with the single error that the journey must have at least one \<open>End\<close>
  node. For a registered instance the call raises nothing: its result is the verdict \<open>v\<close>.
\<close>

theorem validate_checks_flow:
  assumes "networks s containerId = Some network"
  shows "\<exists>v. jb_validate to_string s containerId = Inr v \<and>
         (valid v \<longleftrightarrow>
            spec_valid (ds_get (data_nodes network)) (ds_get (data_edges network))) \<and>
         (valid v \<longleftrightarrow> errors v = []) \<and>
         (\<forall>n. ds_get (data_nodes network) = [n] \<and> get_prop n ''type'' = JStr ''Start'' \<longrightarrow>
            v = \<lparr>valid = False, errors = [''Journey must have at least one End node''],
                 warnings = []\<rparr>) \<and>
         (\<forall>s' containerId' network'.
            networks s' containerId' = Some network' \<and>
            ds_get (data_nodes network') = ds_get (data_nodes network) \<and>
            ds_get (data_edges network') = ds_get (data_edges network) \<longrightarrow>
            jb_validate to_string s' containerId' = Inr v)"
proof -
  from validate_returns [OF assms]
  obtain v where v: "jb_validate to_string s containerId = Inr v"
    by blast
  have a: "valid v \<longleftrightarrow>
             spec_valid (ds_get (data_nodes network)) (ds_get (data_edges network))"
    using assms v by (rule validate_valid)
  have b: "valid v \<longleftrightarrow> errors v = []"
    using v by (rule validate_valid_errors)
  have c: "v = \<lparr>valid = False, errors = [''Journey must have at least one End node''],
                 warnings = []\<rparr>"
    if "ds_get (data_nodes network) = [n] \<and> get_prop n ''type'' = JStr ''Start''" for n
    using validate_entry_only [OF assms, of n to_string] that v by simp
  have d: "jb_validate to_string s' containerId' = Inr v"
    if "networks s' containerId' = Some network' \<and>
        ds_get (data_nodes network') = ds_get (data_nodes network) \<and>
        ds_get (data_edges network') = ds_get (data_edges network)"
    for s' :: jb_state and containerId' :: string and network' :: network
    using validate_reads_only [OF assms, of s' containerId' network' to_string] that v by simp
  show ?thesis
    using v a b c d by blast
qed

theorem validate_checks_flow_witness:
  "networks journey_example ''graph'' = Some journey_network \<and>
   spec_valid (ds_get (data_nodes journey_network)) (ds_get (data_edges journey_network)) \<and>
   jb_validate (\<lambda>v. ''?'') journey_example ''graph'' =
     Inr \<lparr>valid = True, errors = [], warnings = []\<rparr> \<and>
   networks entry_only_example ''graph'' = Some entry_only_network \<and>
   ds_get (data_nodes entry_only_network) = [[(''id'', JNum 1), (''type'', JStr ''Start'')]] \<and>
   jb_validate (\<lambda>v. ''?'') entry_only_example ''graph'' =
     Inr \<lparr>valid = False, errors = [''Journey must have at least one End node''],
          warnings = []\<rparr>"
proof -
  have a: "networks journey_example ''graph'' = Some journey_network"
    by (simp add: journey_example_def)
  have b: "spec_valid (ds_get (data_nodes journey_network)) (ds_get (data_edges journey_network))"
    by (simp add: spec_valid_def journey_network_def ds_get_def get_prop_def)
  have c: "networks entry_only_example ''graph'' = Some entry_only_network"
    by (simp add: entry_only_example_def)
  have d: "ds_get (data_nodes entry_only_network) = [[(''id'', JNum 1), (''type'', JStr ''Start'')]]"
    by (simp add: entry_only_network_def ds_get_def)
  have e: "get_prop [(''id'', JNum 1), (''type'', JStr ''Start'')] ''type'' = JStr ''Start''"
    by (simp add: get_prop_def)
  from validate_checks_flow [OF a, of "\<lambda>v. ''?''"]
  obtain v where v: "jb_validate (\<lambda>v. ''?'') journey_example ''graph'' = Inr v"
    and v1: "valid v \<longleftrightarrow>
               spec_valid (ds_get (data_nodes journey_network)) (ds_get (data_edges journey_network))"
    and v2: "valid v \<longleftrightarrow> errors v = []"
    by blast
  have w: "warnings v = []"
    using v a by (auto simp: jb_validate_def Let_def)
  have f: "v = \<lparr>valid = True, errors = [], warnings = []\<rparr>"
    using v1 v2 b w by (cases v) simp
  from validate_checks_flow [OF c, of "\<lambda>v. ''?''"]
  obtain u where u: "jb_validate (\<lambda>v. ''?'') entry_only_example ''graph'' = Inr u"
    and u1: "\<forall>n. ds_get (data_nodes entry_only_network) = [n] \<and>
                  get_prop n ''type'' = JStr ''Start'' \<longrightarrow>
               u = \<lparr>valid = False, errors = [''Journey must have at least one End node''],
                    warnings = []\<rparr>"
    by blast
  have g: "u = \<lparr>valid = False, errors = [''Journey must have at least one End node''],
                 warnings = []\<rparr>"
    using u1 d e by blast
  show ?thesis
    using a b c d v f u g by simp
qed

subsection \<open>Selected nodes of the relationship graph\<close>

text \<open>
  Claim C10. \<open>getSelectedNodes\<close> always returns an array: the empty array when the
  container has no registered instance, the empty array when the library call raises,
  and the library's answer otherwise; it never returns \<open>false\<close> or \<open>null\<close> and raises
  nothing.
\<close>

theorem getSelectedNodes_always_array:
  "(networkInstances s containerId = None \<longrightarrow>
      getSelectedNodes lib s containerId = JArr []) \<and>
   (\<forall>network e. networkInstances s containerId = Some network \<and> lib network = Inl e \<longrightarrow>
      getSelectedNodes lib s containerId = JArr []) \<and>
   (\<exists>ids. getSelectedNodes lib s containerId = JArr ids)"
  by (auto simp: getSelectedNodes_def table_get_def split: option.splits sum.splits)

theorem getSelectedNodes_always_array_witness:
  "networkInstances no_instances ''graph'' = None \<and>
   getSelectedNodes vis_getSelectedNodes no_instances ''graph'' = JArr [] \<and>
   networkInstances one_instance ''graph'' = Some journey_network \<and>
   getSelectedNodes (\<lambda>n. Inl TypeError) one_instance ''graph'' = JArr []"
proof -
  have a: "networkInstances no_instances ''graph'' = None"
    by (simp add: no_instances_def)
  have b: "networkInstances one_instance ''graph'' = Some journey_network"
    by (simp add: one_instance_def)
  show ?thesis
    using a b
      getSelectedNodes_always_array [of no_instances "''graph''" vis_getSelectedNodes]
      getSelectedNodes_always_array [of one_instance "''graph''" "\<lambda>n. Inl TypeError"]
    by simp
qed

subsection \<open>Re-initialisation\<close>

lemma cng_initialize_keeps_old_handle:
  assumes "instances s containerId = Some old" and "handle old \<in> live (cng_env s)"
  shows "handle old \<in> live (cng_env (snd (cng_initialize s containerId opts)))"
  using assms by (simp add: cng_initialize_def new_Network_def Let_def)

lemma jb_initialize_keeps_old_handle:
  assumes "networks s containerId = Some old" and "handle old \<in> live (jb_env s)"
  shows "handle old \<in> live (jb_env (snd (jb_initialize s containerId ref opts)))"
  using assms by (simp add: jb_initialize_def new_Network_def Let_def)

lemma p0_initialize_keeps_old_handle:
  assumes "networkInstances s containerId = Some old" and "handle old \<in> live (ni_env s)"
  shows "handle old \<in> live (ni_env (snd (p0_initialize s containerId ref)))"
  using assms by (simp add: p0_initialize_def new_Network_def Let_def)

text \<open>
  \<open>renderRelationshipGraph\<close> is the one creation path that destroys the previous
  instance first: when it returns \<open>true\<close>, the handle of the instance that was
  registered before is released and the table holds the new one.
\<close>

lemma renderRelationshipGraph_releases_old:
  assumes "networkInstances s containerId = Some old"
    and "handle old < next_handle (ni_env s)"
    and "renderRelationshipGraph s containerId nodes edges opts = (JBool True, s')"
  shows "handle old \<notin> live (ni_env s') \<and>
         map_option handle (networkInstances s' containerId) = Some (next_handle (ni_env s))"
  using assms
  by (auto simp: renderRelationshipGraph_def new_Network_def net_destroy_def Let_def
           split: if_splits sum.splits)

text \<open>
  Claim C1, at the failing input. \<open>customerNetworkGraph.initialize\<close> of \<open>theme.js\<close> is
  called twice for the container \<open>graph\<close> on an empty registry. Both calls return
  \<open>true\<close>. The first call registers the network with handle 0, the second replaces the
  entry by the network with handle 1, and handle 0 is still live: the previous
  instance was not destroyed before the replacement was stored.
\<close>

theorem initialize_twice_keeps_first_handle:
  "fst (cng_initialize cng_empty ''graph'' None) = True \<and>
   map_option handle (instances (snd (cng_initialize cng_empty ''graph'' None)) ''graph'') = Some 0 \<and>
   fst (cng_initialize (snd (cng_initialize cng_empty ''graph'' None)) ''graph'' None) = True \<and>
   map_option handle
     (instances (snd (cng_initialize (snd (cng_initialize cng_empty ''graph'' None)) ''graph'' None))
        ''graph'') = Some 1 \<and>
   live (cng_env (snd (cng_initialize (snd (cng_initialize cng_empty ''graph'' None)) ''graph'' None)))
     = {0, 1}"
  by (simp add: cng_initialize_def cng_empty_def page_def new_Network_def Let_def insert_commute)

subsection \<open>Removing a node\<close>

lemma jb_removeNode_keeps_edges:
  assumes "networks s containerId = Some net"
  shows "map_option data_edges (networks (snd (jb_removeNode s containerId nodeId)) containerId)
           = Some (data_edges net)"
  using assms by (simp add: jb_removeNode_def nodes_changed_def)

lemma p0_removeNode_keeps_edges:
  assumes "networkInstances s containerId = Some net"
  shows "map_option data_edges (networkInstances (snd (p0_removeNode s containerId nodeId)) containerId)
           = Some (data_edges net)"
  using assms by (simp add: p0_removeNode_def nodes_changed_def)

text \<open>
  Claim C2, at the failing input. In the three-step journey, \<open>removeNode\<close> of the
  journey builder removes node 2 and returns \<open>true\<close>; the data read afterwards still
  holds the edge from 1 to 2 and the edge from 2 to 3.
\<close>

theorem removeNode_leaves_dangling_edges:
  "fst (jb_removeNode journey_example ''graph'' (JNum 2)) = Inr True \<and>
   jb_getData (snd (jb_removeNode journey_example ''graph'' (JNum 2))) ''graph'' =
     Inr (Some \<lparr>jd_nodes = Some [[(''id'', JNum 1), (''type'', JStr ''Start''), (''label'', JStr ''Begin'')],
                                  [(''id'', JNum 3), (''type'', JStr ''End''), (''label'', JStr ''Done'')]],
                jd_edges = Some [[(''id'', JStr ''e1''), (''from'', JNum 1), (''to'', JNum 2)],
                                 [(''id'', JStr ''e2''), (''from'', JNum 2), (''to'', JNum 3)]]\<rparr>)"
  by (simp add: jb_removeNode_def jb_getData_def journey_example_def journey_network_def
        nodes_changed_def ds_remove_def ds_remove1_def ds_has_def ds_get_def not_nullish_def Let_def)

subsection \<open>Destroying an instance\<close>

lemma cng_destroy_live:
  assumes "instances s containerId = Some inst" and "containerId \<notin> set object_prototype_members"
  shows "fst (cng_destroy s containerId) = True \<and>
         instances (snd (cng_destroy s containerId)) containerId = None \<and>
         handle inst \<notin> live (cng_env (snd (cng_destroy s containerId))) \<and>
         (\<forall>other. other \<noteq> containerId \<longrightarrow>
            instances (snd (cng_destroy s containerId)) other = instances s other)"
  using assms by (simp add: cng_destroy_def net_destroy_def table_delete_here table_delete_other)

lemma cng_destroy_absent:
  assumes "unregistered (instances s) containerId"
  shows "cng_destroy s containerId = (True, s)"
  using assms by (simp add: cng_destroy_def)

lemma cng_destroy_unregisters:
  assumes "containerId \<notin> set object_prototype_members" and "instances s ''__proto__'' = None"
  shows "unregistered (instances (snd (cng_destroy s containerId))) containerId"
proof (cases "table_get (instances s) containerId")
  case Missing
  then show ?thesis
    using assms by (simp add: cng_destroy_def unregistered_def)
next
  case Inherited
  then show ?thesis
    using assms by (simp add: table_get_def split: option.splits)
next
  case (Own inst)
  then show ?thesis
    using assms by (simp add: cng_destroy_def unregistered_after_delete)
qed

lemma cng_destroy_twice:
  assumes "containerId \<notin> set object_prototype_members" and "instances s ''__proto__'' = None"
  shows "cng_destroy (snd (cng_destroy s containerId)) containerId =
           (True, snd (cng_destroy s containerId))"
  using cng_destroy_unregisters [OF assms] by (rule cng_destroy_absent)

lemma jb_destroy_live:
  assumes "networks s containerId = Some net" and "containerId \<notin> set object_prototype_members"
  shows "fst (jb_destroy s containerId) = Inr True \<and>
         networks (snd (jb_destroy s containerId)) containerId = None \<and>
         dotNetRefs (snd (jb_destroy s containerId)) containerId = None \<and>
         handle net \<notin> live (jb_env (snd (jb_destroy s containerId))) \<and>
         (\<forall>other. other \<noteq> containerId \<longrightarrow>
            networks (snd (jb_destroy s containerId)) other = networks s other)"
  using assms by (simp add: jb_destroy_def net_destroy_def table_delete_here table_delete_other)

lemma jb_destroy_absent:
  assumes "unregistered (networks s) containerId"
  shows "jb_destroy s containerId = (Inr True, s)"
  using assms by (simp add: jb_destroy_def)

lemma jb_destroy_unregisters:
  assumes "containerId \<notin> set object_prototype_members" and "networks s ''__proto__'' = None"
  shows "unregistered (networks (snd (jb_destroy s containerId))) containerId"
proof (cases "table_get (networks s) containerId")
  case Missing
  then show ?thesis
    using assms by (simp add: jb_destroy_def unregistered_def)
next
  case Inherited
  then show ?thesis
    using assms by (simp add: table_get_def split: option.splits)
next
  case (Own net)
  then show ?thesis
    using assms by (simp add: jb_destroy_def unregistered_after_delete)
qed

lemma jb_destroy_twice:
  assumes "containerId \<notin> set object_prototype_members" and "networks s ''__proto__'' = None"
  shows "jb_destroy (snd (jb_destroy s containerId)) containerId =
           (Inr True, snd (jb_destroy s containerId))"
  using jb_destroy_unregisters [OF assms] by (rule jb_destroy_absent)

text \<open>The two variants that answer \<open>false\<close> when there is nothing to destroy.\<close>

lemma d3_destroy_twice:
  assumes "graphInstances s containerId = Some inst"
    and "containerId \<notin> set object_prototype_members"
    and "member_nodes s ''__proto__'' = None" and "member_links s ''__proto__'' = None"
  shows "d3_destroy (snd (d3_destroy s containerId)) containerId =
           (Inr False, snd (d3_destroy s containerId))"
  using assms
  by (simp add: d3_destroy_def d3_get_def table_get_def table_delete_here)

lemma p0_destroy_twice:
  assumes "networkInstances s containerId = Some inst" and "containerId \<noteq> ''__proto__''"
  shows "p0_destroy (snd (p0_destroy s containerId)) containerId =
           (False, snd (p0_destroy s containerId))"
  using assms
  by (simp add: p0_destroy_def table_get_def table_delete_def)

text \<open>
  Under a name that is a member of \<open>Object.prototype\<close> and has no instance, \<open>destroy\<close>
  finds the inherited member: the journey builder raises, \<open>theme.js\<close> returns \<open>false\<close>
  from its \<open>catch\<close>.
\<close>

lemma destroy_inherited_member:
  "jb_destroy jb_empty ''toString'' = (Inl TypeError, jb_empty) \<and>
   cng_destroy cng_empty ''toString'' = (False, cng_empty)"
  by (simp add: jb_destroy_def cng_destroy_def jb_empty_def cng_empty_def table_get_def
        object_prototype_members_def)

text \<open>
  Claim C3 fails as stated: in \<open>theme.js\<close> the second \<open>destroy\<close> of the same container
  returns \<open>true\<close>, not \<open>false\<close>.
\<close>

theorem destroy_second_call_returns_true:
  "fst (cng_destroy cng_example ''graph'') = True \<and>
   fst (cng_destroy (snd (cng_destroy cng_example ''graph'')) ''graph'') = True"
  by (simp add: cng_destroy_def cng_example_def table_get_def table_delete_def
        object_prototype_members_def)

text \<open>
  Claim C3, amended. In \<open>theme.js\<close> and in the journey builder, for a container
  identifier that is not the name of a member of \<open>Object.prototype\<close> and a table whose
  prototype was not replaced, \<open>destroy\<close> raises nothing and is idempotent. On a live
  instance it releases the handle, removes the registry entry (and the journey
  builder's host reference), leaves the other entries alone and returns \<open>true\<close>. A
  second call on the same container, like any call on a container without an instance,
  changes nothing and also returns \<open>true\<close>.
\<close>

theorem destroy_idempotent:
  assumes "containerId \<notin> set object_prototype_members"
    and "instances c ''__proto__'' = None" and "networks j ''__proto__'' = None"
  shows
  "(\<forall>inst. instances c containerId = Some inst \<longrightarrow>
      fst (cng_destroy c containerId) = True \<and>
      instances (snd (cng_destroy c containerId)) containerId = None \<and>
      handle inst \<notin> live (cng_env (snd (cng_destroy c containerId))) \<and>
      (\<forall>other. other \<noteq> containerId \<longrightarrow>
         instances (snd (cng_destroy c containerId)) other = instances c other)) \<and>
   (instances c containerId = None \<longrightarrow> cng_destroy c containerId = (True, c)) \<and>
   cng_destroy (snd (cng_destroy c containerId)) containerId = (True, snd (cng_destroy c containerId)) \<and>
   (\<forall>net. networks j containerId = Some net \<longrightarrow>
      fst (jb_destroy j containerId) = Inr True \<and>
      networks (snd (jb_destroy j containerId)) containerId = None \<and>
      dotNetRefs (snd (jb_destroy j containerId)) containerId = None \<and>
      handle net \<notin> live (jb_env (snd (jb_destroy j containerId))) \<and>
      (\<forall>other. other \<noteq> containerId \<longrightarrow>
         networks (snd (jb_destroy j containerId)) other = networks j other)) \<and>
   (networks j containerId = None \<longrightarrow> jb_destroy j containerId = (Inr True, j)) \<and>
   jb_destroy (snd (jb_destroy j containerId)) containerId =
     (Inr True, snd (jb_destroy j containerId))"
proof (intro conjI)
  show "\<forall>inst. instances c containerId = Some inst \<longrightarrow>
      fst (cng_destroy c containerId) = True \<and>
      instances (snd (cng_destroy c containerId)) containerId = None \<and>
      handle inst \<notin> live (cng_env (snd (cng_destroy c containerId))) \<and>
      (\<forall>other. other \<noteq> containerId \<longrightarrow>
         instances (snd (cng_destroy c containerId)) other = instances c other)"
    using cng_destroy_live [of c containerId] assms(1) by blast
  show "instances c containerId = None \<longrightarrow> cng_destroy c containerId = (True, c)"
    using cng_destroy_absent [of c containerId] assms(1,2)
    by (simp add: unregistered_def table_get_def)
  show "cng_destroy (snd (cng_destroy c containerId)) containerId = (True, snd (cng_destroy c containerId))"
    using assms(1,2) by (rule cng_destroy_twice)
  show "\<forall>net. networks j containerId = Some net \<longrightarrow>
      fst (jb_destroy j containerId) = Inr True \<and>
      networks (snd (jb_destroy j containerId)) containerId = None \<and>
      dotNetRefs (snd (jb_destroy j containerId)) containerId = None \<and>
      handle net \<notin> live (jb_env (snd (jb_destroy j containerId))) \<and>
      (\<forall>other. other \<noteq> containerId \<longrightarrow>
         networks (snd (jb_destroy j containerId)) other = networks j other)"
    using jb_destroy_live [of j containerId] assms(1) by blast
  show "networks j containerId = None \<longrightarrow> jb_destroy j containerId = (Inr True, j)"
    using jb_destroy_absent [of j containerId] assms(1,3)
    by (simp add: unregistered_def table_get_def)
  show "jb_destroy (snd (jb_destroy j containerId)) containerId =
          (Inr True, snd (jb_destroy j containerId))"
    using assms(1,3) by (rule jb_destroy_twice)
qed

theorem destroy_idempotent_witness:
  "''graph'' \<notin> set object_prototype_members \<and>
   instances cng_example ''__proto__'' = None \<and>
   networks journey_example ''__proto__'' = None \<and>
   instances cng_example ''graph'' = Some journey_network \<and>
   fst (cng_destroy cng_example ''graph'') = True \<and>
   instances (snd (cng_destroy cng_example ''graph'')) ''graph'' = None \<and>
   handle journey_network \<notin> live (cng_env (snd (cng_destroy cng_example ''graph''))) \<and>
   cng_destroy (snd (cng_destroy cng_example ''graph'')) ''graph'' =
     (True, snd (cng_destroy cng_example ''graph'')) \<and>
   instances cng_empty ''graph'' = None \<and>
   cng_destroy cng_empty ''graph'' = (True, cng_empty) \<and>
   networks journey_example ''graph'' = Some journey_network \<and>
   fst (jb_destroy journey_example ''graph'') = Inr True \<and>
   networks (snd (jb_destroy journey_example ''graph'')) ''graph'' = None \<and>
   handle journey_network \<notin> live (jb_env (snd (jb_destroy journey_example ''graph''))) \<and>
   jb_destroy (snd (jb_destroy journey_example ''graph'')) ''graph'' =
     (Inr True, snd (jb_destroy journey_example ''graph'')) \<and>
   networks jb_empty ''graph'' = None \<and>
   jb_destroy jb_empty ''graph'' = (Inr True, jb_empty)"
proof -
  have m: "''graph'' \<notin> set object_prototype_members"
    by (rule graph_is_no_member)
  have p1: "instances cng_example ''__proto__'' = None"
    by (simp add: cng_example_def)
  have p2: "networks journey_example ''__proto__'' = None"
    by (simp add: journey_example_def)
  have p3: "instances cng_empty ''__proto__'' = None"
    by (simp add: cng_empty_def)
  have p4: "networks jb_empty ''__proto__'' = None"
    by (simp add: jb_empty_def)
  have a: "instances cng_example ''graph'' = Some journey_network"
    by (simp add: cng_example_def)
  have b: "networks journey_example ''graph'' = Some journey_network"
    by (simp add: journey_example_def)
  have c: "instances cng_empty ''graph'' = None"
    by (simp add: cng_empty_def)
  have d: "networks jb_empty ''graph'' = None"
    by (simp add: jb_empty_def)
  note live = destroy_idempotent [OF m p1 p2]
  note gone = destroy_idempotent [OF m p3 p4]
  note l1 = live [THEN conjunct1, rule_format, OF a]
  note l2 = live [THEN conjunct2, THEN conjunct2, THEN conjunct2, THEN conjunct1, rule_format, OF b]
  note l3 = live [THEN conjunct2, THEN conjunct2, THEN conjunct1]
  note l4 = live [THEN conjunct2, THEN conjunct2, THEN conjunct2, THEN conjunct2, THEN conjunct2]
  note g1 = gone [THEN conjunct2, THEN conjunct1, rule_format, OF c]
  note g2 = gone [THEN conjunct2, THEN conjunct2, THEN conjunct2, THEN conjunct2, THEN conjunct1,
                  rule_format, OF d]
  show ?thesis
    using m p1 p2 a b c d l1 l2 l3 l4 g1 g2 by (intro conjI) (erule conjE | assumption)+
qed

subsection \<open>Focusing a node that does not exist\<close>

lemma jb_focusNode_unknown_raises:
  assumes "networks s containerId = Some net" and "\<not> ds_has (data_nodes net) nodeId"
  shows "fst (jb_focusNode s containerId nodeId) = Inl (NodeNotFound nodeId)"
  using assms by (simp add: jb_focusNode_def net_selectNodes_def)

lemma jb_focusNode_never_false:
  assumes "networks s containerId = Some net"
  shows "fst (jb_focusNode s containerId nodeId) \<noteq> Inr False"
  using assms by (simp add: jb_focusNode_def split: sum.splits prod.splits)

text \<open>
  In \<open>theme.js\<close> the error is caught and the answer is \<open>false\<close>, but the selection has
  been emptied by then.
\<close>

lemma cng_focusNode_unknown_clears_selection:
  assumes "instances s containerId = Some inst" and "\<not> ds_has (data_nodes inst) nodeId"
  shows "cng_focusNode s containerId nodeId =
           (False, s\<lparr>instances := (instances s)(containerId \<mapsto> inst\<lparr>selection := []\<rparr>)\<rparr>)"
  using assms by (simp add: cng_focusNode_def net_selectNodes_def)

text \<open>The hand-rolled renderer checks for the node and answers \<open>false\<close> without any effect.\<close>

lemma d3_focusNode_unknown:
  assumes "graphInstances s containerId = Some inst"
    and "\<forall>n\<in>set (d3_nodes inst). \<not> strict_eq (get_prop (heap s n) ''id'') nodeId"
  shows "d3_focusNode s containerId nodeId = (Inr False, s)"
proof -
  have "find (\<lambda>n. strict_eq (get_prop (heap s n) ''id'') nodeId) (d3_nodes inst) = None"
    using assms(2) by (simp add: find_None_iff)
  then show ?thesis
    using assms(1) by (simp add: d3_focusNode_def d3_get_def)
qed

text \<open>
  Claim C9, at the failing input. The three-step journey has no node 99.
  \<open>focusNode\<close> of the journey builder on that identifier does not return \<open>false\<close>: the
  library's \<open>selectNodes\<close> raises and nothing catches the error.
\<close>

theorem focusNode_unknown_node_raises:
  "networks journey_example ''graph'' = Some journey_network \<and>
   \<not> ds_has (data_nodes journey_network) (JNum 99) \<and>
   fst (jb_focusNode journey_example ''graph'' (JNum 99)) = Inl (NodeNotFound (JNum 99))"
  by (simp add: jb_focusNode_def journey_example_def journey_network_def net_selectNodes_def
        ds_has_def)

subsection \<open>Calls on a container without an instance\<close>

lemma d3_unregistered_Missing [simp]: "d3_unregistered s k \<Longrightarrow> d3_get s k = Missing"
  by (simp add: d3_unregistered_def)

lemma d3_render_unregistered [simp]:
  "d3_unregistered s k \<Longrightarrow> renderGraph s k = (None, s)"
  by (simp add: renderGraph_def)

text \<open>
  Under a name that is a member of \<open>Object.prototype\<close> and has no instance, the
  operations find the inherited member: those of the journey builder and of the
  hand-rolled renderer raise, those of the three other scripts return from a \<open>catch\<close>.
\<close>

lemma inherited_member_raises:
  "jb_addNode jb_empty ''constructor'' node = (Inl TypeError, jb_empty) \<and>
   d3_addNode d3_empty ''constructor'' node = (Inl TypeError, d3_empty) \<and>
   cng_focusNode cng_empty ''constructor'' nodeId = (False, cng_empty) \<and>
   p0_addNode no_instances ''constructor'' node = (False, no_instances) \<and>
   highlightNodes no_instances ''constructor'' nodeIds = (False, no_instances)"
  by (simp add: jb_addNode_def d3_addNode_def cng_focusNode_def p0_addNode_def highlightNodes_def
        jb_empty_def d3_empty_def cng_empty_def no_instances_def d3_get_def inherited_nodes_def
        table_get_def object_prototype_members_def)

text \<open>
  Claim C4 fails as stated: \<open>destroy\<close> of the journey builder on a container that was
  never registered returns \<open>true\<close>, which is not a failure indicator.
\<close>

theorem destroy_unknown_id_returns_true:
  "networks jb_empty ''missing-id'' = None \<and>
   fst (jb_destroy jb_empty ''missing-id'') = Inr True"
  by (simp add: jb_destroy_def jb_empty_def table_get_def object_prototype_members_def)

text \<open>
  Claim C4, amended. On a container without an instance (the identifier is neither
  registered nor the name of a member of \<open>Object.prototype\<close>, in a table whose prototype
  was not replaced) every registry operation other than \<open>destroy\<close> returns \<open>false\<close>
  (\<open>null\<close> for the reads and exports, \<open>undefined\<close> for \<open>exportGraph\<close>, which never returns
  a value), raises nothing and leaves the state as it is; in particular it registers
  nothing. \<open>destroy\<close> leaves the state as it is as well, and returns \<open>true\<close> in the
  journey builder and in \<open>theme.js\<close>, \<open>undefined\<close> in \<open>destroyGraph\<close>, \<open>false\<close> in the
  other two scripts.
\<close>

theorem unknown_id_no_effect:
  assumes "unregistered (networks j) containerId" and "unregistered (instances c) containerId"
    and "unregistered (networkInstances n) containerId" and "d3_unregistered d containerId"
  shows "jb_addNode j containerId node = (Inr False, j) \<and>
         jb_addEdge j containerId edge = (Inr False, j) \<and>
         jb_updateNode j containerId nodeId updates = (Inr False, j) \<and>
         jb_updateEdge j containerId edgeId updates = (Inr False, j) \<and>
         jb_removeNode j containerId nodeId = (Inr False, j) \<and>
         jb_removeEdge j containerId edgeId = (Inr False, j) \<and>
         jb_loadData j containerId journeyData = (Inr False, j) \<and>
         jb_getData j containerId = Inr None \<and>
         jb_clear j containerId = (Inr False, j) \<and>
         jb_setPhysics j containerId enabled = (Inr False, j) \<and>
         jb_highlightPath j containerId nodeIds = (Inr False, j) \<and>
         jb_resetHighlight j containerId = (Inr False, j) \<and>
         jb_focusNode j containerId nodeId = (Inr False, j) \<and>
         jb_exportToPNG toDataURL j containerId = Inr JNull \<and>
         jb_destroy j containerId = (Inr True, j) \<and>
         cng_loadData bi c containerId journeyData = (False, c) \<and>
         cng_focusNode c containerId nodeId = (False, c) \<and>
         cng_highlightPath c containerId nodeIds = (False, c) \<and>
         cng_resetHighlight c containerId = (False, c) \<and>
         cng_setPhysicsEnabled c containerId enabled = (False, c) \<and>
         cng_exportToPNG toDataURL c containerId = JNull \<and>
         cng_destroy c containerId = (True, c) \<and>
         p0_addNode n containerId node = (False, n) \<and>
         p0_addEdge n containerId edge = (False, n) \<and>
         p0_updateNode n containerId nodeId updates = (False, n) \<and>
         p0_removeNode n containerId nodeId = (False, n) \<and>
         p0_clearNetwork n containerId = (False, n) \<and>
         p0_focusNode n containerId nodeId = (False, n) \<and>
         p0_selectNode n containerId nodeId = (False, n) \<and>
         p0_enablePhysics n containerId enabled = (False, n) \<and>
         p0_setLayout n containerId layoutType = (False, n) \<and>
         p0_exportNetwork n containerId = None \<and>
         p0_destroy n containerId = (False, n) \<and>
         updateGraphData n containerId nodes edges = (False, n) \<and>
         highlightNodes n containerId nodeIds = (False, n) \<and>
         exportGraph n containerId = (JUndefined, n) \<and>
         destroyGraph n containerId = (JUndefined, n) \<and>
         d3_setData d containerId data = (Inr False, d) \<and>
         d3_addNode d containerId node = (Inr False, d) \<and>
         d3_addLink d containerId edge = (Inr False, d) \<and>
         d3_removeNode d containerId nodeId = (Inr False, d) \<and>
         d3_updateNode d containerId nodeId updates = (Inr False, d) \<and>
         d3_clearGraph d containerId = (Inr False, d) \<and>
         d3_focusNode d containerId nodeId = (Inr False, d) \<and>
         d3_highlightNode d containerId nodeId = (Inr False, d) \<and>
         d3_clearHighlights d containerId = (Inr False, d) \<and>
         d3_setLayout d containerId layoutType = (Inr False, d) \<and>
         d3_enableSimulation d containerId enabled = (Inr False, d) \<and>
         d3_destroy d containerId = (Inr False, d)"
  using assms
  by (simp add: jb_addNode_def jb_addEdge_def jb_updateNode_def jb_updateEdge_def
        jb_removeNode_def jb_removeEdge_def jb_loadData_def jb_getData_def jb_clear_def
        jb_setPhysics_def jb_highlightPath_def jb_resetHighlight_def jb_focusNode_def
        jb_exportToPNG_def jb_destroy_def cng_loadData_def cng_focusNode_def cng_highlightPath_def
        cng_resetHighlight_def cng_setPhysicsEnabled_def cng_exportToPNG_def cng_destroy_def
        p0_addNode_def p0_addEdge_def p0_updateNode_def p0_removeNode_def p0_clearNetwork_def
        p0_focusNode_def p0_selectNode_def p0_enablePhysics_def p0_setLayout_def
        p0_exportNetwork_def p0_destroy_def updateGraphData_def highlightNodes_def exportGraph_def
        destroyGraph_def d3_setData_def
        d3_addNode_def d3_addLink_def d3_removeNode_def d3_updateNode_def d3_clearGraph_def
        d3_focusNode_def d3_highlightNode_def d3_clearHighlights_def d3_setLayout_def
        d3_enableSimulation_def d3_destroy_def)

theorem unknown_id_no_effect_witness:
  "unregistered (networks jb_empty) ''missing-id'' \<and>
   unregistered (instances cng_empty) ''missing-id'' \<and>
   unregistered (networkInstances no_instances) ''missing-id'' \<and>
   d3_unregistered d3_empty ''missing-id'' \<and>
   jb_addNode jb_empty ''missing-id'' [(''id'', JNum 1)] = (Inr False, jb_empty) \<and>
   networks (snd (jb_addNode jb_empty ''missing-id'' [(''id'', JNum 1)])) ''missing-id'' = None \<and>
   cng_highlightPath cng_empty ''missing-id'' [JNum 1] = (False, cng_empty) \<and>
   cng_loadData plain_builtins cng_empty ''missing-id'' \<lparr>jd_nodes = Some [], jd_edges = Some []\<rparr> =
     (False, cng_empty) \<and>
   p0_setLayout no_instances ''missing-id'' (JStr ''hierarchical'') = (False, no_instances) \<and>
   d3_setData d3_empty ''missing-id'' \<lparr>gd_nodes = [], gd_links = []\<rparr> = (Inr False, d3_empty) \<and>
   d3_highlightNode d3_empty ''missing-id'' (JNum 1) = (Inr False, d3_empty)"
proof -
  have a: "unregistered (networks jb_empty) ''missing-id''"
    by (simp add: jb_empty_def unregistered_def table_get_def object_prototype_members_def)
  have b: "unregistered (instances cng_empty) ''missing-id''"
    by (simp add: cng_empty_def unregistered_def table_get_def object_prototype_members_def)
  have c: "unregistered (networkInstances no_instances) ''missing-id''"
    by (simp add: no_instances_def unregistered_def table_get_def object_prototype_members_def)
  have d: "d3_unregistered d3_empty ''missing-id''"
    by (simp add: d3_empty_def d3_unregistered_def d3_get_def table_get_def
          object_prototype_members_def)
  note t = unknown_id_no_effect [OF a b c d, where node = "[(''id'', JNum 1)]"
             and nodeIds = "[JNum 1]" and layoutType = "JStr ''hierarchical''"
             and data = "\<lparr>gd_nodes = [], gd_links = []\<rparr>" and nodeId = "JNum 1"
             and journeyData = "\<lparr>jd_nodes = Some [], jd_edges = Some []\<rparr>"
             and bi = plain_builtins]
  have e: "jb_addNode jb_empty ''missing-id'' [(''id'', JNum 1)] = (Inr False, jb_empty)"
    using t by simp
  have e': "networks (snd (jb_addNode jb_empty ''missing-id'' [(''id'', JNum 1)])) ''missing-id'' = None"
    unfolding e by (simp add: jb_empty_def)
  have f: "cng_highlightPath cng_empty ''missing-id'' [JNum 1] = (False, cng_empty)"
    using t by simp
  have f': "cng_loadData plain_builtins cng_empty ''missing-id'' \<lparr>jd_nodes = Some [], jd_edges = Some []\<rparr> =
              (False, cng_empty)"
    using t by simp
  have g: "p0_setLayout no_instances ''missing-id'' (JStr ''hierarchical'') = (False, no_instances)"
    using t by simp
  have h: "d3_setData d3_empty ''missing-id'' \<lparr>gd_nodes = [], gd_links = []\<rparr> = (Inr False, d3_empty)"
    using t by simp
  have i: "d3_highlightNode d3_empty ''missing-id'' (JNum 1) = (Inr False, d3_empty)"
    using t by simp
  show ?thesis
    using a b c d e e' f f' g h i by simp
qed

subsection \<open>Objects and data sets\<close>

lemma is_id_not_nullish: "is_id v \<Longrightarrow> not_nullish v"
  by (auto simp: is_id_def not_nullish_def split: jsval.splits)

lemma strict_eq_id: "is_id a \<Longrightarrow> strict_eq a b \<longleftrightarrow> a = b"
  by (cases a) (auto simp: is_id_def)

lemma strict_eq_id2: "is_id b \<Longrightarrow> strict_eq a b \<longleftrightarrow> a = b"
  by (cases a; cases b) (auto simp: is_id_def)

lemma get_prop_update: "get_prop (AList.update k v ob) p = (if p = k then v else get_prop ob p)"
  by (simp add: get_prop_def update_conv')

lemma map_of_spread: "map_of (spread a b) = map_of a ++ map_of (rev b)"
proof (induction b arbitrary: a)
  case Nil
  then show ?case by (simp add: spread_def)
next
  case (Cons x b)
  obtain k v where x: "x = (k, v)" by (cases x)
  have "spread a (x # b) = spread (AList.update k v a) b"
    by (simp add: spread_def x)
  then show ?case
    using Cons.IH [of "AList.update k v a"]
    by (simp add: x update_conv' map_add_def fun_eq_iff split: option.splits)
qed

lemma get_prop_spread_other:
  "p \<notin> fst ` set b \<Longrightarrow> get_prop (spread a b) p = get_prop a p"
  by (simp add: get_prop_def map_of_spread map_add_def map_of_eq_None_iff [THEN iffD2] split: option.splits)

lemma get_prop_spread_here:
  "distinct (map fst b) \<Longrightarrow> p \<in> fst ` set b \<Longrightarrow> get_prop (spread a b) p = get_prop b p"
proof -
  assume d: "distinct (map fst b)" and p: "p \<in> fst ` set b"
  have "distinct (map fst (rev b))" using d by (simp add: rev_map [symmetric])
  then have "map_of (rev b) = map_of b"
    using d by (simp add: map_of_inject_set)
  moreover have "map_of b p \<noteq> None" using p by (simp add: map_of_eq_None_iff)
  ultimately show ?thesis
    by (auto simp: get_prop_def map_of_spread map_add_def split: option.splits)
qed

lemma ds_has_iff: "ds_has ds k \<longleftrightarrow> k \<in> fst ` set (items ds)"
  by (simp add: ds_has_def map_of_eq_None_iff)

lemma ds_wf_same_id:
  assumes "ds_wf ds" and "(k1, e1) \<in> set (items ds)" and "(k2, e2) \<in> set (items ds)"
    and "get_prop e1 ''id'' = get_prop e2 ''id''"
  shows "k1 = k2 \<and> e1 = e2"
proof -
  have "get_prop e1 ''id'' = k1" "get_prop e2 ''id'' = k2"
    using assms(1,2,3) by (auto simp: ds_wf_def)
  then have k: "k1 = k2" using assms(4) by simp
  have d: "distinct (map fst (items ds))" using assms(1) by (simp add: ds_wf_def)
  have "map_of (items ds) k1 = Some e1" "map_of (items ds) k2 = Some e2"
    using d assms(2,3) by simp_all
  then show ?thesis using k by simp
qed

text \<open>
  \<open>forEach\<close> with an \<open>update\<close> of the visited item in its body, also over a filtered
  selection: every selected item is merged with its payload, in place.
\<close>

lemma update_in_place:
  assumes "distinct (map fst (pre @ (k, it) # post))" and "get_prop item ''id'' = k" and "is_id k"
  shows "ds_update (ds\<lparr>items := pre @ (k, it) # post\<rparr>) item =
           ds\<lparr>items := pre @ (k, spread it item) # post\<rparr>"
proof -
  have "\<forall>(k', e)\<in>set pre. k' \<noteq> k" "\<forall>(k', e)\<in>set post. k' \<noteq> k"
    using assms(1) by force+
  then have a: "map (\<lambda>(k', old). if k' = k then (k', spread old item) else (k', old)) pre = pre"
    and b: "map (\<lambda>(k', old). if k' = k then (k', spread old item) else (k', old)) post = post"
    by (intro map_idI; force)+
  show ?thesis
    using assms(2,3) a b
    by (simp add: ds_update_def ds_has_iff is_id_not_nullish Let_def)
qed

lemma forEach_update_gen:
  assumes "distinct (map fst (pre @ post))"
    and "\<forall>(k, it)\<in>set post. is_id k \<and> get_prop it ''id'' = k"
    and "\<And>it. get_prop (u it) ''id'' = get_prop it ''id''"
  shows "fold (\<lambda>it d. ds_update d (u it)) (filter P (map snd post)) (ds\<lparr>items := pre @ post\<rparr>) =
           ds\<lparr>items := pre @ map (\<lambda>(k, it). if P it then (k, spread it (u it)) else (k, it)) post\<rparr>"
  using assms(1,2)
proof (induction post arbitrary: pre)
  case Nil
  then show ?case by simp
next
  case (Cons x post)
  obtain k it where x: "x = (k, it)" by (cases x)
  have idk: "is_id k" "get_prop it ''id'' = k"
    using Cons.prems(2) by (auto simp: x)
  show ?case
  proof (cases "P it")
    case True
    have d': "distinct (map fst ((pre @ [(k, spread it (u it))]) @ post))"
      using Cons.prems(1) by (simp add: x)
    have r: "\<forall>(k, it)\<in>set post. is_id k \<and> get_prop it ''id'' = k"
      using Cons.prems(2) by simp
    have step: "ds_update (ds\<lparr>items := pre @ (k, it) # post\<rparr>) (u it) =
                  ds\<lparr>items := pre @ (k, spread it (u it)) # post\<rparr>"
      using Cons.prems(1) idk assms(3) [of it] by (intro update_in_place) (simp_all add: x)
    show ?thesis
      using Cons.IH [OF d' r] True step by (simp add: x)
  next
    case False
    have d': "distinct (map fst ((pre @ [(k, it)]) @ post))"
      using Cons.prems(1) by (simp add: x)
    have r: "\<forall>(k, it)\<in>set post. is_id k \<and> get_prop it ''id'' = k"
      using Cons.prems(2) by simp
    show ?thesis
      using Cons.IH [OF d' r] False by (simp add: x)
  qed
qed

lemma forEach_filter_update:
  assumes "ds_wf ds" and "\<And>it. get_prop (u it) ''id'' = get_prop it ''id''"
  shows "fold (\<lambda>it d. ds_update d (u it)) (filter P (ds_get ds)) ds =
           ds\<lparr>items := map (\<lambda>(k, it). if P it then (k, spread it (u it)) else (k, it)) (items ds)\<rparr>"
  using forEach_update_gen [of "[]" "items ds" u P ds] assms
  by (simp add: ds_wf_def ds_get_def)

lemma forEach_update:
  assumes "ds_wf ds" and "\<And>it. get_prop (u it) ''id'' = get_prop it ''id''"
  shows "fold (\<lambda>it d. ds_update d (u it)) (ds_get ds) ds =
           ds\<lparr>items := map (\<lambda>(k, it). (k, spread it (u it))) (items ds)\<rparr>"
  using forEach_filter_update [OF assms, of "\<lambda>it. True"] by simp

subsection \<open>Loading and reading back\<close>

lemma assign_ids_present:
  "\<forall>x\<in>set xs. not_nullish (get_prop x ''id'') \<Longrightarrow> assign_ids k xs = xs"
  by (induction xs) simp_all

lemma length_assign_ids: "length (assign_ids k xs) = length xs"
  by (induction xs arbitrary: k) simp_all

lemma no_future_ids_iff:
  "no_future_ids k xs \<longleftrightarrow> (\<forall>x\<in>set xs. \<forall>i. get_prop x ''id'' = JUuid i \<longrightarrow> i < k)"
  by (auto simp: no_future_ids_def list_all_iff split: jsval.splits)

lemma ds_add_all_assign:
  assumes "distinct (filter not_nullish (map (\<lambda>x. get_prop x ''id'') xs))"
    and "no_future_ids (next_uuid ds) xs"
    and "\<forall>x\<in>set xs. not_nullish (get_prop x ''id'') \<longrightarrow>
           get_prop x ''id'' \<notin> fst ` set (items ds)"
  shows "ds_add_all ds xs =
           Inr (ds\<lparr>items := items ds @
                       map (\<lambda>x. (get_prop x ''id'', x)) (assign_ids (next_uuid ds) xs),
                   next_uuid := next_uuid ds +
                       length (filter (\<lambda>x. \<not> not_nullish (get_prop x ''id'')) xs)\<rparr>)"
  using assms
proof (induction xs arbitrary: ds)
  case Nil
  then show ?case by simp
next
  case (Cons x xs)
  have g: "no_future_ids (next_uuid ds) xs"
    using Cons.prems(2) by (simp add: no_future_ids_def)
  show ?case
  proof (cases "not_nullish (get_prop x ''id'')")
    case True
    let ?ds' = "ds\<lparr>items := items ds @ [(get_prop x ''id'', x)]\<rparr>"
    have a: "ds_addItem ds x = Inr ?ds'"
      using Cons.prems(3) True by (simp add: ds_addItem_def ds_has_iff Let_def)
    have d: "distinct (filter not_nullish (map (\<lambda>x. get_prop x ''id'') xs))"
      using Cons.prems(1) True by simp
    have f: "\<forall>y\<in>set xs. not_nullish (get_prop y ''id'') \<longrightarrow>
               get_prop y ''id'' \<notin> fst ` set (items ?ds')"
      using Cons.prems(1,3) True by (auto simp: image_iff)
    have g': "no_future_ids (next_uuid ?ds') xs"
      using g by simp
    show ?thesis
      using Cons.IH [OF d g' f] a True by simp
  next
    case False
    let ?x' = "AList.update ''id'' (JUuid (next_uuid ds)) x"
    let ?ds' = "ds\<lparr>items := items ds @ [(JUuid (next_uuid ds), ?x')],
                    next_uuid := Suc (next_uuid ds)\<rparr>"
    have a: "ds_addItem ds x = Inr ?ds'"
      using False by (simp add: ds_addItem_def Let_def)
    have d: "distinct (filter not_nullish (map (\<lambda>x. get_prop x ''id'') xs))"
      using Cons.prems(1) False by simp
    have ng: "\<forall>y\<in>set xs. get_prop y ''id'' \<noteq> JUuid (next_uuid ds)"
      using g by (auto simp: no_future_ids_iff)
    have g': "no_future_ids (next_uuid ?ds') xs"
      using g by (auto simp: no_future_ids_iff less_Suc_eq)
    have f: "\<forall>y\<in>set xs. not_nullish (get_prop y ''id'') \<longrightarrow>
               get_prop y ''id'' \<notin> fst ` set (items ?ds')"
      using Cons.prems(3) ng by (auto simp: image_iff)
    have i: "get_prop ?x' ''id'' = JUuid (next_uuid ds)"
      by (simp add: get_prop_update)
    show ?thesis
      using Cons.IH [OF d g' f] a False i by simp
  qed
qed

lemma spread_Nil: "spread a [] = a"
  by (simp add: spread_def)

lemma styleNode_keeps:
  assumes "p \<notin> {''color'', ''shape'', ''icon'', ''font''}"
  shows "get_prop (styleNode n) p = get_prop n p"
proof -
  have d: "p \<notin> fst ` set default_style"
    using assms by (auto simp: default_style_def)
  have s: "\<And>t st. map_of styles t = Some st \<Longrightarrow> p \<notin> fst ` set st"
    using assms by (auto simp: styles_def split: if_splits)
  show ?thesis
    using assms d s
    by (auto simp: styleNode_def Let_def get_prop_update get_prop_spread_other spread_Nil
             split: option.splits)
qed

lemma styleNode_id: "get_prop (styleNode n) ''id'' = get_prop n ''id''"
  by (rule styleNode_keeps) simp

lemma filter_update_out:
  "k \<in> D \<Longrightarrow> filter (\<lambda>(k', v). k' \<notin> D) (AList.update k v al) = filter (\<lambda>(k', v). k' \<notin> D) al"
  by (induction al) auto

lemma filter_spread_out:
  "fst ` set b \<subseteq> D \<Longrightarrow> filter (\<lambda>(k', v). k' \<notin> D) (spread a b) = filter (\<lambda>(k', v). k' \<notin> D) a"
proof (induction b arbitrary: a)
  case Nil
  then show ?case by (simp add: spread_def)
next
  case (Cons x b)
  obtain k v where x: "x = (k, v)" by (cases x)
  have "spread a (x # b) = spread (AList.update k v a) b"
    by (simp add: spread_def x)
  then show ?case
    using Cons.IH [of "AList.update k v a"] Cons.prems by (simp add: x filter_update_out)
qed

lemma strip_display_styleNode: "strip_display (styleNode n) = strip_display n"
proof -
  let ?D = "{''color'', ''shape'', ''icon'', ''font''}"
  have d: "fst ` set default_style \<subseteq> ?D"
    by (auto simp: default_style_def)
  have s: "\<And>t st. map_of styles t = Some st \<Longrightarrow> fst ` set st \<subseteq> ?D"
    by (auto simp: styles_def split: if_splits)
  define st where "st = (case property_key (get_prop n ''type'') of
                     Some t \<Rightarrow>
                       (case map_of styles t of
                          Some st \<Rightarrow> st
                        | None \<Rightarrow> if t \<in> set object_prototype_members then [] else default_style)
                   | None \<Rightarrow> default_style)"
  have st: "fst ` set st \<subseteq> ?D"
    unfolding st_def using d s by (simp split: option.splits)
  have sn: "styleNode n =
              AList.update ''font'' (JObj [(''color'', JStr ''#ffffff''), (''size'', JNum 14)]) (spread n st)"
    by (simp add: styleNode_def st_def)
  have "filter (\<lambda>(k', v). k' \<notin> ?D) (styleNode n) = filter (\<lambda>(k', v). k' \<notin> ?D) (spread n st)"
    unfolding sn by (rule filter_update_out) simp
  also have "\<dots> = filter (\<lambda>(k', v). k' \<notin> ?D) n"
    using st by (rule filter_spread_out)
  finally show ?thesis
    unfolding strip_display_def .
qed

text \<open>
  A node whose type names a member of \<open>Object.prototype\<close> gets the \<open>font\<close> and neither
  colour nor icon; a node without a known type gets the default colour and icon.
\<close>

lemma styleNode_inherited_member:
  "styleNode [(''id'', JStr ''n1''), (''type'', JStr ''constructor'')] =
     [(''id'', JStr ''n1''), (''type'', JStr ''constructor''),
      (''font'', JObj [(''color'', JStr ''#ffffff''), (''size'', JNum 14)])] \<and>
   styleNode [(''id'', JStr ''n1''), (''type'', JStr ''Other'')] =
     [(''id'', JStr ''n1''), (''type'', JStr ''Other''),
      (''color'', node_colors ''#607D8B'' ''#455A64''), (''icon'', fa_icon ''uf013''),
      (''font'', JObj [(''color'', JStr ''#ffffff''), (''size'', JNum 14)])]"
  by (simp add: styleNode_def get_prop_def styles_def object_prototype_members_def spread_def
        default_style_def)

lemma jb_loadData_assigns:
  assumes "networks s cid = Some net"
    and "distinct (filter not_nullish (map (\<lambda>n. get_prop n ''id'') N))"
    and "no_future_ids (next_uuid (data_nodes net)) N"
    and "distinct (filter not_nullish (map (\<lambda>e. get_prop e ''id'') E))"
    and "no_future_ids (next_uuid (data_edges net)) E"
  shows "fst (jb_loadData s cid \<lparr>jd_nodes = Some N, jd_edges = Some E\<rparr>) = Inr True \<and>
         jb_getData (snd (jb_loadData s cid \<lparr>jd_nodes = Some N, jd_edges = Some E\<rparr>)) cid =
           Inr (Some \<lparr>jd_nodes = Some (assign_ids (next_uuid (data_nodes net)) (map styleNode N)),
                      jd_edges = Some (assign_ids (next_uuid (data_edges net)) E)\<rparr>)"
proof -
  let ?n0 = "ds_clear (data_nodes net)"
  let ?e0 = "ds_clear (data_edges net)"
  let ?N = "map styleNode N"
  have ids: "map (\<lambda>x. get_prop x ''id'') ?N = map (\<lambda>n. get_prop n ''id'') N"
    by (simp add: comp_def styleNode_id)
  have dn: "distinct (filter not_nullish (map (\<lambda>x. get_prop x ''id'') ?N))"
    unfolding ids by (rule assms(2))
  have gn: "no_future_ids (next_uuid ?n0) ?N"
    using assms(3) by (simp add: no_future_ids_iff styleNode_id ds_clear_def)
  have ge: "no_future_ids (next_uuid ?e0) E"
    using assms(5) by (simp add: ds_clear_def)
  have fn: "\<forall>x\<in>set ?N. not_nullish (get_prop x ''id'') \<longrightarrow>
              get_prop x ''id'' \<notin> fst ` set (items ?n0)"
    by (simp add: ds_clear_def)
  have fe: "\<forall>x\<in>set E. not_nullish (get_prop x ''id'') \<longrightarrow>
              get_prop x ''id'' \<notin> fst ` set (items ?e0)"
    by (simp add: ds_clear_def)
  have n1: "ds_add_all ?n0 ?N =
              Inr \<lparr>items = map (\<lambda>x. (get_prop x ''id'', x))
                              (assign_ids (next_uuid (data_nodes net)) ?N),
                   next_uuid = next_uuid (data_nodes net) +
                               length (filter (\<lambda>x. \<not> not_nullish (get_prop x ''id'')) ?N)\<rparr>"
    using ds_add_all_assign [OF dn gn fn] by (simp add: ds_clear_def)
  have e1: "ds_add_all ?e0 E =
              Inr \<lparr>items = map (\<lambda>x. (get_prop x ''id'', x))
                              (assign_ids (next_uuid (data_edges net)) E),
                   next_uuid = next_uuid (data_edges net) +
                               length (filter (\<lambda>x. \<not> not_nullish (get_prop x ''id'')) E)\<rparr>"
    using ds_add_all_assign [OF assms(4) ge fe] by (simp add: ds_clear_def)
  have m: "\<And>ys :: obj list. map (snd \<circ> (\<lambda>x. (get_prop x ''id'', x))) ys = ys"
    by (simp add: comp_def)
  have z: "items ?n0 = []" "items ?e0 = []"
    by (simp_all add: ds_clear_def)
  show ?thesis
  proof (cases "N = []")
    case True
    note N = True
    show ?thesis
    proof (cases "E = []")
      case True
      then show ?thesis
        using assms(1) N z
        by (simp add: jb_loadData_def jb_getData_def Let_def nodes_changed_def ds_get_def)
    next
      case False
      then show ?thesis
        using assms(1) N z e1
        by (simp add: jb_loadData_def jb_getData_def Let_def nodes_changed_def ds_get_def m)
    qed
  next
    case False
    note N = False
    show ?thesis
    proof (cases "E = []")
      case True
      then show ?thesis
        using assms(1) N z n1
        by (simp add: jb_loadData_def jb_getData_def Let_def nodes_changed_def ds_get_def m)
    next
      case False
      then show ?thesis
        using assms(1) N n1 e1
        by (simp add: jb_loadData_def jb_getData_def Let_def nodes_changed_def ds_get_def m)
    qed
  qed
qed

text \<open>
  Claim C8 fails as stated: loading a node list in which an identifier occurs twice
  raises in the middle. The earlier content is gone, the nodes before the duplicate
  are in place, the edges were never added, and the next read sees that state.
\<close>

theorem loadData_duplicate_id_partial:
  "fst (jb_loadData journey_example ''graph''
          \<lparr>jd_nodes = Some [[(''id'', JNum 7)], [(''id'', JNum 8)], [(''id'', JNum 7)]],
           jd_edges = Some [[(''id'', JStr ''e9''), (''from'', JNum 7), (''to'', JNum 8)]]\<rparr>)
     = Inl (AlreadyExists (JNum 7)) \<and>
   jb_getData (snd (jb_loadData journey_example ''graph''
          \<lparr>jd_nodes = Some [[(''id'', JNum 7)], [(''id'', JNum 8)], [(''id'', JNum 7)]],
           jd_edges = Some [[(''id'', JStr ''e9''), (''from'', JNum 7), (''to'', JNum 8)]]\<rparr>)) ''graph''
     = Inr (Some \<lparr>jd_nodes = Some [styleNode [(''id'', JNum 7)], styleNode [(''id'', JNum 8)]],
                  jd_edges = Some []\<rparr>)"
  by (simp add: jb_loadData_def jb_getData_def journey_example_def journey_network_def
        ds_clear_def ds_addItem_def ds_has_def ds_get_def nodes_changed_def not_nullish_def
        styleNode_def spread_def default_style_def get_prop_def Let_def styles_def
        object_prototype_members_def)

text \<open>
  Claim C8, amended. When the identifiers that the loaded nodes carry are pairwise
  different, and so are those that the loaded edges carry, none of them an identifier
  that the library has yet to generate, \<open>loadData\<close> returns \<open>true\<close> and replaces
  whatever the instance held: the next \<open>getData\<close> returns the loaded nodes,
  each with its derived style, in the order given, and the loaded edges in the order
  given, where an item that came without an identifier has received the next one the
  library generates and an item that came with one is as it was loaded. A styled node
  differs from the loaded one in the display properties only.
\<close>

theorem loadData_round_trip:
  assumes "networks s containerId = Some network"
    and "distinct (filter not_nullish (map (\<lambda>n. get_prop n ''id'') N))"
    and "no_future_ids (next_uuid (data_nodes network)) N"
    and "distinct (filter not_nullish (map (\<lambda>e. get_prop e ''id'') E))"
    and "no_future_ids (next_uuid (data_edges network)) E"
  shows "fst (jb_loadData s containerId \<lparr>jd_nodes = Some N, jd_edges = Some E\<rparr>) = Inr True \<and>
         jb_getData (snd (jb_loadData s containerId \<lparr>jd_nodes = Some N, jd_edges = Some E\<rparr>))
           containerId =
             Inr (Some \<lparr>jd_nodes = Some (assign_ids (next_uuid (data_nodes network))
                                           (map styleNode N)),
                        jd_edges = Some (assign_ids (next_uuid (data_edges network)) E)\<rparr>) \<and>
         map strip_display (map styleNode N) = map strip_display N \<and>
         ((\<forall>n\<in>set N. not_nullish (get_prop n ''id'')) \<longrightarrow>
            assign_ids (next_uuid (data_nodes network)) (map styleNode N) = map styleNode N) \<and>
         ((\<forall>e\<in>set E. not_nullish (get_prop e ''id'')) \<longrightarrow>
            assign_ids (next_uuid (data_edges network)) E = E)"
proof -
  have a: "(\<forall>n\<in>set N. not_nullish (get_prop n ''id'')) \<longrightarrow>
            assign_ids (next_uuid (data_nodes network)) (map styleNode N) = map styleNode N"
    by (simp add: assign_ids_present styleNode_id)
  have b: "(\<forall>e\<in>set E. not_nullish (get_prop e ''id'')) \<longrightarrow>
            assign_ids (next_uuid (data_edges network)) E = E"
    by (simp add: assign_ids_present)
  show ?thesis
    using jb_loadData_assigns [OF assms] a b by (simp add: strip_display_styleNode)
qed

theorem loadData_round_trip_witness:
  "networks journey_example ''graph'' = Some journey_network \<and>
   distinct (filter not_nullish (map (\<lambda>n. get_prop n ''id'')
      [[(''id'', JNum 7), (''type'', JStr ''Start'')], [(''label'', JStr ''x'')]])) \<and>
   no_future_ids (next_uuid (data_nodes journey_network))
      [[(''id'', JNum 7), (''type'', JStr ''Start'')], [(''label'', JStr ''x'')]] \<and>
   distinct (filter not_nullish (map (\<lambda>e. get_prop e ''id'') [[(''from'', JNum 7), (''to'', JNum 7)]])) \<and>
   no_future_ids (next_uuid (data_edges journey_network)) [[(''from'', JNum 7), (''to'', JNum 7)]] \<and>
   fst (jb_loadData journey_example ''graph''
        \<lparr>jd_nodes = Some [[(''id'', JNum 7), (''type'', JStr ''Start'')], [(''label'', JStr ''x'')]],
         jd_edges = Some [[(''from'', JNum 7), (''to'', JNum 7)]]\<rparr>) = Inr True \<and>
   jb_getData (snd (jb_loadData journey_example ''graph''
        \<lparr>jd_nodes = Some [[(''id'', JNum 7), (''type'', JStr ''Start'')], [(''label'', JStr ''x'')]],
         jd_edges = Some [[(''from'', JNum 7), (''to'', JNum 7)]]\<rparr>)) ''graph''
     = Inr (Some \<lparr>jd_nodes = Some [styleNode [(''id'', JNum 7), (''type'', JStr ''Start'')],
                                    AList.update ''id'' (JUuid 0) (styleNode [(''label'', JStr ''x'')])],
                  jd_edges = Some [[(''from'', JNum 7), (''to'', JNum 7), (''id'', JUuid 0)]]\<rparr>)"
proof -
  have a: "networks journey_example ''graph'' = Some journey_network"
    by (simp add: journey_example_def)
  have b: "distinct (filter not_nullish (map (\<lambda>n. get_prop n ''id'')
      [[(''id'', JNum 7), (''type'', JStr ''Start'')], [(''label'', JStr ''x'')]]))"
    by (simp add: get_prop_def not_nullish_def)
  have c: "no_future_ids (next_uuid (data_nodes journey_network))
             [[(''id'', JNum 7), (''type'', JStr ''Start'')], [(''label'', JStr ''x'')]]"
    by (simp add: get_prop_def no_future_ids_def)
  have d: "distinct (filter not_nullish (map (\<lambda>e. get_prop e ''id'') [[(''from'', JNum 7), (''to'', JNum 7)]]))"
    by (simp add: get_prop_def not_nullish_def)
  have e: "no_future_ids (next_uuid (data_edges journey_network)) [[(''from'', JNum 7), (''to'', JNum 7)]]"
    by (simp add: get_prop_def no_future_ids_def)
  note t = loadData_round_trip [OF a b c d e]
  have u: "next_uuid (data_nodes journey_network) = 0" "next_uuid (data_edges journey_network) = 0"
    by (simp_all add: journey_network_def)
  have n: "assign_ids 0 (map styleNode [[(''id'', JNum 7), (''type'', JStr ''Start'')], [(''label'', JStr ''x'')]])
           = [styleNode [(''id'', JNum 7), (''type'', JStr ''Start'')],
              AList.update ''id'' (JUuid 0) (styleNode [(''label'', JStr ''x'')])]"
  proof -
    have "get_prop (styleNode [(''id'', JNum 7), (''type'', JStr ''Start'')]) ''id'' = JNum 7"
      "get_prop (styleNode [(''label'', JStr ''x'')]) ''id'' = JUndefined"
      unfolding styleNode_id by (simp_all add: get_prop_def)
    then show ?thesis
      by (simp add: not_nullish_def)
  qed
  have g: "assign_ids 0 [[(''from'', JNum 7), (''to'', JNum 7)]]
           = [[(''from'', JNum 7), (''to'', JNum 7), (''id'', JUuid 0)]]"
    by (simp add: get_prop_def not_nullish_def)
  show ?thesis
    using a b c d e t [THEN conjunct1] t [THEN conjunct2, THEN conjunct1]
    unfolding u n g by simp
qed

subsection \<open>Updating a node\<close>






lemma d3_get_Some [simp]: "graphInstances s k = Some i \<Longrightarrow> d3_get s k = Own i"
  by (simp add: d3_get_def)








lemma journey_nodes_wf: "ds_wf (data_nodes journey_network)"
  by (simp add: ds_wf_def journey_network_def is_id_def get_prop_def)

lemma journey_edges_wf: "ds_wf (data_edges journey_network)"
  by (simp add: ds_wf_def journey_network_def is_id_def get_prop_def)


subsection \<open>Highlighting\<close>

lemma js_includes_iff: "js_includes xs v \<longleftrightarrow> (\<exists>x\<in>set xs. strict_eq x v)"
  by (simp add: js_includes_def list_ex_iff)

lemma js_includes_id: "is_id k \<Longrightarrow> js_includes xs k \<longleftrightarrow> k \<in> set xs"
  by (auto simp: js_includes_iff strict_eq_id2)

lemma ds_wf_key:
  "ds_wf ds \<Longrightarrow> (k, it) \<in> set (items ds) \<Longrightarrow> is_id k \<and> get_prop it ''id'' = k"
  by (auto simp: ds_wf_def)

lemma cng_highlight_nodes:
  assumes "ds_wf ds"
  shows "opacities (fold (\<lambda>node d. ds_update d
            [(''id'', get_prop node ''id''),
             (''opacity'', if js_includes S (get_prop node ''id'') then JNum 1 else JNum (3 / 10))])
          (ds_get ds) ds)
         = map (\<lambda>(k, it). (k, if js_includes S k then JNum 1 else JNum (3 / 10))) (items ds)"
proof -
  let ?u = "\<lambda>node. [(''id'', get_prop node ''id''),
             (''opacity'', if js_includes S (get_prop node ''id'') then JNum 1 else JNum (3 / 10))]"
  have u: "\<And>it. get_prop (?u it) ''id'' = get_prop it ''id''"
    by (simp add: get_prop_def)
  have o: "\<And>it. get_prop (spread it (?u it)) ''opacity'' =
                  (if js_includes S (get_prop it ''id'') then JNum 1 else JNum (3 / 10))"
    by (subst get_prop_spread_here) (simp_all add: get_prop_def)
  have "opacities (fold (\<lambda>node d. ds_update d (?u node)) (ds_get ds) ds)
          = map (\<lambda>(k, it). (k, if js_includes S (get_prop it ''id'') then JNum 1 else JNum (3 / 10)))
              (items ds)"
    unfolding forEach_update [OF assms, of ?u, OF u]
    by (simp add: opacities_def column_def comp_def case_prod_unfold o)
  also have "\<dots> = map (\<lambda>(k, it). (k, if js_includes S k then JNum 1 else JNum (3 / 10))) (items ds)"
    using ds_wf_key [OF assms] by (intro map_cong) auto
  finally show ?thesis .
qed

lemma cng_isHighlighted:
  assumes "ds_wf ds" and "(k, edge) \<in> set (items ds)"
  shows "list_ex (\<lambda>e. strict_eq (get_prop e ''id'') (get_prop edge ''id'')) (filter P (ds_get ds))
           \<longleftrightarrow> P edge"
proof
  assume "list_ex (\<lambda>e. strict_eq (get_prop e ''id'') (get_prop edge ''id'')) (filter P (ds_get ds))"
  then obtain e where e: "e \<in> set (ds_get ds)" "P e" "strict_eq (get_prop e ''id'') (get_prop edge ''id'')"
    by (auto simp: list_ex_iff)
  then obtain k' where k': "(k', e) \<in> set (items ds)"
    by (auto simp: ds_get_def)
  have "is_id (get_prop edge ''id'')"
    using ds_wf_key [OF assms] by simp
  then have "get_prop e ''id'' = get_prop edge ''id''"
    using e(3) by (simp add: strict_eq_id2)
  then have "e = edge"
    using ds_wf_same_id [OF assms(1) k' assms(2)] by simp
  then show "P edge" using e(2) by simp
next
  assume p: "P edge"
  have "is_id (get_prop edge ''id'')"
    using ds_wf_key [OF assms] by simp
  then have "strict_eq (get_prop edge ''id'') (get_prop edge ''id'')"
    by (simp add: strict_eq_id)
  moreover have "edge \<in> set (filter P (ds_get ds))"
    using assms(2) p by (force simp: ds_get_def)
  ultimately show "list_ex (\<lambda>e. strict_eq (get_prop e ''id'') (get_prop edge ''id'')) (filter P (ds_get ds))"
    unfolding list_ex_iff by blast
qed

lemma cng_highlight_edges:
  assumes "ds_wf ds"
  shows "opacities (fold (\<lambda>edge d.
            (let isHighlighted = list_ex (\<lambda>e. strict_eq (get_prop e ''id'') (get_prop edge ''id''))
                                   (filter P (ds_get ds))
             in ds_update d [(''id'', get_prop edge ''id''),
                             (''opacity'', if isHighlighted then JNum 1 else JNum (3 / 10))]))
          (ds_get ds) ds)
         = map (\<lambda>(k, e). (k, if P e then JNum 1 else JNum (3 / 10))) (items ds)"
proof -
  let ?H = "\<lambda>edge. list_ex (\<lambda>e. strict_eq (get_prop e ''id'') (get_prop edge ''id''))
                       (filter P (ds_get ds))"
  let ?u = "\<lambda>edge. [(''id'', get_prop edge ''id''),
                     (''opacity'', if ?H edge then JNum 1 else JNum (3 / 10))]"
  have u: "\<And>it. get_prop (?u it) ''id'' = get_prop it ''id''"
    by (simp add: get_prop_def)
  have o: "\<And>it. get_prop (spread it (?u it)) ''opacity'' = (if ?H it then JNum 1 else JNum (3 / 10))"
    by (subst get_prop_spread_here) (simp_all add: get_prop_def)
  have "opacities (fold (\<lambda>edge d. ds_update d (?u edge)) (ds_get ds) ds)
          = map (\<lambda>(k, it). (k, if ?H it then JNum 1 else JNum (3 / 10))) (items ds)"
    unfolding forEach_update [OF assms, of ?u, OF u]
    by (simp add: opacities_def column_def comp_def case_prod_unfold o)
  also have "\<dots> = map (\<lambda>(k, e). (k, if P e then JNum 1 else JNum (3 / 10))) (items ds)"
    using cng_isHighlighted [OF assms] by (intro map_cong) auto
  finally show ?thesis by (simp add: Let_def)
qed

lemma cng_highlightPath_opacities:
  assumes "instances c containerId = Some inst"
    and "ds_wf (data_nodes inst)" and "ds_wf (data_edges inst)"
  shows "fst (cng_highlightPath c containerId S) = True \<and>
         map_option (\<lambda>i. opacities (data_nodes i)) (instances (snd (cng_highlightPath c containerId S)) containerId)
           = Some (map (\<lambda>(k, it). (k, if js_includes S k then JNum 1 else JNum (3 / 10)))
                     (items (data_nodes inst))) \<and>
         map_option (\<lambda>i. opacities (data_edges i)) (instances (snd (cng_highlightPath c containerId S)) containerId)
           = Some (map (\<lambda>(k, e). (k, if js_includes S (get_prop e ''from'') \<and>
                                         js_includes S (get_prop e ''to'')
                                      then JNum 1 else JNum (3 / 10)))
                     (items (data_edges inst)))"
  using assms(1) cng_highlight_nodes [OF assms(2), of S]
    cng_highlight_edges [OF assms(3),
      of "\<lambda>edge. js_includes S (get_prop edge ''from'') \<and> js_includes S (get_prop edge ''to'')"]
  by (simp add: cng_highlightPath_def Let_def nodes_changed_def)

lemma ds_wf_merge:
  assumes "ds_wf ds" and "\<And>it. get_prop (u it) ''id'' = get_prop it ''id''"
    and "\<And>it. distinct (map fst (u it))" and "\<And>it. ''id'' \<in> fst ` set (u it)"
  shows "ds_wf (ds\<lparr>items := map (\<lambda>(k, it). if P it then (k, spread it (u it)) else (k, it)) (items ds)\<rparr>)"
proof -
  let ?f = "\<lambda>(k, it). if P it then (k, spread it (u it)) else (k, it)"
  have k: "fst \<circ> ?f = fst"
    by (auto simp: fun_eq_iff)
  have i: "\<And>it. get_prop (spread it (u it)) ''id'' = get_prop it ''id''"
    using assms(2,3,4) by (simp add: get_prop_spread_here)
  have d: "distinct (map fst (map ?f (items ds)))"
    using assms(1) by (simp add: k ds_wf_def)
  have "\<forall>(k, it)\<in>set (map ?f (items ds)). is_id k \<and> get_prop it ''id'' = k"
    using assms(1) i by (auto simp: ds_wf_def split: if_splits)
  then show ?thesis
    using d by (simp add: ds_wf_def)
qed

lemma column_merge:
  "column (ds\<lparr>items := map (\<lambda>(k, it). if P it then (k, spread it (u it)) else (k, it)) (items ds)\<rparr>) p
     = map (\<lambda>(k, it). (k, if P it then get_prop (spread it (u it)) p else get_prop it p)) (items ds)"
  by (simp add: column_def comp_def case_prod_unfold)

text \<open>The reset at the start of \<open>highlightPath\<close>.\<close>

lemma jb_reset_nodes:
  assumes "ds_wf ds"
  shows "ds_wf (fold (\<lambda>node d. ds_update d
                      [(''id'', get_prop node ''id''), (''borderWidth'', JNum 2),
                       (''borderWidthSelected'', JNum 3)]) (ds_get ds) ds) \<and>
         column (fold (\<lambda>node d. ds_update d
                      [(''id'', get_prop node ''id''), (''borderWidth'', JNum 2),
                       (''borderWidthSelected'', JNum 3)]) (ds_get ds) ds) ''borderWidth''
           = map (\<lambda>(k, it). (k, JNum 2)) (items ds) \<and>
         column (fold (\<lambda>node d. ds_update d
                      [(''id'', get_prop node ''id''), (''borderWidth'', JNum 2),
                       (''borderWidthSelected'', JNum 3)]) (ds_get ds) ds) ''opacity''
           = column ds ''opacity''"
proof -
  let ?u = "\<lambda>node. [(''id'', get_prop node ''id''), (''borderWidth'', JNum 2),
                     (''borderWidthSelected'', JNum 3)]"
  let ?ds' = "fold (\<lambda>node d. ds_update d (?u node)) (ds_get ds) ds"
  have u: "\<And>it. get_prop (?u it) ''id'' = get_prop it ''id''"
    by (simp add: get_prop_def)
  have e: "?ds' = ds\<lparr>items := map (\<lambda>(k, it). if True then (k, spread it (?u it)) else (k, it)) (items ds)\<rparr>"
    unfolding forEach_update [OF assms(1), of ?u, OF u] by simp
  have 1: "ds_wf ?ds'"
    unfolding e by (rule ds_wf_merge [OF assms(1)]) (simp_all add: get_prop_def)
  have b: "\<And>it. get_prop (spread it (?u it)) ''borderWidth'' = JNum 2"
    by (subst get_prop_spread_here) (simp_all add: get_prop_def)
  have 2: "column ?ds' ''borderWidth'' = map (\<lambda>(k, it). (k, JNum 2)) (items ds)"
    unfolding e column_merge by (simp add: b)
  have o: "\<And>it. get_prop (spread it (?u it)) ''opacity'' = get_prop it ''opacity''"
    by (rule get_prop_spread_other) simp
  have 3: "column ?ds' ''opacity'' = column ds ''opacity''"
    unfolding e column_merge by (simp add: o column_def)
  show ?thesis using 1 2 3 by blast
qed

lemma jb_reset_edges:
  assumes "ds_wf ds"
  shows "ds_wf (fold (\<lambda>edge d. ds_update d
                      [(''id'', get_prop edge ''id''), (''width'', JNum 2),
                       (''color'', JObj [(''color'', JStr ''#848484''), (''highlight'', JStr ''#2B7CE9'')])])
                    (ds_get ds) ds) \<and>
         edge_ends (fold (\<lambda>edge d. ds_update d
                      [(''id'', get_prop edge ''id''), (''width'', JNum 2),
                       (''color'', JObj [(''color'', JStr ''#848484''), (''highlight'', JStr ''#2B7CE9'')])])
                    (ds_get ds) ds)
           = map (\<lambda>(k, e). (k, get_prop e ''from'', get_prop e ''to'', JNum 2)) (items ds) \<and>
         column (fold (\<lambda>edge d. ds_update d
                      [(''id'', get_prop edge ''id''), (''width'', JNum 2),
                       (''color'', JObj [(''color'', JStr ''#848484''), (''highlight'', JStr ''#2B7CE9'')])])
                    (ds_get ds) ds) ''opacity''
           = column ds ''opacity''"
proof -
  let ?u = "\<lambda>edge. [(''id'', get_prop edge ''id''), (''width'', JNum 2),
                     (''color'', JObj [(''color'', JStr ''#848484''), (''highlight'', JStr ''#2B7CE9'')])]"
  let ?ds' = "fold (\<lambda>edge d. ds_update d (?u edge)) (ds_get ds) ds"
  have u: "\<And>it. get_prop (?u it) ''id'' = get_prop it ''id''"
    by (simp add: get_prop_def)
  have e: "?ds' = ds\<lparr>items := map (\<lambda>(k, it). if True then (k, spread it (?u it)) else (k, it)) (items ds)\<rparr>"
    unfolding forEach_update [OF assms(1), of ?u, OF u] by simp
  have 1: "ds_wf ?ds'"
    unfolding e by (rule ds_wf_merge [OF assms(1)]) (simp_all add: get_prop_def)
  have w: "\<And>it. get_prop (spread it (?u it)) ''width'' = JNum 2"
    by (subst get_prop_spread_here) (simp_all add: get_prop_def)
  have f: "\<And>it. get_prop (spread it (?u it)) ''from'' = get_prop it ''from''"
    by (rule get_prop_spread_other) simp
  have t: "\<And>it. get_prop (spread it (?u it)) ''to'' = get_prop it ''to''"
    by (rule get_prop_spread_other) simp
  have 2: "edge_ends ?ds' = map (\<lambda>(k, e). (k, get_prop e ''from'', get_prop e ''to'', JNum 2)) (items ds)"
    unfolding e by (simp add: edge_ends_def comp_def case_prod_unfold w f t)
  have o: "\<And>it. get_prop (spread it (?u it)) ''opacity'' = get_prop it ''opacity''"
    by (rule get_prop_spread_other) simp
  have 3: "column ?ds' ''opacity'' = column ds ''opacity''"
    unfolding e column_merge by (simp add: o column_def)
  show ?thesis using 1 2 3 by blast
qed

text \<open>The loop over the node identifiers.\<close>

lemma ds_get1_truthy: "is_id x \<Longrightarrow> truthy (ds_get1 ds x) \<longleftrightarrow> ds_has ds x"
  by (auto simp: ds_get1_def ds_has_def is_id_def split: jsval.splits option.splits)

lemma jb_mark_node:
  assumes "ds_wf ds" and "is_id x"
  shows "ds_wf (if truthy (ds_get1 ds x)
                then ds_update ds [(''id'', x), (''borderWidth'', JNum 5), (''borderWidthSelected'', JNum 6)]
                else ds) \<and>
         column (if truthy (ds_get1 ds x)
                 then ds_update ds [(''id'', x), (''borderWidth'', JNum 5), (''borderWidthSelected'', JNum 6)]
                 else ds) p
           = map (\<lambda>(k, w). (k, if k = x \<and> p \<in> {''id'', ''borderWidth'', ''borderWidthSelected''}
                               then get_prop [(''id'', x), (''borderWidth'', JNum 5),
                                              (''borderWidthSelected'', JNum 6)] p
                               else w)) (column ds p)"
proof (cases "ds_has ds x")
  case False
  then have "\<forall>(k, w)\<in>set (column ds p). k \<noteq> x"
    by (force simp: ds_has_iff column_def)
  then have "map (\<lambda>(k, w). (k, if k = x \<and> p \<in> {''id'', ''borderWidth'', ''borderWidthSelected''}
                               then get_prop [(''id'', x), (''borderWidth'', JNum 5),
                                              (''borderWidthSelected'', JNum 6)] p
                               else w)) (column ds p) = column ds p"
    by (intro map_idI) auto
  then show ?thesis
    using False assms by (simp add: ds_get1_truthy)
next
  case True
  let ?pay = "[(''id'', x), (''borderWidth'', JNum 5), (''borderWidthSelected'', JNum 6)]"
  let ?P = "\<lambda>it. get_prop it ''id'' = x"
  have k: "\<And>k it. (k, it) \<in> set (items ds) \<Longrightarrow> get_prop it ''id'' = k"
    using assms(1) by (auto simp: ds_wf_def)
  have m: "map (\<lambda>(k', old). if k' = x then (k', spread old ?pay) else (k', old)) (items ds)
           = map (\<lambda>(k, it). if ?P it then (k, spread it ?pay) else (k, it)) (items ds)"
    using k by (intro map_cong) auto
  have e: "ds_update ds ?pay =
             ds\<lparr>items := map (\<lambda>(k, it). if ?P it then (k, spread it ?pay) else (k, it)) (items ds)\<rparr>"
    using True assms(2) m by (simp add: ds_update_def get_prop_def is_id_not_nullish Let_def)
  let ?u = "\<lambda>it. if ?P it then ?pay else [(''id'', get_prop it ''id'')]"
  have m2: "map (\<lambda>(k, it). if ?P it then (k, spread it ?pay) else (k, it)) (items ds)
            = map (\<lambda>(k, it). if ?P it then (k, spread it (?u it)) else (k, it)) (items ds)"
    by (intro map_cong) auto
  have w: "ds_wf (ds_update ds ?pay)"
    unfolding e m2 by (rule ds_wf_merge [OF assms(1)]) (simp_all add: get_prop_def)
  have sp: "\<And>it. get_prop (spread it ?pay) p =
                   (if p \<in> {''id'', ''borderWidth'', ''borderWidthSelected''}
                    then get_prop ?pay p else get_prop it p)"
  proof -
    fix it
    show "get_prop (spread it ?pay) p =
            (if p \<in> {''id'', ''borderWidth'', ''borderWidthSelected''}
             then get_prop ?pay p else get_prop it p)"
    proof (cases "p \<in> fst ` set ?pay")
      case True
      then show ?thesis by (subst get_prop_spread_here) simp_all
    next
      case False
      then show ?thesis by (subst get_prop_spread_other) simp_all
    qed
  qed
  have mid: "map (\<lambda>(k, it). (k, if ?P it then get_prop (spread it ?pay) p else get_prop it p)) (items ds)
        = map (\<lambda>(k, it). (k, if k = x \<and> p \<in> {''id'', ''borderWidth'', ''borderWidthSelected''}
                               then get_prop ?pay p else get_prop it p)) (items ds)"
  proof (intro map_cong refl)
    fix z assume z: "z \<in> set (items ds)"
    obtain k it where zz: "z = (k, it)" by (cases z)
    have "get_prop it ''id'' = k" using k z zz by simp
    moreover have "k = x \<Longrightarrow> get_prop it p = get_prop ?pay p" if "p = ''id''"
      using that calculation by (simp add: get_prop_def)
    ultimately show "(case z of (k, it) \<Rightarrow>
                       (k, if ?P it then get_prop (spread it ?pay) p else get_prop it p)) =
                     (case z of (k, it) \<Rightarrow>
                       (k, if k = x \<and> p \<in> {''id'', ''borderWidth'', ''borderWidthSelected''}
                           then get_prop ?pay p else get_prop it p))"
      unfolding zz sp by simp
  qed
  have "column (ds_update ds ?pay) p =
          map (\<lambda>(k, it). (k, if ?P it then get_prop (spread it ?pay) p else get_prop it p)) (items ds)"
    unfolding e by (rule column_merge)
  also note mid
  also have "map (\<lambda>(k, it). (k, if k = x \<and> p \<in> {''id'', ''borderWidth'', ''borderWidthSelected''}
                               then get_prop ?pay p else get_prop it p)) (items ds)
             = map (\<lambda>(k, w). (k, if k = x \<and> p \<in> {''id'', ''borderWidth'', ''borderWidthSelected''}
                               then get_prop ?pay p else w)) (column ds p)"
    unfolding column_def by (auto simp: comp_def case_prod_unfold)
  finally have c: "column (ds_update ds ?pay) p =
             map (\<lambda>(k, w). (k, if k = x \<and> p \<in> {''id'', ''borderWidth'', ''borderWidthSelected''}
                               then get_prop ?pay p else w)) (column ds p)" .
  show ?thesis
    using True assms(2) w c by (simp add: ds_get1_truthy)
qed

lemma jb_mark_nodes:
  assumes "ds_wf ds" and "\<forall>x\<in>set S. is_id x"
  shows "ds_wf (fold (\<lambda>nodeId ds.
                  if truthy (ds_get1 ds nodeId)
                  then ds_update ds [(''id'', nodeId), (''borderWidth'', JNum 5),
                                     (''borderWidthSelected'', JNum 6)]
                  else ds) S ds) \<and>
         column (fold (\<lambda>nodeId ds.
                  if truthy (ds_get1 ds nodeId)
                  then ds_update ds [(''id'', nodeId), (''borderWidth'', JNum 5),
                                     (''borderWidthSelected'', JNum 6)]
                  else ds) S ds) ''borderWidth''
           = map (\<lambda>(k, w). (k, if k \<in> set S then JNum 5 else w)) (column ds ''borderWidth'') \<and>
         column (fold (\<lambda>nodeId ds.
                  if truthy (ds_get1 ds nodeId)
                  then ds_update ds [(''id'', nodeId), (''borderWidth'', JNum 5),
                                     (''borderWidthSelected'', JNum 6)]
                  else ds) S ds) ''opacity''
           = column ds ''opacity''"
  using assms
proof (induction S arbitrary: ds)
  case Nil
  then show ?case by (simp add: case_prod_unfold)
next
  case (Cons x S)
  let ?step = "\<lambda>nodeId ds.
                  if truthy (ds_get1 ds nodeId)
                  then ds_update ds [(''id'', nodeId), (''borderWidth'', JNum 5),
                                     (''borderWidthSelected'', JNum 6)]
                  else ds"
  have x: "is_id x" and S: "\<forall>x\<in>set S. is_id x"
    using Cons.prems(2) by simp_all
  note one = jb_mark_node [OF Cons.prems(1) x]
  have w: "ds_wf (?step x ds)"
    using one [of "''id''"] by blast
  have g: "get_prop [(''id'', x), (''borderWidth'', JNum 5), (''borderWidthSelected'', JNum 6)]
             ''borderWidth'' = JNum 5"
    by (simp add: get_prop_def)
  have b: "column (?step x ds) ''borderWidth'' =
             map (\<lambda>(k, w). (k, if k = x then JNum 5 else w)) (column ds ''borderWidth'')"
    using one [of "''borderWidth''"] unfolding g by simp
  have o: "column (?step x ds) ''opacity'' = column ds ''opacity''"
    using one [of "''opacity''"] by (simp add: case_prod_unfold)
  note ih = Cons.IH [OF w S]
  have "map (\<lambda>(k, w). (k, if k \<in> set S then JNum 5 else w))
          (map (\<lambda>(k, w). (k, if k = x then JNum 5 else w)) (column ds ''borderWidth''))
        = map (\<lambda>(k, w). (k, if k \<in> set (x # S) then JNum 5 else w)) (column ds ''borderWidth'')"
    by (auto simp: comp_def case_prod_unfold)
  then show ?case
    using ih b o by simp
qed

lemma jb_mark_edges_step:
  assumes "ds_wf ds"
  shows "ds_wf (fold (\<lambda>edge d. ds_update d
                  [(''id'', get_prop edge ''id''), (''width'', JNum 4),
                   (''color'', JObj [(''color'', JStr ''#FF5722''), (''highlight'', JStr ''#FF5722'')])])
                (filter (\<lambda>edge. strict_eq (get_prop edge ''from'') a \<and>
                                 strict_eq (get_prop edge ''to'') b) (ds_get ds)) ds) \<and>
         edge_ends (fold (\<lambda>edge d. ds_update d
                  [(''id'', get_prop edge ''id''), (''width'', JNum 4),
                   (''color'', JObj [(''color'', JStr ''#FF5722''), (''highlight'', JStr ''#FF5722'')])])
                (filter (\<lambda>edge. strict_eq (get_prop edge ''from'') a \<and>
                                 strict_eq (get_prop edge ''to'') b) (ds_get ds)) ds)
           = map (\<lambda>(k, f, t, w). (k, f, t, if strict_eq f a \<and> strict_eq t b then JNum 4 else w))
               (edge_ends ds) \<and>
         column (fold (\<lambda>edge d. ds_update d
                  [(''id'', get_prop edge ''id''), (''width'', JNum 4),
                   (''color'', JObj [(''color'', JStr ''#FF5722''), (''highlight'', JStr ''#FF5722'')])])
                (filter (\<lambda>edge. strict_eq (get_prop edge ''from'') a \<and>
                                 strict_eq (get_prop edge ''to'') b) (ds_get ds)) ds) ''opacity''
           = column ds ''opacity''"
proof -
  let ?u = "\<lambda>edge. [(''id'', get_prop edge ''id''), (''width'', JNum 4),
                     (''color'', JObj [(''color'', JStr ''#FF5722''), (''highlight'', JStr ''#FF5722'')])]"
  let ?P = "\<lambda>edge. strict_eq (get_prop edge ''from'') a \<and> strict_eq (get_prop edge ''to'') b"
  let ?ds' = "fold (\<lambda>edge d. ds_update d (?u edge)) (filter ?P (ds_get ds)) ds"
  have u: "\<And>it. get_prop (?u it) ''id'' = get_prop it ''id''"
    by (simp add: get_prop_def)
  have e: "?ds' = ds\<lparr>items := map (\<lambda>(k, it). if ?P it then (k, spread it (?u it)) else (k, it)) (items ds)\<rparr>"
    by (rule forEach_filter_update [OF assms, of ?u, OF u])
  have 1: "ds_wf ?ds'"
    unfolding e by (rule ds_wf_merge [OF assms(1)]) (simp_all add: get_prop_def)
  have w: "\<And>it. get_prop (spread it (?u it)) ''width'' = JNum 4"
    by (subst get_prop_spread_here) (simp_all add: get_prop_def)
  have f: "\<And>it. get_prop (spread it (?u it)) ''from'' = get_prop it ''from''"
    by (rule get_prop_spread_other) simp
  have t: "\<And>it. get_prop (spread it (?u it)) ''to'' = get_prop it ''to''"
    by (rule get_prop_spread_other) simp
  have 2: "edge_ends ?ds' = map (\<lambda>(k, f, t, w). (k, f, t, if strict_eq f a \<and> strict_eq t b then JNum 4 else w))
               (edge_ends ds)"
    unfolding e by (auto simp: edge_ends_def comp_def case_prod_unfold w f t)
  have o: "\<And>it. get_prop (spread it (?u it)) ''opacity'' = get_prop it ''opacity''"
    by (rule get_prop_spread_other) simp
  have 3: "column ?ds' ''opacity'' = column ds ''opacity''"
    unfolding e column_merge by (auto simp: o column_def)
  show ?thesis using 1 2 3 by blast
qed

lemma jb_mark_edges:
  assumes "ds_wf ds"
  shows "edge_ends (fold (\<lambda>(a, b) ds.
            fold (\<lambda>edge d. ds_update d
                  [(''id'', get_prop edge ''id''), (''width'', JNum 4),
                   (''color'', JObj [(''color'', JStr ''#FF5722''), (''highlight'', JStr ''#FF5722'')])])
                (filter (\<lambda>edge. strict_eq (get_prop edge ''from'') a \<and>
                                 strict_eq (get_prop edge ''to'') b) (ds_get ds)) ds) pairs ds)
           = map (\<lambda>(k, f, t, w).
                    (k, f, t, if \<exists>(a, b)\<in>set pairs. strict_eq f a \<and> strict_eq t b then JNum 4 else w))
               (edge_ends ds) \<and>
         column (fold (\<lambda>(a, b) ds.
            fold (\<lambda>edge d. ds_update d
                  [(''id'', get_prop edge ''id''), (''width'', JNum 4),
                   (''color'', JObj [(''color'', JStr ''#FF5722''), (''highlight'', JStr ''#FF5722'')])])
                (filter (\<lambda>edge. strict_eq (get_prop edge ''from'') a \<and>
                                 strict_eq (get_prop edge ''to'') b) (ds_get ds)) ds) pairs ds) ''opacity''
           = column ds ''opacity''"
  using assms
proof (induction pairs arbitrary: ds)
  case Nil
  then show ?case by (simp add: case_prod_unfold)
next
  case (Cons pr pairs)
  obtain a b where pr: "pr = (a, b)" by (cases pr)
  note one = jb_mark_edges_step [OF Cons.prems, of a b]
  note ih = Cons.IH [OF one [THEN conjunct1]]
  have "map (\<lambda>(k, f, t, w).
               (k, f, t, if \<exists>(a, b)\<in>set pairs. strict_eq f a \<and> strict_eq t b then JNum 4 else w))
          (map (\<lambda>(k, f, t, w). (k, f, t, if strict_eq f a \<and> strict_eq t b then JNum 4 else w))
             (edge_ends ds))
        = map (\<lambda>(k, f, t, w).
               (k, f, t, if \<exists>(a, b)\<in>set (pr # pairs). strict_eq f a \<and> strict_eq t b then JNum 4 else w))
            (edge_ends ds)"
    by (auto simp: comp_def case_prod_unfold pr)
  then show ?case
    using ih one by (simp add: pr)
qed

lemma jb_highlightPath_marks:
  assumes "networks j containerId = Some net"
    and "ds_wf (data_nodes net)" and "ds_wf (data_edges net)" and "\<forall>x\<in>set S. is_id x"
  shows "fst (jb_highlightPath j containerId S) = Inr True \<and>
         map_option border_widths
           (map_option data_nodes (networks (snd (jb_highlightPath j containerId S)) containerId))
           = Some (map (\<lambda>(k, it). (k, if k \<in> set S then JNum 5 else JNum 2)) (items (data_nodes net))) \<and>
         map_option edge_ends
           (map_option data_edges (networks (snd (jb_highlightPath j containerId S)) containerId))
           = Some (map (\<lambda>(k, e). (k, get_prop e ''from'', get_prop e ''to'',
                                     if \<exists>(a, b)\<in>set (consecutive S).
                                          strict_eq (get_prop e ''from'') a \<and> strict_eq (get_prop e ''to'') b
                                     then JNum 4 else JNum 2))
                     (items (data_edges net))) \<and>
         map_option opacities
           (map_option data_nodes (networks (snd (jb_highlightPath j containerId S)) containerId))
           = Some (opacities (data_nodes net)) \<and>
         map_option opacities
           (map_option data_edges (networks (snd (jb_highlightPath j containerId S)) containerId))
           = Some (opacities (data_edges net))"
proof -
  note rn = jb_reset_nodes [OF assms(2)]
  note re = jb_reset_edges [OF assms(3)]
  note mn = jb_mark_nodes [OF rn [THEN conjunct1] assms(4)]
  note me = jb_mark_edges [OF re [THEN conjunct1], of "consecutive S"]
  have n: "map (\<lambda>(k, w). (k, if k \<in> set S then JNum 5 else w))
             (map (\<lambda>(k, it). (k, JNum 2)) (items (data_nodes net)))
           = map (\<lambda>(k, it). (k, if k \<in> set S then JNum 5 else JNum 2)) (items (data_nodes net))"
    by (simp add: comp_def case_prod_unfold)
  have e: "map (\<lambda>(k, f, t, w).
                  (k, f, t, if \<exists>(a, b)\<in>set (consecutive S). strict_eq f a \<and> strict_eq t b then JNum 4 else w))
             (map (\<lambda>(k, e). (k, get_prop e ''from'', get_prop e ''to'', JNum 2)) (items (data_edges net)))
           = map (\<lambda>(k, e). (k, get_prop e ''from'', get_prop e ''to'',
                                     if \<exists>(a, b)\<in>set (consecutive S).
                                          strict_eq (get_prop e ''from'') a \<and> strict_eq (get_prop e ''to'') b
                                     then JNum 4 else JNum 2))
                     (items (data_edges net))"
    by (simp add: comp_def case_prod_unfold)
  show ?thesis
    using assms(1) rn re mn me n e
    by (simp add: jb_highlightPath_def jb_reset_all_def nodes_changed_def Let_def
          border_widths_def opacities_def)
qed

lemma highlighted_of_opacities:
  assumes "opacities ds' = map (\<lambda>(k, it). (k, if P k then JNum 1 else JNum (3 / 10))) xs"
  shows "highlighted ds' = filter P (map fst xs)"
  unfolding highlighted_def assms by (induction xs) (auto split: if_splits)

lemma cng_highlightPath_emphasis:
  assumes "instances c containerId = Some inst"
    and "ds_wf (data_nodes inst)" and "ds_wf (data_edges inst)"
  shows "fst (cng_highlightPath c containerId S) = True \<and>
         map_option opacities
           (map_option data_nodes (instances (snd (cng_highlightPath c containerId S)) containerId))
           = Some (map (\<lambda>(k, it). (k, if k \<in> set S then JNum 1 else JNum (3 / 10)))
                     (items (data_nodes inst))) \<and>
         map_option highlighted
           (map_option data_nodes (instances (snd (cng_highlightPath c containerId S)) containerId))
           = Some (filter (\<lambda>k. k \<in> set S) (map fst (items (data_nodes inst)))) \<and>
         map_option opacities
           (map_option data_edges (instances (snd (cng_highlightPath c containerId S)) containerId))
           = Some (map (\<lambda>(k, e). (k, if js_includes S (get_prop e ''from'') \<and>
                                         js_includes S (get_prop e ''to'')
                                      then JNum 1 else JNum (3 / 10)))
                     (items (data_edges inst)))"
proof -
  note t = cng_highlightPath_opacities [OF assms, of S]
  obtain inst' where i: "instances (snd (cng_highlightPath c containerId S)) containerId = Some inst'"
    using t by auto
  have "map (\<lambda>(k, it). (k, if js_includes S k then JNum 1 else JNum (3 / 10))) (items (data_nodes inst))
        = map (\<lambda>(k, it). (k, if k \<in> set S then JNum 1 else JNum (3 / 10))) (items (data_nodes inst))"
    using ds_wf_key [OF assms(2)] by (intro map_cong refl) (auto simp: js_includes_id)
  then have o: "opacities (data_nodes inst') =
             map (\<lambda>(k, it). (k, if k \<in> set S then JNum 1 else JNum (3 / 10))) (items (data_nodes inst))"
    using t i by simp
  show ?thesis
    using t i o highlighted_of_opacities [OF o] by simp
qed

text \<open>
  Claim C6 fails as stated for the journey builder. In the three-step journey,
  \<open>highlightPath\<close> with the identifiers 2 and 1 leaves the edge from 1 to 2 at the
  normal width although both of its endpoints are in the list, and gives no node or
  edge a reduced opacity.
\<close>

theorem highlightPath_edge_between_listed_nodes_not_emphasized:
  "js_includes [JNum 2, JNum 1] (JNum 1) \<and> js_includes [JNum 2, JNum 1] (JNum 2) \<and>
   map_option edge_ends
     (map_option data_edges
        (networks (snd (jb_highlightPath journey_example ''graph'' [JNum 2, JNum 1])) ''graph''))
     = Some [(JStr ''e1'', JNum 1, JNum 2, JNum 2), (JStr ''e2'', JNum 2, JNum 3, JNum 2)] \<and>
   map_option opacities
     (map_option data_nodes
        (networks (snd (jb_highlightPath journey_example ''graph'' [JNum 2, JNum 1])) ''graph''))
     = Some [(JNum 1, JUndefined), (JNum 2, JUndefined), (JNum 3, JUndefined)]"
  by (simp add: jb_highlightPath_def jb_reset_all_def journey_example_def journey_network_def
        nodes_changed_def consecutive_def ds_get_def ds_get1_def ds_update_def ds_has_def
        not_nullish_def get_prop_def spread_def edge_ends_def opacities_def column_def
        js_includes_def Let_def)

text \<open>
  Claim C6, amended. In \<open>theme.js\<close>, \<open>highlightPath(id, S)\<close> returns \<open>true\<close>, keeps
  every node and edge, and sets every opacity anew: a node gets full opacity when its
  identifier is in \<open>S\<close> and the reduced opacity 0.3 otherwise, so the nodes at full
  opacity are exactly the node keys that occur in \<open>S\<close>, whatever was highlighted
  before; an edge gets full opacity when both its endpoints are in \<open>S\<close> and 0.3
  otherwise. In the journey builder, \<open>highlightPath(id, S)\<close> (for identifiers \<open>S\<close>)
  returns \<open>true\<close>, keeps every node and edge and leaves the opacities alone; it sets
  the border width of a node to 5 when its identifier is in \<open>S\<close> and to the normal 2
  otherwise, and the width of an edge to 4 when the edge leads from an element of \<open>S\<close>
  to the element that follows it in \<open>S\<close>, and to the normal 2 otherwise.
\<close>

theorem highlightPath_emphasis:
  "(\<forall>inst. instances c containerId = Some inst \<and>
           ds_wf (data_nodes inst) \<and> ds_wf (data_edges inst) \<longrightarrow>
      fst (cng_highlightPath c containerId S) = True \<and>
      map_option opacities
        (map_option data_nodes (instances (snd (cng_highlightPath c containerId S)) containerId))
        = Some (map (\<lambda>(k, it). (k, if k \<in> set S then JNum 1 else JNum (3 / 10)))
                  (items (data_nodes inst))) \<and>
      map_option highlighted
        (map_option data_nodes (instances (snd (cng_highlightPath c containerId S)) containerId))
        = Some (filter (\<lambda>k. k \<in> set S) (map fst (items (data_nodes inst)))) \<and>
      map_option opacities
        (map_option data_edges (instances (snd (cng_highlightPath c containerId S)) containerId))
        = Some (map (\<lambda>(k, e). (k, if js_includes S (get_prop e ''from'') \<and>
                                      js_includes S (get_prop e ''to'')
                                   then JNum 1 else JNum (3 / 10)))
                  (items (data_edges inst)))) \<and>
   (\<forall>net. networks j containerId = Some net \<and>
          ds_wf (data_nodes net) \<and> ds_wf (data_edges net) \<and> (\<forall>x\<in>set S. is_id x) \<longrightarrow>
      fst (jb_highlightPath j containerId S) = Inr True \<and>
      map_option border_widths
        (map_option data_nodes (networks (snd (jb_highlightPath j containerId S)) containerId))
        = Some (map (\<lambda>(k, it). (k, if k \<in> set S then JNum 5 else JNum 2)) (items (data_nodes net))) \<and>
      map_option edge_ends
        (map_option data_edges (networks (snd (jb_highlightPath j containerId S)) containerId))
        = Some (map (\<lambda>(k, e). (k, get_prop e ''from'', get_prop e ''to'',
                                  if \<exists>(a, b)\<in>set (consecutive S).
                                       strict_eq (get_prop e ''from'') a \<and> strict_eq (get_prop e ''to'') b
                                  then JNum 4 else JNum 2))
                  (items (data_edges net))) \<and>
      map_option opacities
        (map_option data_nodes (networks (snd (jb_highlightPath j containerId S)) containerId))
        = Some (opacities (data_nodes net)) \<and>
      map_option opacities
        (map_option data_edges (networks (snd (jb_highlightPath j containerId S)) containerId))
        = Some (opacities (data_edges net)))"
proof (intro conjI allI impI)
  fix inst :: network
  assume "instances c containerId = Some inst \<and> ds_wf (data_nodes inst) \<and> ds_wf (data_edges inst)"
  then have a: "instances c containerId = Some inst" "ds_wf (data_nodes inst)" "ds_wf (data_edges inst)"
    by simp_all
  note t = cng_highlightPath_emphasis [OF a, of S]
  show "fst (cng_highlightPath c containerId S) = True"
    using t by (rule conjunct1)
  show "map_option opacities
        (map_option data_nodes (instances (snd (cng_highlightPath c containerId S)) containerId))
        = Some (map (\<lambda>(k, it). (k, if k \<in> set S then JNum 1 else JNum (3 / 10)))
                  (items (data_nodes inst)))"
    using t by (elim conjE)
  show "map_option highlighted
        (map_option data_nodes (instances (snd (cng_highlightPath c containerId S)) containerId))
        = Some (filter (\<lambda>k. k \<in> set S) (map fst (items (data_nodes inst))))"
    using t by (elim conjE)
  show "map_option opacities
        (map_option data_edges (instances (snd (cng_highlightPath c containerId S)) containerId))
        = Some (map (\<lambda>(k, e). (k, if js_includes S (get_prop e ''from'') \<and>
                                      js_includes S (get_prop e ''to'')
                                   then JNum 1 else JNum (3 / 10)))
                  (items (data_edges inst)))"
    using t by (elim conjE)
next
  fix net :: network
  assume "networks j containerId = Some net \<and>
          ds_wf (data_nodes net) \<and> ds_wf (data_edges net) \<and> (\<forall>x\<in>set S. is_id x)"
  then have a: "networks j containerId = Some net" "ds_wf (data_nodes net)" "ds_wf (data_edges net)"
      "\<forall>x\<in>set S. is_id x"
    by simp_all
  note t = jb_highlightPath_marks [OF a]
  show "fst (jb_highlightPath j containerId S) = Inr True"
    using t by (rule conjunct1)
  show "map_option border_widths
        (map_option data_nodes (networks (snd (jb_highlightPath j containerId S)) containerId))
        = Some (map (\<lambda>(k, it). (k, if k \<in> set S then JNum 5 else JNum 2)) (items (data_nodes net)))"
    using t by (elim conjE)
  show "map_option edge_ends
        (map_option data_edges (networks (snd (jb_highlightPath j containerId S)) containerId))
        = Some (map (\<lambda>(k, e). (k, get_prop e ''from'', get_prop e ''to'',
                                  if \<exists>(a, b)\<in>set (consecutive S).
                                       strict_eq (get_prop e ''from'') a \<and> strict_eq (get_prop e ''to'') b
                                  then JNum 4 else JNum 2))
                  (items (data_edges net)))"
    using t by (elim conjE)
  show "map_option opacities
        (map_option data_nodes (networks (snd (jb_highlightPath j containerId S)) containerId))
        = Some (opacities (data_nodes net))"
    using t by (elim conjE)
  show "map_option opacities
        (map_option data_edges (networks (snd (jb_highlightPath j containerId S)) containerId))
        = Some (opacities (data_edges net))"
    using t by (elim conjE)
qed

theorem highlightPath_emphasis_witness:
  "instances cng_example ''graph'' = Some journey_network \<and>
   ds_wf (data_nodes journey_network) \<and> ds_wf (data_edges journey_network) \<and>
   is_id (JNum 1) \<and> is_id (JNum 2) \<and>
   map_option opacities
     (map_option data_nodes
        (instances (snd (cng_highlightPath cng_example ''graph'' [JNum 1, JNum 2])) ''graph''))
     = Some [(JNum 1, JNum 1), (JNum 2, JNum 1), (JNum 3, JNum (3 / 10))] \<and>
   map_option highlighted
     (map_option data_nodes
        (instances (snd (cng_highlightPath cng_example ''graph'' [JNum 1, JNum 2])) ''graph''))
     = Some [JNum 1, JNum 2] \<and>
   map_option opacities
     (map_option data_edges
        (instances (snd (cng_highlightPath cng_example ''graph'' [JNum 1, JNum 2])) ''graph''))
     = Some [(JStr ''e1'', JNum 1), (JStr ''e2'', JNum (3 / 10))] \<and>
   networks journey_example ''graph'' = Some journey_network \<and>
   map_option border_widths
     (map_option data_nodes
        (networks (snd (jb_highlightPath journey_example ''graph'' [JNum 1, JNum 2])) ''graph''))
     = Some [(JNum 1, JNum 5), (JNum 2, JNum 5), (JNum 3, JNum 2)] \<and>
   map_option edge_ends
     (map_option data_edges
        (networks (snd (jb_highlightPath journey_example ''graph'' [JNum 1, JNum 2])) ''graph''))
     = Some [(JStr ''e1'', JNum 1, JNum 2, JNum 4), (JStr ''e2'', JNum 2, JNum 3, JNum 2)]"
proof -
  have a: "instances cng_example ''graph'' = Some journey_network"
    by (simp add: cng_example_def)
  have b: "networks journey_example ''graph'' = Some journey_network"
    by (simp add: journey_example_def)
  have i: "is_id (JNum 1)" "is_id (JNum 2)"
    by (simp_all add: is_id_def)
  have s: "\<forall>x\<in>set [JNum 1, JNum 2]. is_id x"
    using i by simp
  note t = highlightPath_emphasis [of cng_example "''graph''" "[JNum 1, JNum 2]" journey_example]
  note c = t [THEN conjunct1, rule_format, OF conjI [OF a conjI [OF journey_nodes_wf journey_edges_wf]]]
  note d = t [THEN conjunct2, rule_format,
              OF conjI [OF b conjI [OF journey_nodes_wf conjI [OF journey_edges_wf s]]]]
  have v: "items (data_nodes journey_network) =
             [(JNum 1, [(''id'', JNum 1), (''type'', JStr ''Start''), (''label'', JStr ''Begin'')]),
              (JNum 2, [(''id'', JNum 2), (''type'', JStr ''SendEmail''), (''label'', JStr ''Mail'')]),
              (JNum 3, [(''id'', JNum 3), (''type'', JStr ''End''), (''label'', JStr ''Done'')])]"
    "items (data_edges journey_network) =
             [(JStr ''e1'', [(''id'', JStr ''e1''), (''from'', JNum 1), (''to'', JNum 2)]),
              (JStr ''e2'', [(''id'', JStr ''e2''), (''from'', JNum 2), (''to'', JNum 3)])]"
    by (simp_all add: journey_network_def)
  show ?thesis
    using a b i c d journey_nodes_wf journey_edges_wf
    unfolding v
    by (simp add: get_prop_def js_includes_def consecutive_def)
qed

subsection \<open>The hand-rolled renderer\<close>

lemma endpoints_follow_refl: "endpoints_follow h h nodes"
  by (simp add: endpoints_follow_def)

lemma endpoints_follow_trans:
  assumes "endpoints_follow h0 h1 nodes" and "endpoints_follow h1 h2 nodes"
  shows "endpoints_follow h0 h2 nodes"
  unfolding endpoints_follow_def
proof (intro conjI allI ballI)
  fix a show "get_prop (h2 a) ''id'' = get_prop (h0 a) ''id''"
    using assms by (simp add: endpoints_follow_def)
next
  fix l k assume k: "k \<in> {''source'', ''target''}"
  have 1: "get_prop (h1 l) k = get_prop (h0 l) k \<or>
        (\<not> is_object (get_prop (h0 l) k) \<and> (\<exists>a\<in>set nodes. get_prop (h1 l) k = JRef a))"
    using assms(1) k unfolding endpoints_follow_def by blast
  have 2: "get_prop (h2 l) k = get_prop (h1 l) k \<or>
        (\<not> is_object (get_prop (h1 l) k) \<and> (\<exists>a\<in>set nodes. get_prop (h2 l) k = JRef a))"
    using assms(2) k unfolding endpoints_follow_def by blast
  show "get_prop (h2 l) k = get_prop (h0 l) k \<or>
        (\<not> is_object (get_prop (h0 l) k) \<and> (\<exists>a\<in>set nodes. get_prop (h2 l) k = JRef a))"
    using 1 2 by (auto simp: is_object_def)
qed

lemma nodeById_Some:
  assumes "nodeById h nodes v = Some a"
  shows "a \<in> set nodes \<and> strict_eq (get_prop (h a) ''id'') v"
proof -
  obtain as where "filter (\<lambda>a. strict_eq (get_prop (h a) ''id'') v) (rev nodes) = a # as"
    using assms by (auto simp: nodeById_def split: list.splits)
  then have "a \<in> set (filter (\<lambda>a. strict_eq (get_prop (h a) ''id'') v) (rev nodes))"
    by simp
  then show ?thesis by simp
qed

lemma resolve_end_follow:
  assumes "resolve_end h nodes l k = Inr h'" and "k \<in> {''source'', ''target''}"
  shows "endpoints_follow h h' nodes \<and> is_object (get_prop (h' l) k)"
proof (cases "is_object (get_prop (h l) k)")
  case True
  then show ?thesis
    using assms by (simp add: resolve_end_def endpoints_follow_refl)
next
  case False
  then obtain a where a: "nodeById h nodes (get_prop (h l) k) = Some a"
      and h': "h' = h(l := AList.update k (JRef a) (h l))"
    using assms(1) by (auto simp: resolve_end_def Let_def split: option.splits)
  have m: "a \<in> set nodes" using nodeById_Some [OF a] by simp
  have "endpoints_follow h h' nodes"
    unfolding endpoints_follow_def h'
    using False m assms(2) by (auto simp: get_prop_update)
  moreover have "is_object (get_prop (h' l) k)"
    by (simp add: h' get_prop_update is_object_def)
  ultimately show ?thesis by simp
qed

lemma follow_keeps_object:
  assumes "endpoints_follow h h' nodes" and "is_object (get_prop (h l) k)"
    and "k \<in> {''source'', ''target''}"
  shows "is_object (get_prop (h' l) k)"
  using assms unfolding endpoints_follow_def by (metis)

lemma resolve_links_follow:
  assumes "resolve_links h nodes ls = Inr h'"
  shows "endpoints_follow h h' nodes \<and>
         (\<forall>l\<in>set ls. is_object (get_prop (h' l) ''source'') \<and> is_object (get_prop (h' l) ''target''))"
  using assms
proof (induction ls arbitrary: h)
  case Nil
  then show ?case by (simp add: endpoints_follow_refl)
next
  case (Cons l ls)
  from Cons.prems obtain h1 h2 where
    1: "resolve_end h nodes l ''source'' = Inr h1" and
    2: "resolve_end h1 nodes l ''target'' = Inr h2" and
    3: "resolve_links h2 nodes ls = Inr h'"
    by (auto split: sum.splits if_splits)
  note f1 = resolve_end_follow [OF 1]
  note f2 = resolve_end_follow [OF 2]
  note ih = Cons.IH [OF 3]
  have s1: "endpoints_follow h h1 nodes" "is_object (get_prop (h1 l) ''source'')"
    using f1 by simp_all
  have s2: "endpoints_follow h1 h2 nodes" "is_object (get_prop (h2 l) ''target'')"
    using f2 by simp_all
  have s3: "endpoints_follow h2 h' nodes" using ih by simp
  have src2: "is_object (get_prop (h2 l) ''source'')"
    using follow_keeps_object [OF s2(1) s1(2)] by simp
  have "is_object (get_prop (h' l) ''source'')" "is_object (get_prop (h' l) ''target'')"
    using follow_keeps_object [OF s3 src2] follow_keeps_object [OF s3 s2(2)] by simp_all
  moreover have "endpoints_follow h h' nodes"
    using endpoints_follow_trans [OF endpoints_follow_trans [OF s1(1) s2(1)] s3] .
  ultimately show ?case using ih by simp
qed

lemma member_id_follow:
  assumes "\<forall>a. get_prop (h' a) ''id'' = get_prop (h a) ''id''"
  shows "member h' v ''id'' = member h v ''id''"
  using assms by (simp add: member_def split: jsval.splits)

lemma filter_links_kept:
  assumes "filter_links h nodeId ls = Inr ls'" and "l \<in> set ls'"
  shows "\<exists>i j. member h (get_prop (h l) ''source'') ''id'' = Inr i \<and> \<not> strict_eq i nodeId \<and>
               member h (get_prop (h l) ''target'') ''id'' = Inr j \<and> \<not> strict_eq j nodeId"
  using assms
proof (induction ls arbitrary: ls')
  case Nil
  then show ?case by simp
next
  case (Cons x ls)
  then show ?case
    by (auto split: sum.splits if_splits)
qed

text \<open>
  When \<open>removeNode\<close> of the hand-rolled renderer returns \<open>true\<close>, no node of the instance
  has the removed identifier, and every stored link has a source and a target whose
  identifier can be read and is not the removed one.
\<close>

lemma d3_removeNode_cascades:
  assumes "graphInstances s containerId = Some inst"
    and "d3_removeNode s containerId nodeId = (Inr True, s')"
  shows "\<exists>inst'. graphInstances s' containerId = Some inst' \<and>
           (\<forall>n\<in>set (d3_nodes inst'). \<not> strict_eq (get_prop (heap s' n) ''id'') nodeId) \<and>
           (\<forall>l\<in>set (d3_links inst'). \<forall>k\<in>{''source'', ''target''}.
              \<exists>i. member (heap s') (get_prop (heap s' l) k) ''id'' = Inr i \<and> \<not> strict_eq i nodeId)"
proof -
  let ?nodes = "filter (\<lambda>n. \<not> strict_eq (get_prop (heap s n) ''id'') nodeId) (d3_nodes inst)"
  obtain links where fl: "filter_links (heap s) nodeId (d3_links inst) = Inr links"
    using assms by (auto simp: d3_removeNode_def Let_def split: sum.splits)
  let ?inst1 = "inst\<lparr>d3_nodes := ?nodes, d3_links := links\<rparr>"
  let ?s1 = "s\<lparr>graphInstances := (graphInstances s)(containerId \<mapsto> ?inst1)\<rparr>"
  have rr: "render_and_return ?s1 containerId = (Inr True, s')"
    using assms fl by (simp add: d3_removeNode_def Let_def)
  then have rg: "renderGraph ?s1 containerId = (None, s')"
    by (auto simp: render_and_return_def split: prod.splits option.splits)
  obtain h1 h2 inst' where
    p1: "resolve_links (heap s) ?nodes (force_links inst) = Inr h1" and
    p2: "resolve_links h1 ?nodes links = Inr h2" and
    hs: "heap s' = h2" and
    gi: "graphInstances s' containerId = Some inst'" and
    gn: "d3_nodes inst' = ?nodes" and gl: "d3_links inst' = links"
    using rg by (auto simp: renderGraph_def Let_def split: sum.splits prod.splits)
  note f1 = resolve_links_follow [OF p1]
  note f2 = resolve_links_follow [OF p2]
  have fo: "endpoints_follow (heap s) h2 ?nodes"
    using endpoints_follow_trans f1 f2 by blast
  then have ids: "\<forall>a. get_prop (h2 a) ''id'' = get_prop (heap s a) ''id''"
    by (simp add: endpoints_follow_def)
  have nodes: "\<forall>n\<in>set ?nodes. \<not> strict_eq (get_prop (h2 n) ''id'') nodeId"
    using ids by simp
  have links: "\<exists>i. member h2 (get_prop (h2 l) k) ''id'' = Inr i \<and> \<not> strict_eq i nodeId"
    if l: "l \<in> set links" and k: "k \<in> {''source'', ''target''}" for l k
  proof -
    have ob: "is_object (get_prop (h2 l) k)"
      using f2 l k by auto
    have c: "get_prop (h2 l) k = get_prop (heap s l) k \<or>
             (\<exists>a\<in>set ?nodes. get_prop (h2 l) k = JRef a)"
      using fo k unfolding endpoints_follow_def by blast
    show ?thesis
    proof (cases "get_prop (h2 l) k = get_prop (heap s l) k")
      case True
      obtain i j where
        "member (heap s) (get_prop (heap s l) ''source'') ''id'' = Inr i" "\<not> strict_eq i nodeId"
        "member (heap s) (get_prop (heap s l) ''target'') ''id'' = Inr j" "\<not> strict_eq j nodeId"
        using filter_links_kept [OF fl l] by blast
      then have "\<exists>i. member (heap s) (get_prop (heap s l) k) ''id'' = Inr i \<and> \<not> strict_eq i nodeId"
        using k by auto
      then show ?thesis
        using True member_id_follow [OF ids] by simp
    next
      case False
      then obtain a where a: "a \<in> set ?nodes" "get_prop (h2 l) k = JRef a"
        using c by blast
      then show ?thesis
        using nodes by (auto simp: member_def)
    qed
  qed
  show ?thesis
    using gi gn gl nodes links hs by simp
qed

text \<open>
  \<open>initialize\<close> of the hand-rolled renderer overwrites the entry as well: the timer of
  the simulation that was registered before keeps running.
\<close>

lemma d3_initialize_keeps_old_simulation:
  assumes "graphInstances s containerId = Some old" and "simulation old \<in> live (d3_env s)"
  shows "simulation old \<in> live (d3_env (snd (d3_initialize has_scheme s containerId opts)))"
  using assms by (simp add: d3_initialize_def Let_def split: jsval.splits)

text \<open>
  A colour scheme that the library does not have makes \<open>initialize\<close> raise after the
  simulation was started: nothing is registered and the timer runs.
\<close>

lemma d3_initialize_unknown_scheme:
  "d3_initialize (\<lambda>name. name = ''category10'') d3_empty ''graph''
     (Some [(''colorScheme'', JStr ''nope'')]) =
     (Inl TypeError, d3_empty\<lparr>d3_env := page\<lparr>live := {0}, next_handle := 1\<rparr>\<rparr>)"
  by (simp add: d3_initialize_def d3_empty_def page_def d3_defaultOptions_def spread_def
        get_prop_def Let_def)

text \<open>A link whose source is \<open>null\<close> makes the link force, and so the rendering, raise.\<close>

lemma resolve_links_null_end:
  "resolve_links ((\<lambda>a. [])(0 := [(''source'', JNull), (''target'', JNull)])) [] [0] =
     Inl (TypeError, (\<lambda>a. [])(0 := [(''source'', JNull), (''target'', JNull)]))"
  by (simp add: resolve_end_def get_prop_def is_object_def)


end
